theory Spec2Isabelle
  imports Main "HOL-Library.Sublist"
begin

section \<open>The page state of static/script.js\<close>

text \<open>
  The script keeps its state in three globals (\<open>sessionId\<close>, \<open>currentTab\<close>,
  \<open>fileStorage\<close>) and in the DOM elements it looks up by id. The model passes one
  record around: every function of the script that mutates a global or an element takes
  the record and returns the updated one.

  A workflow ("tab") is one of the five keys of \<open>fileStorage\<close>; every call site of the
  script passes one of these five strings.
\<close>

datatype tab = Triage | Reports | Scribe | Translator | Polypharmacy

text \<open>
  A \<open>File\<close> object as far as the script reads it: \<open>file.type\<close> is tested in
  \<open>handleFileSelect\<close>; the name only tells files apart.
\<close>

record file_obj =
  fname :: string
  ftype :: string

text \<open>A request handed to \<open>fetch\<close>: the endpoint, the files and the session field.\<close>

record request =
  endpoint :: string
  formFiles :: "file_obj list"
  formSession :: string

text \<open>
  \<^item> \<open>fileStorage\<close>: the global of the same name, one list per tab;
  \<^item> \<open>sessionId\<close>: the global, \<open>None\<close> while it is \<open>null\<close>;
  \<^item> \<open>preview\<close>: the element \<open>{tab}-preview\<close> after \<open>updatePreview\<close>: the text of the
    file-count line (if one was prepended) and the (index, file) pairs whose
    \<open>FileReader\<close> was started; the asynchronous completion of the readers is not
    modelled;
  \<^item> \<open>processBtn\<close>: the element \<open>{tab}-process\<close>, \<open>None\<close> when the page has no such
    element (the script guards every use with \<open>processBtn &&\<close>), otherwise its
    \<open>disabled\<close> flag;
  \<^item> \<open>results\<close>: \<open>innerHTML\<close> of the element \<open>{tab}-results\<close>;
  \<^item> \<open>loading\<close>: whether the loading overlay has the class \<open>active\<close>, and
    \<open>loadingLog\<close>: the arguments of the calls of \<open>showLoading\<close>, oldest first;
  \<^item> \<open>toasts\<close>: the (message, type) pairs of the calls of \<open>showToast\<close>, oldest first
    (the timer that hides a toast after four seconds is not modelled);
  \<^item> \<open>requests\<close>: the requests passed to \<open>fetch\<close> by \<open>processTab\<close>, oldest first;
  \<^item> \<open>console\<close>: the messages of the errors given to \<open>console.error\<close>.
  The elements the script uses without a guard (\<open>{tab}-preview\<close>, \<open>{tab}-results\<close>,
  \<open>loading-overlay\<close>, \<open>toast\<close>) are taken to exist.
\<close>

record app =
  sessionId :: "string option"
  fileStorage :: "tab \<Rightarrow> file_obj list"
  preview :: "tab \<Rightarrow> string option \<times> (nat \<times> file_obj) list"
  processBtn :: "tab \<Rightarrow> bool option"
  results :: "tab \<Rightarrow> string"
  loading :: bool
  loadingLog :: "bool list"
  toasts :: "(string \<times> string) list"
  requests :: "request list"
  console :: "string list"

text \<open>The state after page load and before any interaction, with every submit control
  present and disabled.\<close>

definition initial :: app where
  "initial = \<lparr> sessionId = None, fileStorage = (\<lambda>_. []), preview = (\<lambda>_. (None, [])),
     processBtn = (\<lambda>_. Some True), results = (\<lambda>_. []), loading = False, loadingLog = [],
     toasts = [], requests = [], console = [] \<rparr>"

subsection \<open>Numbers in template literals\<close>

text \<open>\<open>`${n}`\<close> for a non-negative integer \<open>n\<close>: its decimal digits.\<close>

definition digit :: "nat \<Rightarrow> char" where
  "digit d = ''0123456789'' ! d"

function show_nat :: "nat \<Rightarrow> string" where
  "show_nat n = (if n < 10 then [digit n] else show_nat (n div 10) @ [digit (n mod 10)])"
  by pat_completeness auto
termination
  by (relation "measure id") auto

declare show_nat.simps [simp del]

subsection \<open>UI helpers\<close>


definition showToast :: "string \<Rightarrow> string \<Rightarrow> app \<Rightarrow> app" where
  "showToast message type st = st\<lparr> toasts := toasts st @ [(message, type)] \<rparr>"

section \<open>File handling\<close>

definition maxFilesOf :: "tab \<Rightarrow> nat" where
  "maxFilesOf t = (if t = Translator then 1 else 10)"

text \<open>\<open>file.type.startsWith('image/')\<close>\<close>

definition startsWith :: "string \<Rightarrow> string \<Rightarrow> bool" where
  "startsWith s p = (take (length p) s = p)"

definition isImage :: "file_obj \<Rightarrow> bool" where
  "isImage f = startsWith (ftype f) ''image/''"

text \<open>
  \<open>updatePreview\<close>: the container is emptied, a reader is started for every stored file
  with its index, and the line \<open>`${n} file(s) selected`\<close> is prepended when the list is
  not empty.
\<close>

definition updatePreview :: "tab \<Rightarrow> app \<Rightarrow> app" where
  "updatePreview t st =
     (let fs = fileStorage st t;
          fileCount = (if length fs > 0 then Some (show_nat (length fs) @ '' file(s) selected'')
                       else None)
      in st\<lparr> preview := (preview st)(t := (fileCount, zip [0 ..< length fs] fs)) \<rparr>)"

text \<open>The body of the \<open>forEach\<close> in \<open>handleFileSelect\<close>: an image is pushed, anything
  else is skipped.\<close>

definition storeFile :: "tab \<Rightarrow> file_obj \<Rightarrow> app \<Rightarrow> app" where
  "storeFile t f st =
     (if startsWith (ftype f) ''image/''
      then st\<lparr> fileStorage := (fileStorage st)(t := fileStorage st t @ [f]) \<rparr>
      else st)"

definition handleFileSelect :: "tab \<Rightarrow> file_obj list \<Rightarrow> app \<Rightarrow> app" where
  "handleFileSelect t files st =
     (let maxFiles = maxFilesOf t in
      if length files = 0 then st
      else if length files > maxFiles
      then showToast (''Maximum '' @ show_nat maxFiles @ '' file(s) allowed'') ''error'' st
      else
        let st1 = st\<lparr> fileStorage := (fileStorage st)(t := []) \<rparr>;
            st2 = fold (storeFile t) files st1;
            st3 = updatePreview t st2
        in case processBtn st3 t of
             None \<Rightarrow> st3
           | Some _ \<Rightarrow>
               if length (fileStorage st3 t) > 0
               then st3\<lparr> processBtn := (processBtn st3)(t := Some False) \<rparr>
               else st3)"

text \<open>
  \<open>xs.splice(index, 1)\<close> on an array: a negative start counts from the end and is
  clamped at 0, a start beyond the end is clamped at the length, and at most one element
  is deleted. The index is an integer (the script writes it into the \<open>onclick\<close> text of a
  preview item as a number).
\<close>

definition splice1 :: "int \<Rightarrow> 'a list \<Rightarrow> 'a list" where
  "splice1 index xs =
     (let len = int (length xs);
          start = (if index < 0 then max (len + index) 0 else min index len);
          deleteCount = min 1 (len - start)
      in take (nat start) xs @ drop (nat start + nat deleteCount) xs)"

definition removeFile :: "tab \<Rightarrow> int \<Rightarrow> app \<Rightarrow> app" where
  "removeFile t index st =
     (let st1 = st\<lparr> fileStorage := (fileStorage st)(t := splice1 index (fileStorage st t)) \<rparr>;
          st2 = updatePreview t st1
      in case processBtn st2 t of
           None \<Rightarrow> st2
         | Some _ \<Rightarrow>
             if length (fileStorage st2 t) = 0
             then st2\<lparr> processBtn := (processBtn st2)(t := Some True) \<rparr>
             else st2)"

text \<open>Three files used in the examples below.\<close>

definition photo :: file_obj where
  "photo = \<lparr> fname = ''photo.png'', ftype = ''image/png'' \<rparr>"

definition scan :: file_obj where
  "scan = \<lparr> fname = ''scan.jpg'', ftype = ''image/jpeg'' \<rparr>"

definition letter :: file_obj where
  "letter = \<lparr> fname = ''letter.pdf'', ftype = ''application/pdf'' \<rparr>"


section \<open>JavaScript values and the operations the renderers apply to them\<close>

text \<open>
  A payload is what \<open>response.json()\<close> returns: a JSON value. \<open>JUndefined\<close> is not a
  JSON value; it is what reading a missing property gives.

  A string of JavaScript is a sequence of UTF-16 code units. It is kept here as the
  bytes of its UTF-8 encoding, extended to the strings that are not well-formed: a
  surrogate code unit that is not part of a pair (\<open>JSON.parse\<close> gives one for the text
  \<open>\ud800\<close>) is the three bytes \<open>ED\<close>, \<open>A0\<close>..\<open>BF\<close>, \<open>80\<close>..\<open>BF\<close> that the UTF-8 scheme gives for
  its number, and a surrogate pair is the four bytes of its code point. The renderers
  concatenate strings, test them for emptiness and compare them with ASCII literals, and
  all of these agree on the bytes and on the code units.

  Numbers are IEEE doubles in JavaScript. The renderers never compute with a number;
  they convert it to a string, test whether it is truthy, and compare a \<open>length\<close> with
  0. A number is therefore kept as its sign and the text \<open>String(n)\<close> gives for it
  (\<open>110\<close> is \<open>JNum Positive ''110''\<close>, \<open>38.2\<close> is \<open>JNum Positive ''38.2''\<close>, and \<open>1e999\<close>,
  which \<open>JSON.parse\<close> reads as infinity, is \<open>JNum Positive ''Infinity''\<close>). JSON has no
  \<open>NaN\<close>.

  An object is the list of its own properties in enumeration order; a parsed object has
  no two properties of the same name, and a lookup takes the first.
\<close>

datatype sign = Negative | IsZero | Positive

datatype jsval =
    JUndefined
  | JNull
  | JBool bool
  | JNum sign string
  | JStr string
  | JArr "jsval list"
  | JObj "(string \<times> jsval) list"

text \<open>
  The exceptions of the script: the \<open>TypeError\<close>s the engine throws, the \<open>Error\<close> that
  \<open>processTab\<close> throws itself, and whatever \<open>fetch\<close> or \<open>response.json()\<close> reject with
  (\<open>OtherError\<close>). The message texts of the engine's own errors are those of V8; no
  property below depends on their wording.
\<close>

datatype js_error = TypeError string | Error string | OtherError string

fun message :: "js_error \<Rightarrow> string" where
  "message (TypeError m) = m"
| "message (Error m) = m"
| "message (OtherError m) = m"

text \<open>
  Three built-ins of the engine are not computed here and are taken as parameters:
  \<^item> \<open>toLowerCase\<close>: \<open>String.prototype.toLowerCase\<close> (Unicode case mapping);
  \<^item> \<open>codePoints\<close>: the strings a \<open>for ... of\<close> over a string yields (its code points);
  \<^item> \<open>numericPositive\<close>: whether \<open>s > 0\<close> holds for a string \<open>s\<close> (its conversion to a
    number).
  Every property below holds for every value of these parameters.
\<close>

record runtime =
  toLowerCase :: "string \<Rightarrow> string"
  codePoints :: "string \<Rightarrow> string list"
  numericPositive :: "string \<Rightarrow> bool"

subsection \<open>Sequencing of computations that may throw\<close>

definition bindE :: "'e + 'a \<Rightarrow> ('a \<Rightarrow> 'e + 'b) \<Rightarrow> 'e + 'b" where
  "bindE m f = (case m of Inl e \<Rightarrow> Inl e | Inr a \<Rightarrow> f a)"

text \<open>The strings are computed from left to right and concatenated; the first exception
  ends the computation.\<close>

fun concatE :: "('e + string) list \<Rightarrow> 'e + string" where
  "concatE [] = Inr []"
| "concatE (m # ms) = bindE m (\<lambda>s. bindE (concatE ms) (\<lambda>r. Inr (s @ r)))"

text \<open>\<open>if (c) { html += body }\<close> as the string that is appended.\<close>

definition whenE :: "'e + bool \<Rightarrow> 'e + string \<Rightarrow> 'e + string" where
  "whenE c body = bindE c (\<lambda>b. if b then body else Inr [])"

subsection \<open>Truthiness, property reads, conversion to a string\<close>

fun truthy :: "jsval \<Rightarrow> bool" where
  "truthy JUndefined = False"
| "truthy JNull = False"
| "truthy (JBool b) = b"
| "truthy (JNum sg t) = (sg \<noteq> IsZero)"
| "truthy (JStr s) = (s \<noteq> [])"
| "truthy (JArr xs) = True"
| "truthy (JObj kvs) = True"

text \<open>\<open>v === null || v === undefined\<close>\<close>

fun nullish :: "jsval \<Rightarrow> bool" where
  "nullish JUndefined = True"
| "nullish JNull = True"
| "nullish v = False"

text \<open>
  \<open>v.k\<close> and \<open>v[k]\<close> for the property names the script reads from a payload (the field
  names of the five result schemas, \<open>status\<close> and \<open>error\<close>). None of them is a property
  of \<open>Object.prototype\<close>, \<open>Array.prototype\<close>, \<open>String.prototype\<close>, \<open>Number.prototype\<close> or
  \<open>Boolean.prototype\<close>, so the read gives an object's own property or \<open>undefined\<close>, and
  \<open>undefined\<close> on any other value but \<open>null\<close> and \<open>undefined\<close>, where it throws.
  \<open>length\<close>, \<open>map\<close> and \<open>toLowerCase\<close> are modelled apart, below.
\<close>

fun get :: "jsval \<Rightarrow> string \<Rightarrow> js_error + jsval" where
  "get JUndefined k =
     Inl (TypeError (''Cannot read properties of undefined (reading '' @ [CHR 0x27] @ k @ [CHR 0x27] @ '')''))"
| "get JNull k =
     Inl (TypeError (''Cannot read properties of null (reading '' @ [CHR 0x27] @ k @ [CHR 0x27] @ '')''))"
| "get (JObj kvs) k = Inr (case map_of kvs k of None \<Rightarrow> JUndefined | Some v \<Rightarrow> v)"
| "get v k = Inr JUndefined"

text \<open>\<open>a || b\<close>\<close>

definition orElse :: "jsval \<Rightarrow> jsval \<Rightarrow> jsval" where
  "orElse a b = (if truthy a then a else b)"

text \<open>
  \<open>`${v}`\<close>, that is \<open>ToString(v)\<close>. An array is joined with commas, with \<open>null\<close> and
  \<open>undefined\<close> elements as empty strings. A parsed object has no callable property, so
  it is \<open>[object Object]\<close> unless it has an own property \<open>toString\<close>, which hides
  \<open>Object.prototype.toString\<close> and leaves no way to a primitive value.
\<close>

fun toStr :: "jsval \<Rightarrow> js_error + string"
  and joinComma :: "jsval list \<Rightarrow> js_error + string" where
  "toStr JUndefined = Inr ''undefined''"
| "toStr JNull = Inr ''null''"
| "toStr (JBool b) = Inr (if b then ''true'' else ''false'')"
| "toStr (JNum sg t) = Inr t"
| "toStr (JStr s) = Inr s"
| "toStr (JArr xs) = joinComma xs"
| "toStr (JObj kvs) =
     (if map_of kvs ''toString'' \<noteq> None
      then Inl (TypeError ''Cannot convert object to primitive value'')
      else Inr ''[object Object]'')"
| "joinComma [] = Inr []"
| "joinComma [x] = (if nullish x then Inr [] else toStr x)"
| "joinComma (x # y # ys) =
     bindE (if nullish x then Inr [] else toStr x)
       (\<lambda>s. bindE (joinComma (y # ys)) (\<lambda>r. Inr (s @ '','' @ r)))"

text \<open>
  \<open>v > 0\<close>: \<open>undefined\<close> is \<open>NaN\<close>, \<open>null\<close> is 0, \<open>true\<close> is 1; an array or an object is
  first converted to a string (as above: \<open>valueOf\<close> never gives a primitive for them),
  and \<open>[object Object]\<close> is \<open>NaN\<close>.
\<close>

fun gt0 :: "runtime \<Rightarrow> jsval \<Rightarrow> js_error + bool" where
  "gt0 rt JUndefined = Inr False"
| "gt0 rt JNull = Inr False"
| "gt0 rt (JBool b) = Inr b"
| "gt0 rt (JNum sg t) = Inr (sg = Positive)"
| "gt0 rt (JStr s) = Inr (numericPositive rt s)"
| "gt0 rt (JArr xs) = bindE (toStr (JArr xs)) (\<lambda>s. Inr (numericPositive rt s))"
| "gt0 rt (JObj kvs) = bindE (toStr (JObj kvs)) (\<lambda>s. Inr False)"

text \<open>\<open>x.length > 0\<close> and \<open>x.length === 0\<close>: the length of an array or a string, the own
  property \<open>length\<close> of an object, \<open>undefined\<close> for a boolean or a number.\<close>

fun lengthPositive :: "runtime \<Rightarrow> jsval \<Rightarrow> js_error + bool" where
  "lengthPositive rt (JArr xs) = Inr (xs \<noteq> [])"
| "lengthPositive rt (JStr s) = Inr (s \<noteq> [])"
| "lengthPositive rt v = bindE (get v ''length'') (gt0 rt)"

fun lengthIsZero :: "jsval \<Rightarrow> js_error + bool" where
  "lengthIsZero (JArr xs) = Inr (xs = [])"
| "lengthIsZero (JStr s) = Inr (s = [])"
| "lengthIsZero v =
     bindE (get v ''length'') (\<lambda>n. Inr (case n of JNum sg t \<Rightarrow> sg = IsZero | _ \<Rightarrow> False))"

text \<open>The condition \<open>x && x.length > 0\<close> of the list sections.\<close>

definition hasItems :: "runtime \<Rightarrow> jsval \<Rightarrow> js_error + bool" where
  "hasItems rt x = (if truthy x then lengthPositive rt x else Inr False)"

text \<open>The condition \<open>if (x)\<close> on a property that was read.\<close>

definition truthyE :: "js_error + jsval \<Rightarrow> js_error + bool" where
  "truthyE m = bindE m (\<lambda>v. Inr (truthy v))"

text \<open>
  \<open>x.map(f).join('')\<close> where \<open>f\<close> returns a string: only an array has a callable \<open>map\<close>.
  \<open>name\<close> is the text of the expression \<open>x\<close>, for the message.
\<close>

fun mapJoin :: "string \<Rightarrow> (jsval \<Rightarrow> js_error + string) \<Rightarrow> jsval \<Rightarrow> js_error + string" where
  "mapJoin name f (JArr xs) = concatE (map f xs)"
| "mapJoin name f JUndefined = bindE (get JUndefined ''map'') (\<lambda>m. Inr [])"
| "mapJoin name f JNull = bindE (get JNull ''map'') (\<lambda>m. Inr [])"
| "mapJoin name f v = Inl (TypeError (name @ ''.map is not a function''))"

text \<open>The values a \<open>for (const x of v)\<close> runs through: the elements of an array, the code
  points of a string; nothing else in a payload is iterable.\<close>

fun forOf :: "runtime \<Rightarrow> string \<Rightarrow> jsval \<Rightarrow> js_error + jsval list" where
  "forOf rt name (JArr xs) = Inr xs"
| "forOf rt name (JStr s) = Inr (map JStr (codePoints rt s))"
| "forOf rt name v = Inl (TypeError (name @ '' is not iterable''))"

text \<open>\<open>v?.toLowerCase()\<close>\<close>

fun optLowerCase :: "runtime \<Rightarrow> string \<Rightarrow> jsval \<Rightarrow> js_error + jsval" where
  "optLowerCase rt name JUndefined = Inr JUndefined"
| "optLowerCase rt name JNull = Inr JUndefined"
| "optLowerCase rt name (JStr s) = Inr (JStr (toLowerCase rt s))"
| "optLowerCase rt name v = Inl (TypeError (name @ ''?.toLowerCase is not a function''))"

subsection \<open>Template literals\<close>

text \<open>
  A template literal is a list of pieces: literal text, a substitution \<open>${e}\<close> whose
  value is converted with \<open>ToString\<close>, and a substitution whose expression is already a
  string (a nested template, the result of a builder, \<open>.join('')\<close>). The pieces are
  evaluated from left to right.
\<close>

datatype piece = Lit string | Val "js_error + jsval" | Html "js_error + string"

fun pieceStr :: "piece \<Rightarrow> js_error + string" where
  "pieceStr (Lit s) = Inr s"
| "pieceStr (Val m) = bindE m toStr"
| "pieceStr (Html m) = m"

definition template :: "piece list \<Rightarrow> js_error + string" where
  "template ps = concatE (map pieceStr ps)"

subsection \<open>\<open>JSON.stringify(v, null, 2)\<close>\<close>

definition hexDigit :: "nat \<Rightarrow> char" where
  "hexDigit d = ''0123456789abcdef'' ! d"

text \<open>\<open>QuoteJSONString\<close>, for one code unit that is not a surrogate: the quote, the
  backslash and the control characters are escaped, everything else is copied.\<close>

definition escapeChar :: "char \<Rightarrow> string" where
  "escapeChar c =
     (if c = CHR 0x22 then [CHR 0x5C, CHR 0x22]
      else if c = CHR 0x5C then [CHR 0x5C, CHR 0x5C]
      else if c = CHR 0x08 then [CHR 0x5C, CHR ''b'']
      else if c = CHR 0x09 then [CHR 0x5C, CHR ''t'']
      else if c = CHR 0x0A then [CHR 0x5C, CHR ''n'']
      else if c = CHR 0x0C then [CHR 0x5C, CHR ''f'']
      else if c = CHR 0x0D then [CHR 0x5C, CHR ''r'']
      else if of_char c < (32 :: nat)
      then [CHR 0x5C, CHR ''u'', CHR ''0'', CHR ''0'',
            hexDigit (of_char c div 16), hexDigit (of_char c mod 16)]
      else [c])"

text \<open>
  The three bytes of a surrogate code unit that stands alone, and the escape
  \<open>QuoteJSONString\<close> writes for it: \<open>\u\<close> and the four lower-case hexadecimal digits of
  its number, which is \<open>0xD000 + 64 * (d - 0x80) + (e - 0x80)\<close>.
\<close>

definition isSurrogate :: "char \<Rightarrow> char \<Rightarrow> char \<Rightarrow> bool" where
  "isSurrogate c d e \<longleftrightarrow>
     c = CHR 0xED \<and> (160 :: nat) \<le> of_char d \<and> of_char d \<le> (191 :: nat)
     \<and> (128 :: nat) \<le> of_char e \<and> of_char e \<le> (191 :: nat)"

definition surrogateEscape :: "char \<Rightarrow> char \<Rightarrow> string" where
  "surrogateEscape d e =
     (let n = (of_char d - 128) * 64 + (of_char e - 128) :: nat
      in [CHR 0x5C, CHR ''u'', CHR ''d'',
          hexDigit (n div 256), hexDigit (n div 16 mod 16), hexDigit (n mod 16)])"

fun quoteJSONChars :: "string \<Rightarrow> string" where
  "quoteJSONChars (c # d # e # cs) =
     (if isSurrogate c d e then surrogateEscape d e @ quoteJSONChars cs
      else escapeChar c @ quoteJSONChars (d # e # cs))"
| "quoteJSONChars (c # cs) = escapeChar c @ quoteJSONChars cs"
| "quoteJSONChars [] = []"

definition quoteJSON :: "string \<Rightarrow> string" where
  "quoteJSON s = [CHR 0x22] @ quoteJSONChars s @ [CHR 0x22]"

fun joinLines :: "string \<Rightarrow> string list \<Rightarrow> string" where
  "joinLines sep [] = []"
| "joinLines sep [x] = x"
| "joinLines sep (x # y # ys) = x @ sep @ joinLines sep (y # ys)"

text \<open>An array or object with the serialised items \<open>items\<close>, at indentation \<open>ind\<close>.\<close>

definition wrapItems :: "string \<Rightarrow> string \<Rightarrow> string \<Rightarrow> string list \<Rightarrow> string" where
  "wrapItems opn cls ind items =
     (if items = [] then opn @ cls
      else opn @ [CHR 0x0A] @ ind @ ''  ''
           @ joinLines ('','' @ [CHR 0x0A] @ ind @ ''  '') items
           @ [CHR 0x0A] @ ind @ cls)"

text \<open>
  The text of a value at indentation \<open>ind\<close>. A number that is not finite is \<open>null\<close>. A
  property whose value is \<open>undefined\<close> is left out and an \<open>undefined\<close> array element is
  \<open>null\<close> (neither occurs in a parsed payload). A parsed object has no callable
  \<open>toJSON\<close>.
\<close>

fun serialize :: "string \<Rightarrow> jsval \<Rightarrow> string"
  and serializeElems :: "string \<Rightarrow> jsval list \<Rightarrow> string list"
  and serializeProps :: "string \<Rightarrow> (string \<times> jsval) list \<Rightarrow> string list" where
  "serialize ind JUndefined = ''null''"
| "serialize ind JNull = ''null''"
| "serialize ind (JBool b) = (if b then ''true'' else ''false'')"
| "serialize ind (JNum sg t) =
     (if t = ''Infinity'' \<or> t = ''-Infinity'' \<or> t = ''NaN'' then ''null'' else t)"
| "serialize ind (JStr s) = quoteJSON s"
| "serialize ind (JArr xs) = wrapItems ''['' '']'' ind (serializeElems (ind @ ''  '') xs)"
| "serialize ind (JObj kvs) = wrapItems ''{'' ''}'' ind (serializeProps (ind @ ''  '') kvs)"
| "serializeElems ind [] = []"
| "serializeElems ind (x # xs) = serialize ind x # serializeElems ind xs"
| "serializeProps ind [] = []"
| "serializeProps ind ((k, v) # kvs) =
     (if v = JUndefined then serializeProps ind kvs
      else (quoteJSON k @ '': '' @ serialize ind v) # serializeProps ind kvs)"

text \<open>\<open>JSON.stringify(v, null, 2)\<close>: \<open>undefined\<close> for \<open>undefined\<close>, a string otherwise.\<close>

definition jsonStringify :: "jsval \<Rightarrow> jsval" where
  "jsonStringify v = (if v = JUndefined then JUndefined else JStr (serialize [] v))"



section \<open>The renderers\<close>

text \<open>
  Every builder returns the HTML text it builds, or the exception it throws. The
  literal text of the templates is that of the script, line breaks and indentation
  included; characters outside ASCII are named constants holding their UTF-8 bytes.
\<close>

definition u_alarm_clock :: string where
  "u_alarm_clock = [CHR 0xE2, CHR 0x8F, CHR 0xB0]"

definition u_ambulance :: string where
  "u_ambulance = [CHR 0xF0, CHR 0x9F, CHR 0x9A, CHR 0x91]"

definition u_anticlockwise_downwards_and_upwards_open_circle_arrows :: string where
  "u_anticlockwise_downwards_and_upwards_open_circle_arrows = [CHR 0xF0, CHR 0x9F, CHR 0x94, CHR 0x84]"

definition u_bar_chart :: string where
  "u_bar_chart = [CHR 0xF0, CHR 0x9F, CHR 0x93, CHR 0x8A]"

definition u_beating_heart :: string where
  "u_beating_heart = [CHR 0xF0, CHR 0x9F, CHR 0x92, CHR 0x93]"

definition u_black_question_mark_ornament :: string where
  "u_black_question_mark_ornament = [CHR 0xE2, CHR 0x9D, CHR 0x93]"

definition u_blue_heart :: string where
  "u_blue_heart = [CHR 0xF0, CHR 0x9F, CHR 0x92, CHR 0x99]"

definition u_brain :: string where
  "u_brain = [CHR 0xF0, CHR 0x9F, CHR 0xA7, CHR 0xA0]"

definition u_clipboard :: string where
  "u_clipboard = [CHR 0xF0, CHR 0x9F, CHR 0x93, CHR 0x8B]"

definition u_degree_sign :: string where
  "u_degree_sign = [CHR 0xC2, CHR 0xB0]"

definition u_devanagari_letter_da :: string where
  "u_devanagari_letter_da = [CHR 0xE0, CHR 0xA4, CHR 0xA6]"

definition u_devanagari_letter_ha :: string where
  "u_devanagari_letter_ha = [CHR 0xE0, CHR 0xA4, CHR 0xB9]"

definition u_devanagari_sign_anusvara :: string where
  "u_devanagari_sign_anusvara = [CHR 0xE0, CHR 0xA4, CHR 0x82]"

definition u_devanagari_vowel_sign_i :: string where
  "u_devanagari_vowel_sign_i = [CHR 0xE0, CHR 0xA4, CHR 0xBF]"

definition u_devanagari_vowel_sign_ii :: string where
  "u_devanagari_vowel_sign_ii = [CHR 0xE0, CHR 0xA5, CHR 0x80]"

definition u_electric_light_bulb :: string where
  "u_electric_light_bulb = [CHR 0xF0, CHR 0x9F, CHR 0x92, CHR 0xA1]"

definition u_eye :: string where
  "u_eye = [CHR 0xF0, CHR 0x9F, CHR 0x91, CHR 0x81]"

definition u_eyes :: string where
  "u_eyes = [CHR 0xF0, CHR 0x9F, CHR 0x91, CHR 0x80]"

definition u_flexed_biceps :: string where
  "u_flexed_biceps = [CHR 0xF0, CHR 0x9F, CHR 0x92, CHR 0xAA]"

definition u_globe_with_meridians :: string where
  "u_globe_with_meridians = [CHR 0xF0, CHR 0x9F, CHR 0x8C, CHR 0x90]"

definition u_heavy_check_mark :: string where
  "u_heavy_check_mark = [CHR 0xE2, CHR 0x9C, CHR 0x94]"

definition u_hourglass_with_flowing_sand :: string where
  "u_hourglass_with_flowing_sand = [CHR 0xE2, CHR 0x8F, CHR 0xB3]"

definition u_large_green_circle :: string where
  "u_large_green_circle = [CHR 0xF0, CHR 0x9F, CHR 0x9F, CHR 0xA2]"

definition u_large_red_circle :: string where
  "u_large_red_circle = [CHR 0xF0, CHR 0x9F, CHR 0x94, CHR 0xB4]"

definition u_large_yellow_circle :: string where
  "u_large_yellow_circle = [CHR 0xF0, CHR 0x9F, CHR 0x9F, CHR 0xA1]"

definition u_left_pointing_magnifying_glass :: string where
  "u_left_pointing_magnifying_glass = [CHR 0xF0, CHR 0x9F, CHR 0x94, CHR 0x8D]"

definition u_lungs :: string where
  "u_lungs = [CHR 0xF0, CHR 0x9F, CHR 0xAB, CHR 0x81]"

definition u_microscope :: string where
  "u_microscope = [CHR 0xF0, CHR 0x9F, CHR 0x94, CHR 0xAC]"

definition u_open_book :: string where
  "u_open_book = [CHR 0xF0, CHR 0x9F, CHR 0x93, CHR 0x96]"

definition u_pill :: string where
  "u_pill = [CHR 0xF0, CHR 0x9F, CHR 0x92, CHR 0x8A]"

definition u_police_cars_revolving_light :: string where
  "u_police_cars_revolving_light = [CHR 0xF0, CHR 0x9F, CHR 0x9A, CHR 0xA8]"

definition u_pushpin :: string where
  "u_pushpin = [CHR 0xF0, CHR 0x9F, CHR 0x93, CHR 0x8C]"

definition u_speaking_head_in_silhouette :: string where
  "u_speaking_head_in_silhouette = [CHR 0xF0, CHR 0x9F, CHR 0x97, CHR 0xA3]"

definition u_stethoscope :: string where
  "u_stethoscope = [CHR 0xF0, CHR 0x9F, CHR 0xA9, CHR 0xBA]"

definition u_stopwatch :: string where
  "u_stopwatch = [CHR 0xE2, CHR 0x8F, CHR 0xB1]"

definition u_thermometer :: string where
  "u_thermometer = [CHR 0xF0, CHR 0x9F, CHR 0x8C, CHR 0xA1]"

definition u_vs16 :: string where
  "u_vs16 = [CHR 0xEF, CHR 0xB8, CHR 0x8F]"

definition u_warning_sign :: string where
  "u_warning_sign = [CHR 0xE2, CHR 0x9A, CHR 0xA0]"

definition u_white_heavy_check_mark :: string where
  "u_white_heavy_check_mark = [CHR 0xE2, CHR 0x9C, CHR 0x85]"

definition u_writing_hand :: string where
  "u_writing_hand = [CHR 0xE2, CHR 0x9C, CHR 0x8D]"

subsection \<open>Triage\<close>

definition distressClass :: "jsval \<Rightarrow> string" where
  "distressClass level =
     (if level = JStr ''Severe'' then ''danger''
      else if level = JStr ''Moderate'' then ''warning''
      else if level = JStr ''Mild'' then ''warning''
      else ''info'')"

definition distressIcon :: "jsval \<Rightarrow> string" where
  "distressIcon level =
     (if level = JStr ''Severe'' then u_large_red_circle
      else if level = JStr ''Moderate'' then u_large_yellow_circle
      else if level = JStr ''Mild'' then u_large_yellow_circle
      else u_large_green_circle)"

definition consciousnessClass :: "jsval \<Rightarrow> string" where
  "consciousnessClass c =
     (if c = JStr ''alert'' then ''success''
      else if c = JStr ''drowsy'' then ''warning''
      else ''danger'')"

definition buildPhysicalAssessment :: "runtime \<Rightarrow> jsval \<Rightarrow> js_error + string" where
  \<open>buildPhysicalAssessment rt physical =
     (if \<not> truthy physical then Inr ''<p class="no-data">No physical assessment available</p>''
      else template
        [Lit ''<div class="physical-assessment">'',
         Html (whenE (truthyE (get physical ''physical_condition''))
           (template
             [Lit (''
            <div class="assessment-item">
                <span class="assessment-label">'' @ u_stethoscope @ '' Overall Condition</span>
                <span class="assessment-value">''),
              Val (get physical ''physical_condition''),
              Lit ''</span>
            </div>
        ''])),
         Html (whenE (truthyE (get physical ''distress_level''))
           (bindE (get physical ''distress_level'') (\<lambda>level. template
             [Lit (''
            <div class="assessment-item">
                <span class="assessment-label">'' @ u_warning_sign @ u_vs16 @ '' Distress Level</span>
                <span class="assessment-badge ''),
              Lit (distressClass level),
              Lit ''">'',
              Lit (distressIcon level),
              Lit '' '',
              Val (Inr level),
              Lit ''</span>
            </div>
        '']))),
         Html (whenE (truthyE (get physical ''breathing_assessment''))
           (template
             [Lit (''
            <div class="assessment-item">
                <span class="assessment-label">'' @ u_lungs @ '' Breathing</span>
                <span class="assessment-value">''),
              Val (get physical ''breathing_assessment''),
              Lit ''</span>
            </div>
        ''])),
         Html (whenE (truthyE (get physical ''consciousness''))
           (bindE (get physical ''consciousness'') (\<lambda>c. template
             [Lit (''
            <div class="assessment-item">
                <span class="assessment-label">'' @ u_brain @ '' Consciousness</span>
                <span class="assessment-badge ''),
              Lit (consciousnessClass c),
              Lit ''">'',
              Val (Inr c),
              Lit ''</span>
            </div>
        '']))),
         Html (bindE (get physical ''visible_signs'') (\<lambda>visible_signs.
           whenE (hasItems rt visible_signs)
           (template
             [Lit (''
            <div class="assessment-item full-width">
                <span class="assessment-label">'' @ u_eyes @ '' Visible Signs</span>
                <div class="signs-list">
                    ''),
              Html (mapJoin ''physical.visible_signs'' (\<lambda>sign. template
                 [Lit ''<span class="sign-badge">'', Val (Inr sign), Lit ''</span>'']) visible_signs),
              Lit ''
                </div>
            </div>
        '']))),
         Lit ''</div>''])\<close>

text \<open>\<open>vitalsMap\<close>: key, label and unit, in the order \<open>Object.entries\<close> gives them.\<close>

definition vitalsMap :: "(string \<times> string \<times> string) list" where
  "vitalsMap =
     [(''pulse'', (u_beating_heart @ '' Pulse''), ''bpm''),
      (''bp'', (u_stethoscope @ '' Blood Pressure''), ''mmHg''),
      (''spo2'', (u_lungs @ '' SpO2''), ''%''),
      (''temperature'', (u_thermometer @ u_vs16 @ '' Temperature''), (u_degree_sign @ ''C''))]"

text \<open>One round of the loop over \<open>vitalsMap\<close>: the text appended to \<open>html\<close>.\<close>

definition vitalItem :: "jsval \<Rightarrow> string \<times> string \<times> string \<Rightarrow> js_error + string" where
  \<open>vitalItem vitals entry =
     (case entry of (key, label, unit) \<Rightarrow>
      bindE (get vitals key) (\<lambda>value.
      bindE (if value = JNull \<or> value = JUndefined then Inr ''Not recorded''
             else template [Val (Inr value),
                            Lit '' '',
                            Lit unit])
        (\<lambda>displayValue. template
          [Lit ''
            <div class="vital-item">
                <span class="vital-label">'',
           Lit label,
           Lit ''</span>
                <span class="vital-value '',
           Lit (if value = JNull then ''missing'' else ''''),
           Lit ''">'',
           Lit displayValue,
           Lit ''</span>
            </div>
        ''])))\<close>

definition buildVitalsTable :: "jsval \<Rightarrow> js_error + string" where
  \<open>buildVitalsTable vitals =
     (if \<not> truthy vitals then Inr ''<p class="no-data">No vitals extracted</p>''
      else template
        ([Lit ''<div class="vitals-grid">'']
         @ map (\<lambda>entry. Html (vitalItem vitals entry)) vitalsMap
         @ [Html (whenE (truthyE (get vitals ''physical_signs''))
             (template
               [Lit (''
            <div class="vital-item full-width">
                <span class="vital-label">'' @ u_eyes @ '' Physical Observations</span>
                <span class="vital-value">''),
                Val (get vitals ''physical_signs''),
                Lit ''</span>
            </div>
        ''])),
            Lit ''</div>'']))\<close>

definition priorityClass :: "jsval \<Rightarrow> string" where
  "priorityClass priority =
     (let statusClass = ''warning'';
          statusClass = (if priority = JStr ''RED'' then ''danger'' else statusClass);
          statusClass = (if priority = JStr ''GREEN'' then ''success'' else statusClass)
      in statusClass)"

definition priorityIcon :: "jsval \<Rightarrow> string" where
  "priorityIcon priority =
     (let statusIcon = u_large_yellow_circle;
          statusIcon = (if priority = JStr ''RED'' then u_large_red_circle else statusIcon);
          statusIcon = (if priority = JStr ''GREEN'' then u_large_green_circle else statusIcon)
      in statusIcon)"

definition buildTriageAnalysis :: "runtime \<Rightarrow> jsval \<Rightarrow> js_error + string" where
  \<open>buildTriageAnalysis rt analysis =
     (if \<not> truthy analysis then Inr ''<p class="no-data">No analysis available</p>''
      else bindE (get analysis ''priority'') (\<lambda>priority. template
        [Html (template
           [Lit ''
        <div class="priority-badge '',
            Lit (priorityClass priority),
            Lit ''">
            <span class="priority-icon">'',
            Lit (priorityIcon priority),
            Lit ''</span>
            <span class="priority-text">'',
            Val (Inr (orElse priority (JStr ''Unknown''))),
            Lit '' Priority</span>
        </div>
    '']),
         Html (whenE (truthyE (get analysis ''justification_english''))
           (template
             [Lit (''
            <div class="justification">
                <h4>'' @ u_speaking_head_in_silhouette @ u_vs16 @ '' English</h4>
                <p>''),
              Val (get analysis ''justification_english''),
              Lit ''</p>
            </div>
        ''])),
         Html (whenE (truthyE (get analysis ''justification_hindi''))
           (template
             [Lit (''
            <div class="justification">
                <h4>'' @ u_speaking_head_in_silhouette @ u_vs16 @ '' '' @ u_devanagari_letter_ha @ u_devanagari_vowel_sign_i @ u_devanagari_sign_anusvara @ u_devanagari_letter_da @ u_devanagari_vowel_sign_ii @ ''</h4>
                <p>''),
              Val (get analysis ''justification_hindi''),
              Lit ''</p>
            </div>
        ''])),
         Html (whenE (truthyE (get analysis ''recommended_action''))
           (template
             [Lit (''
            <div class="action-box">
                <h4>'' @ u_electric_light_bulb @ '' Recommended Action</h4>
                <p>''),
              Val (get analysis ''recommended_action''),
              Lit ''</p>
            </div>
        ''])),
         Html (bindE (get analysis ''key_vital_flags'') (\<lambda>key_vital_flags.
           whenE (hasItems rt key_vital_flags)
           (template
             [Lit (''
            <div class="flags-list">
                <h4>'' @ u_warning_sign @ u_vs16 @ '' Vital Signs Concerns</h4>
                <ul>''),
              Html (mapJoin ''analysis.key_vital_flags'' (\<lambda>flag. template
                 [Lit ''<li class="vital-flag">'', Val (Inr flag), Lit ''</li>'']) key_vital_flags),
              Lit ''</ul>
            </div>
        '']))),
         Html (bindE (get analysis ''physical_flags'') (\<lambda>physical_flags.
           whenE (hasItems rt physical_flags)
           (template
             [Lit (''
            <div class="flags-list">
                <h4>'' @ u_eye @ u_vs16 @ '' Physical Assessment Concerns</h4>
                <ul>''),
              Html (mapJoin ''analysis.physical_flags'' (\<lambda>flag. template
                 [Lit ''<li class="physical-flag">'', Val (Inr flag), Lit ''</li>'']) physical_flags),
              Lit ''</ul>
            </div>
        '']))),
         Html (whenE (truthyE (get analysis ''assessment_basis''))
           (template
             [Lit (''
            <div class="assessment-basis">
                <span class="basis-badge">'' @ u_clipboard @ '' Based on: ''),
              Val (get analysis ''assessment_basis''),
              Lit ''</span>
            </div>
        '']))]))\<close>

definition buildTriageResults :: "runtime \<Rightarrow> jsval \<Rightarrow> js_error + string" where
  \<open>buildTriageResults rt result =
     bindE (get result ''vitals_extraction'') (\<lambda>vitals.
     bindE (get result ''physical_assessment'') (\<lambda>physical.
     bindE (get result ''triage_analysis'') (\<lambda>analysis.
     template
       [Lit (''
        <div class="result-item">
            <div class="result-label">'' @ u_bar_chart @ '' Vitals Extracted</div>
            <div class="result-content">
                ''),
        Html (buildVitalsTable vitals),
        Lit (''
            </div>
        </div>
        <div class="result-item">
            <div class="result-label">'' @ u_eye @ u_vs16 @ '' Physical Assessment</div>
            <div class="result-content">
                ''),
        Html (buildPhysicalAssessment rt physical),
        Lit (''
            </div>
        </div>
        <div class="result-item">
            <div class="result-label">'' @ u_ambulance @ '' Triage Analysis</div>
            <div class="result-content">
                ''),
        Html (buildTriageAnalysis rt analysis),
        Lit ''
            </div>
        </div>
    ''])))\<close>

subsection \<open>Lab reports\<close>

definition testStatusClass :: "jsval \<Rightarrow> string" where
  "testStatusClass status =
     (if status = JStr ''Normal'' then ''normal''
      else if status = JStr ''High'' then ''high''
      else if status = JStr ''Low'' then ''low''
      else ''unknown'')"

text \<open>One round of the loop over \<open>tests\<close>.\<close>

definition testRow :: "jsval \<Rightarrow> js_error + string" where
  \<open>testRow test =
     bindE (get test ''status'') (\<lambda>status. template
       [Lit ''
            <div class="test-row">
                <span class="test-name">'',
        Val (bindE (get test ''test_name'') (\<lambda>v. Inr (orElse v (JStr ''Unknown'')))),
        Lit ''</span>
                <span class="test-result">'',
        Val (bindE (get test ''result'') (\<lambda>v. Inr (orElse v (JStr ''N/A'')))),
        Lit '' '',
        Val (bindE (get test ''unit'') (\<lambda>v. Inr (orElse v (JStr '''')))),
        Lit ''</span>
                <span class="test-range">'',
        Val (bindE (get test ''reference_range'') (\<lambda>v. Inr (orElse v (JStr ''N/A'')))),
        Lit ''</span>
                <span class="test-status '',
        Lit (testStatusClass status),
        Lit ''">'',
        Val (Inr (orElse status (JStr ''Unknown''))),
        Lit ''</span>
            </div>
        ''])\<close>

definition buildTestsTable :: "runtime \<Rightarrow> jsval \<Rightarrow> js_error + string" where
  \<open>buildTestsTable rt tests =
     bindE (if \<not> truthy tests then Inr True else lengthIsZero tests) (\<lambda>empty.
     if empty
     then Inr (''<p class="no-data">'' @ u_warning_sign @ u_vs16 @ '' No test data extracted. The image might need better quality or different angle.</p>'')
     else bindE (forOf rt ''tests'' tests) (\<lambda>rows. template
       [Lit ''<div class="tests-table">'',
        Lit ''
        <div class="test-header">
            <span>Test Name</span>
            <span>Result</span>
            <span>Reference Range</span>
            <span>Status</span>
        </div>
    '',
        Html (concatE (map testRow rows)),
        Lit ''</div>'']))\<close>

definition explanationIcon :: "jsval \<Rightarrow> string" where
  "explanationIcon status =
     (if status = JStr ''Normal'' then u_white_heavy_check_mark
      else if status = JStr ''Concerning'' then (u_warning_sign @ u_vs16)
      else u_black_question_mark_ornament)"

text \<open>One round of the loop over \<open>explanations.explanations\<close>.\<close>

definition explanationItem :: "runtime \<Rightarrow> jsval \<Rightarrow> js_error + string" where
  \<open>explanationItem rt exp =
     bindE (get exp ''status'') (\<lambda>status. template
       [Lit ''
            <div class="explanation-item">
                <div class="exp-header">
                    <span class="exp-test-name">'',
        Lit (explanationIcon status),
        Lit '' '',
        Val (get exp ''test_name''),
        Lit ''</span>
                    <span class="exp-status '',
        Val (optLowerCase rt ''exp.status'' status),
        Lit ''">'',
        Val (Inr status),
        Lit ''</span>
                </div>
                <p class="exp-description">'',
        Val (get exp ''simple_explanation''),
        Lit ''</p>
                '',
        Html (bindE (get exp ''analogy'') (\<lambda>analogy.
           if truthy analogy then template [Lit (''<p class="exp-analogy">'' @ u_electric_light_bulb @ '' <em>''), Val (Inr analogy), Lit ''</em></p>''] else Inr [])),
        Lit ''
            </div>
        ''])\<close>

definition buildPatientExplanation :: "runtime \<Rightarrow> jsval \<Rightarrow> js_error + string" where
  \<open>buildPatientExplanation rt explanations =
     bindE (if \<not> truthy explanations then Inr True
            else bindE (get explanations ''explanations'') (\<lambda>e. Inr (\<not> truthy e))) (\<lambda>missing.
     if missing
     then Inr ''<p class="no-data">No explanations available</p>''
     else bindE (get explanations ''explanations'') (\<lambda>exps.
          bindE (forOf rt ''explanations.explanations'' exps) (\<lambda>items. template
       [Lit ''<div class="explanations-list">'',
        Html (concatE (map (explanationItem rt) items)),
        Html (bindE (get explanations ''next_steps'') (\<lambda>next_steps.
          whenE (hasItems rt next_steps)
          (template
             [Lit (''
            <div class="next-steps">
                <h4>'' @ u_clipboard @ '' Next Steps</h4>
                <ul>''),
              Html (mapJoin ''explanations.next_steps'' (\<lambda>step. template
                 [Lit ''<li>'', Val (Inr step), Lit ''</li>'']) next_steps),
              Lit ''</ul>
            </div>
        '']))),
        Html (whenE (truthyE (get explanations ''warning_signs''))
          (template
             [Lit (''
            <div class="warning-signs">
                <h4>'' @ u_police_cars_revolving_light @ '' Warning Signs</h4>
                <p>''),
              Val (get explanations ''warning_signs''),
              Lit ''</p>
            </div>
        ''])),
        Lit ''</div>''])))\<close>

definition buildReportsResults :: "runtime \<Rightarrow> jsval \<Rightarrow> js_error + string" where
  \<open>buildReportsResults rt result =
     bindE (get result ''extracted_tests'') (\<lambda>tests.
     bindE (get result ''patient_explanations'') (\<lambda>explanations.
     template
       [Lit (''
        <div class="result-item">
            <div class="result-label">'' @ u_microscope @ '' Extracted Tests</div>
            <div class="result-content">
                ''),
        Html (buildTestsTable rt tests),
        Lit (''
            </div>
        </div>
        <div class="result-item">
            <div class="result-label">'' @ u_open_book @ '' Patient Explanation</div>
            <div class="result-content">
                ''),
        Html (buildPatientExplanation rt explanations),
        Lit ''
            </div>
        </div>
    '']))\<close>

subsection \<open>Scribe\<close>

definition buildTranscribedNotes :: "runtime \<Rightarrow> jsval \<Rightarrow> js_error + string" where
  \<open>buildTranscribedNotes rt notes =
     (if \<not> truthy notes then Inr ''<p class="no-data">No notes transcribed</p>''
      else template
        [Lit ''<div class="notes-sections">'',
         Html (bindE (get notes ''chief_complaints'') (\<lambda>chief_complaints.
           whenE (hasItems rt chief_complaints)
           (template
             [Lit (''
            <div class="notes-section">
                <h4>'' @ u_stethoscope @ '' Chief Complaints</h4>
                <ul class="complaints-list">
                    ''),
              Html (mapJoin ''notes.chief_complaints'' (\<lambda>complaint. template
                 [Lit ''<li>'', Val (Inr complaint), Lit ''</li>'']) chief_complaints),
              Lit ''
                </ul>
            </div>
        '']))),
         Html (whenE (truthyE (get notes ''duration''))
           (template
             [Lit (''
            <div class="notes-section">
                <h4>'' @ u_hourglass_with_flowing_sand @ '' Duration of Illness</h4>
                <p class="duration-text">''),
              Val (get notes ''duration''),
              Lit ''</p>
            </div>
        ''])),
         Html (bindE (get notes ''previous_medications'') (\<lambda>previous_medications.
           whenE (hasItems rt previous_medications)
           (template
             [Lit (''
            <div class="notes-section">
                <h4>'' @ u_pill @ '' Previous Medications</h4>
                <ul class="medications-list">
                    ''),
              Html (mapJoin ''notes.previous_medications'' (\<lambda>med. template
                 [Lit ''<li>'', Val (Inr med), Lit ''</li>'']) previous_medications),
              Lit ''
                </ul>
            </div>
        '']))),
         Html (bindE (get notes ''allergies'') (\<lambda>allergies.
           bindE (hasItems rt allergies) (\<lambda>some.
           if some
           then template
             [Lit (''
            <div class="notes-section">
                <h4>'' @ u_warning_sign @ u_vs16 @ '' Allergies</h4>
                <ul class="allergies-list">
                    ''),
              Html (mapJoin ''notes.allergies'' (\<lambda>allergy. template
                 [Lit ''<li class="allergy-item">'', Val (Inr allergy), Lit ''</li>'']) allergies),
              Lit ''
                </ul>
            </div>
        '']
           else Inr (''
            <div class="notes-section">
                <h4>'' @ u_warning_sign @ u_vs16 @ '' Allergies</h4>
                <p class="no-allergies">No allergies noted</p>
            </div>
        '')))),
         Html (bindE (get notes ''examination_findings'') (\<lambda>examination_findings.
           whenE (hasItems rt examination_findings)
           (template
             [Lit (''
            <div class="notes-section">
                <h4>'' @ u_left_pointing_magnifying_glass @ '' Examination Findings</h4>
                <ul class="findings-list">
                    ''),
              Html (mapJoin ''notes.examination_findings'' (\<lambda>finding. template
                 [Lit ''<li>'', Val (Inr finding), Lit ''</li>'']) examination_findings),
              Lit ''
                </ul>
            </div>
        '']))),
         Lit ''</div>''])\<close>

definition buildExecutiveSummary :: "runtime \<Rightarrow> jsval \<Rightarrow> js_error + string" where
  \<open>buildExecutiveSummary rt summary =
     (if \<not> truthy summary then Inr ''<p class="no-data">No executive summary available</p>''
      else template
        [Lit ''<div class="executive-summary">'',
         Html (bindE (get summary ''executive_summary'') (\<lambda>executive_summary.
           whenE (hasItems rt executive_summary)
           (template
             [Lit (''
            <div class="summary-points">
                <h4>'' @ u_pushpin @ '' Key Points</h4>
                <ol class="summary-list">
                    ''),
              Html (mapJoin ''summary.executive_summary'' (\<lambda>point. template
                 [Lit ''<li class="summary-point">'', Val (Inr point), Lit ''</li>'']) executive_summary),
              Lit ''
                </ol>
            </div>
        '']))),
         Html (bindE (get summary ''critical_flags'') (\<lambda>critical_flags.
           whenE (hasItems rt critical_flags)
           (template
             [Lit (''
            <div class="critical-flags">
                <h4>'' @ u_police_cars_revolving_light @ '' Critical Flags</h4>
                <ul class="flags-list">
                    ''),
              Html (mapJoin ''summary.critical_flags'' (\<lambda>flag. template
                 [Lit ''<li class="flag-item">'', Val (Inr flag), Lit ''</li>'']) critical_flags),
              Lit ''
                </ul>
            </div>
        '']))),
         Html (whenE (truthyE (get summary ''doctor_focus_time''))
           (template
             [Lit (''
            <div class="focus-time">
                <span class="time-badge">'' @ u_stopwatch @ u_vs16 @ '' ''),
              Val (get summary ''doctor_focus_time''),
              Lit ''</span>
            </div>
        ''])),
         Lit ''</div>''])\<close>

definition buildScribeResults :: "runtime \<Rightarrow> jsval \<Rightarrow> js_error + string" where
  \<open>buildScribeResults rt result =
     bindE (get result ''transcribed_notes'') (\<lambda>notes.
     bindE (get result ''doctor_summary'') (\<lambda>summary.
     template
       [Lit (''
        <div class="result-item">
            <div class="result-label">'' @ u_writing_hand @ u_vs16 @ '' Transcribed Notes</div>
            <div class="result-content">
                ''),
        Html (buildTranscribedNotes rt notes),
        Lit (''
            </div>
        </div>
        <div class="result-item">
            <div class="result-label">'' @ u_clipboard @ '' Executive Summary</div>
            <div class="result-content">
                ''),
        Html (buildExecutiveSummary rt summary),
        Lit ''
            </div>
        </div>
    '']))\<close>

subsection \<open>Translator\<close>

definition buildTranslatorResults :: "jsval \<Rightarrow> js_error + string" where
  \<open>buildTranslatorResults result =
     bindE (get result ''translation'') (\<lambda>translation.
     bindE (get result ''validation'') (\<lambda>validation.
     template
       [Lit (''
        <div class="result-item">
            <div class="result-label">'' @ u_globe_with_meridians @ '' Translation</div>
            <div class="result-value">
                <pre>''),
        Val (Inr (jsonStringify translation)),
        Lit (''</pre>
            </div>
        </div>
        <div class="result-item">
            <div class="result-label">'' @ u_heavy_check_mark @ u_vs16 @ '' Validation</div>
            <div class="result-value">
                <pre>''),
        Val (Inr (jsonStringify validation)),
        Lit ''</pre>
            </div>
        </div>
    '']))\<close>

subsection \<open>Polypharmacy\<close>

text \<open>One round of the loop over \<open>medicines\<close>.\<close>

definition medicineCard :: "jsval \<Rightarrow> js_error + string" where
  \<open>medicineCard med = template
       [Lit ''
            <div class="medicine-card">
                <div class="med-header">
                    <span class="brand-name">'',
        Val (bindE (get med ''brand_name'') (\<lambda>v. Inr (orElse v (JStr ''[Unclear]'')))),
        Lit ''</span>
                    <span class="generic-name">'',
        Val (bindE (get med ''generic_name'') (\<lambda>v. Inr (orElse v (JStr ''[Unclear]'')))),
        Lit (''</span>
                </div>
                <div class="med-details">
                    <span class="strength">'' @ u_flexed_biceps @ '' ''),
        Val (bindE (get med ''strength'') (\<lambda>v. Inr (orElse v (JStr ''[Unclear]'')))),
        Lit (''</span>
                    <span class="form">'' @ u_pill @ '' ''),
        Val (bindE (get med ''form'') (\<lambda>v. Inr (orElse v (JStr ''[Unclear]'')))),
        Lit ''</span>
                    '',
        Html (bindE (get med ''frequency'') (\<lambda>frequency.
           if truthy frequency then template [Lit (''<span class="frequency">'' @ u_alarm_clock @ '' ''), Val (Inr frequency), Lit ''</span>''] else Inr [])),
        Lit ''
                </div>
            </div>
        '']\<close>

definition buildMedicinesList :: "runtime \<Rightarrow> jsval \<Rightarrow> js_error + string" where
  \<open>buildMedicinesList rt medicines =
     bindE (if \<not> truthy medicines then Inr True else lengthIsZero medicines) (\<lambda>empty.
     if empty
     then Inr (''<p class="no-data">'' @ u_warning_sign @ u_vs16 @ '' No medicines detected. Please ensure images show medicine strips or prescriptions clearly.</p>'')
     else bindE (forOf rt ''medicines'' medicines) (\<lambda>meds. template
       [Lit ''<div class="medicines-grid">'',
        Html (concatE (map medicineCard meds)),
        Lit ''</div>'']))\<close>

definition urgencyClass :: "jsval \<Rightarrow> string" where
  "urgencyClass urgency =
     (let urgencyClass = ''info'';
          urgencyClass = (if urgency = JStr ''High'' then ''danger'' else urgencyClass);
          urgencyClass = (if urgency = JStr ''Medium'' then ''warning'' else urgencyClass);
          urgencyClass = (if urgency = JStr ''Low'' then ''success'' else urgencyClass)
      in urgencyClass)"

definition urgencyIcon :: "jsval \<Rightarrow> string" where
  "urgencyIcon urgency =
     (let urgencyIcon = u_blue_heart;
          urgencyIcon = (if urgency = JStr ''High'' then u_large_red_circle else urgencyIcon);
          urgencyIcon = (if urgency = JStr ''Medium'' then u_large_yellow_circle else urgencyIcon);
          urgencyIcon = (if urgency = JStr ''Low'' then u_large_green_circle else urgencyIcon)
      in urgencyIcon)"

definition buildSafetyAnalysis :: "runtime \<Rightarrow> jsval \<Rightarrow> js_error + string" where
  \<open>buildSafetyAnalysis rt analysis =
     (if \<not> truthy analysis then Inr ''<p class="no-data">No safety analysis available</p>''
      else bindE (get analysis ''urgency'') (\<lambda>urgency. template
        [Html (template
           [Lit ''
        <div class="urgency-badge '',
            Lit (urgencyClass urgency),
            Lit ''">
            <span class="urgency-icon">'',
            Lit (urgencyIcon urgency),
            Lit ''</span>
            <span class="urgency-text">'',
            Val (Inr (orElse urgency (JStr ''Unknown''))),
            Lit '' Urgency</span>
        </div>
    '']),
         Html (bindE (get analysis ''drug_interactions'') (\<lambda>drug_interactions.
           whenE (hasItems rt drug_interactions)
           (template
             [Lit (''
            <div class="interactions-section">
                <h4>'' @ u_warning_sign @ u_vs16 @ '' Drug Interactions</h4>
                <ul class="interactions-list">
                    ''),
              Html (mapJoin ''analysis.drug_interactions'' (\<lambda>interaction. template
                 [Lit ''<li class="interaction-item">'', Val (Inr interaction), Lit ''</li>'']) drug_interactions),
              Lit ''
                </ul>
            </div>
        '']))),
         Html (bindE (get analysis ''duplicate_medications'') (\<lambda>duplicate_medications.
           whenE (hasItems rt duplicate_medications)
           (template
             [Lit (''
            <div class="duplicates-section">
                <h4>'' @ u_anticlockwise_downwards_and_upwards_open_circle_arrows @ '' Duplicate Medications</h4>
                <ul class="duplicates-list">
                    ''),
              Html (mapJoin ''analysis.duplicate_medications'' (\<lambda>dup. template
                 [Lit ''<li class="duplicate-item">'', Val (Inr dup), Lit ''</li>'']) duplicate_medications),
              Lit ''
                </ul>
            </div>
        '']))),
         Html (bindE (get analysis ''safety_warnings'') (\<lambda>safety_warnings.
           whenE (hasItems rt safety_warnings)
           (template
             [Lit (''
            <div class="warnings-section">
                <h4>'' @ u_police_cars_revolving_light @ '' Safety Warnings</h4>
                <ul class="warnings-list">
                    ''),
              Html (mapJoin ''analysis.safety_warnings'' (\<lambda>warning. template
                 [Lit ''<li class="warning-item">'', Val (Inr warning), Lit ''</li>'']) safety_warnings),
              Lit ''
                </ul>
            </div>
        '']))),
         Html (whenE (truthyE (get analysis ''recommendation''))
           (template
             [Lit (''
            <div class="recommendation-box">
                <h4>'' @ u_electric_light_bulb @ '' Pharmacist Recommendation</h4>
                <p>''),
              Val (get analysis ''recommendation''),
              Lit ''</p>
            </div>
        '']))]))\<close>

definition buildPolypharmacyResults :: "runtime \<Rightarrow> jsval \<Rightarrow> js_error + string" where
  \<open>buildPolypharmacyResults rt result =
     bindE (get result ''medicines_extracted'') (\<lambda>medicines.
     bindE (get result ''safety_analysis'') (\<lambda>analysis.
     template
       [Lit (''
        <div class="result-item">
            <div class="result-label">'' @ u_pill @ '' Medicines Detected</div>
            <div class="result-content">
                ''),
        Html (buildMedicinesList rt medicines),
        Lit (''
            </div>
        </div>
        <div class="result-item">
            <div class="result-label">'' @ u_warning_sign @ u_vs16 @ '' Safety Analysis</div>
            <div class="result-content">
                ''),
        Html (buildSafetyAnalysis rt analysis),
        Lit ''
            </div>
        </div>
    '']))\<close>

section \<open>Results display\<close>

text \<open>
  The text \<open>displayResults\<close> assigns to \<open>innerHTML\<close> of the results container after it
  has emptied it, or the exception thrown on the way: the error block when
  \<open>result.status !== 'success'\<close>, otherwise what the builder of the tab returns
  (\<open>html\<close> starts as the empty string and the builder's text is appended once).
\<close>

definition resultsHtml :: "runtime \<Rightarrow> tab \<Rightarrow> jsval \<Rightarrow> js_error + string" where
  \<open>resultsHtml rt t result =
     bindE (get result ''status'') (\<lambda>status.
     if status \<noteq> JStr ''success''
     then template
       [Lit ''<p class="result-error">Error: '',
        Val (bindE (get result ''error'') (\<lambda>e. Inr (orElse e (JStr ''Unknown error'')))),
        Lit ''</p>'']
     else (case t of
         Triage \<Rightarrow> buildTriageResults rt result
       | Reports \<Rightarrow> buildReportsResults rt result
       | Scribe \<Rightarrow> buildScribeResults rt result
       | Translator \<Rightarrow> buildTranslatorResults result
       | Polypharmacy \<Rightarrow> buildPolypharmacyResults rt result))\<close>

text \<open>\<open>displayResults\<close>: the exception, if one was thrown, and the state it leaves. The
  container is emptied before \<open>result.status\<close> is read, so it stays empty when the
  function throws.\<close>

definition displayResults :: "runtime \<Rightarrow> tab \<Rightarrow> jsval \<Rightarrow> app \<Rightarrow> js_error option \<times> app" where
  "displayResults rt t result st =
     (let st1 = st\<lparr> results := (results st)(t := []) \<rparr>
      in case resultsHtml rt t result of
           Inl e \<Rightarrow> (Some e, st1)
         | Inr html \<Rightarrow> (None, st1\<lparr> results := (results st1)(t := html) \<rparr>))"

section \<open>Submission\<close>

text \<open>
  What the network gives back to one call of \<open>processTab\<close>: either \<open>fetch\<close> rejects with
  an error, or it resolves to a response with a status, whose \<open>json()\<close> either rejects
  (the body is not JSON) or resolves to the payload. \<open>response.ok\<close> is true for a status
  from 200 to 299.
\<close>

record response =
  status :: nat
  json :: "js_error + jsval"

definition ok :: "response \<Rightarrow> bool" where
  "ok r = (200 \<le> status r \<and> status r \<le> 299)"






section \<open>Values used in the examples\<close>

text \<open>
  A runtime for the examples. On ASCII text it lowers the letters A to Z and yields one
  string per character, and it takes a string to be a positive number when it is a
  non-empty run of decimal digits that are not all 0; the examples give it nothing
  else.
\<close>

definition lowerChar :: "char \<Rightarrow> char" where
  "lowerChar c =
     (if (65 :: nat) \<le> of_char c \<and> of_char c \<le> (90 :: nat) then char_of (of_char c + (32 :: nat))
      else c)"

definition isDigit :: "char \<Rightarrow> bool" where
  "isDigit c = ((48 :: nat) \<le> of_char c \<and> of_char c \<le> (57 :: nat))"

definition exampleRuntime :: runtime where
  "exampleRuntime =
     \<lparr> toLowerCase = map lowerChar,
       codePoints = map (\<lambda>c. [c]),
       numericPositive = (\<lambda>s. s \<noteq> [] \<and> list_all isDigit s \<and> \<not> list_all (\<lambda>c. c = CHR ''0'') s) \<rparr>"

text \<open>The payload of the triage scenario of the specification.\<close>

definition triageScenario :: jsval where
  "triageScenario =
     JObj [(''status'', JStr ''success''),
       (''vitals_extraction'',
          JObj [(''pulse'', JNum Positive ''110''), (''bp'', JNull),
                (''spo2'', JNum Positive ''94''), (''temperature'', JNum Positive ''38.2'')]),
       (''triage_analysis'',
          JObj [(''priority'', JStr ''RED''),
                (''justification_english'', JStr ''Tachycardia with hypoxia'')])]"


text \<open>The text the script writes for the triage scenario.\<close>

definition triageScenarioHtml :: string where
  \<open>triageScenarioHtml =
     (''
        <div class="result-item">
            <div class="result-label">'' @ u_bar_chart @ '' Vitals Extracted</div>
            <div class="result-content">
                <div class="vitals-grid">
            <div class="vital-item">
                <span class="vital-label">'' @ u_beating_heart @ '' Pulse</span>
                <span class="vital-value ">110 bpm</span>
            </div>
        
            <div class="vital-item">
                <span class="vital-label">'' @ u_stethoscope @ '' Blood Pressure</span>
                <span class="vital-value missing">Not recorded</span>
            </div>
        
            <div class="vital-item">
                <span class="vital-label">'' @ u_lungs @ '' SpO2</span>
                <span class="vital-value ">94 %</span>
            </div>
        
            <div class="vital-item">
                <span class="vital-label">'' @ u_thermometer @ u_vs16 @ '' Temperature</span>
                <span class="vital-value ">38.2 '' @ u_degree_sign @ ''C</span>
            </div>
        </div>
            </div>
        </div>
        <div class="result-item">
            <div class="result-label">'' @ u_eye @ u_vs16 @ '' Physical Assessment</div>
            <div class="result-content">
                <p class="no-data">No physical assessment available</p>
            </div>
        </div>
        <div class="result-item">
            <div class="result-label">'' @ u_ambulance @ '' Triage Analysis</div>
            <div class="result-content">
                
        <div class="priority-badge danger">
            <span class="priority-icon">'' @ u_large_red_circle @ ''</span>
            <span class="priority-text">RED Priority</span>
        </div>
    
            <div class="justification">
                <h4>'' @ u_speaking_head_in_silhouette @ u_vs16 @ '' English</h4>
                <p>Tachycardia with hypoxia</p>
            </div>
        
            </div>
        </div>
    '')\<close>


text \<open>Payloads whose strings hold HTML markup, one for each of the other four tabs, and
  the texts the script writes for them. \<open>markupTranslation\<close> has quotes in its markup,
  in \<open>nestedTranslation\<close> the strings are inside an object, and \<open>oddTranslation\<close> is what
  \<open>JSON.parse\<close> gives for \<open>{"n": 1e999, "s": "\ud800"}\<close>: an infinite number and a surrogate
  that stands alone.\<close>

definition markupReport :: jsval where
  \<open>markupReport =
     JObj [(''status'', JStr ''success''),
           (''extracted_tests'', JArr [JObj [(''test_name'', JStr ''<u>Hb</u>'')]])]\<close>

definition markupReportHtml :: string where
  \<open>markupReportHtml =
     (''
        <div class="result-item">
            <div class="result-label">'' @ u_microscope @ '' Extracted Tests</div>
            <div class="result-content">
                <div class="tests-table">
        <div class="test-header">
            <span>Test Name</span>
            <span>Result</span>
            <span>Reference Range</span>
            <span>Status</span>
        </div>
    
            <div class="test-row">
                <span class="test-name"><u>Hb</u></span>
                <span class="test-result">N/A </span>
                <span class="test-range">N/A</span>
                <span class="test-status unknown">Unknown</span>
            </div>
        </div>
            </div>
        </div>
        <div class="result-item">
            <div class="result-label">'' @ u_open_book @ '' Patient Explanation</div>
            <div class="result-content">
                <p class="no-data">No explanations available</p>
            </div>
        </div>
    '')\<close>

definition markupNotes :: jsval where
  \<open>markupNotes =
     JObj [(''status'', JStr ''success''),
           (''transcribed_notes'', JObj [(''chief_complaints'', JArr [JStr ''<i>fever</i>''])])]\<close>

definition markupNotesHtml :: string where
  \<open>markupNotesHtml =
     (''
        <div class="result-item">
            <div class="result-label">'' @ u_writing_hand @ u_vs16 @ '' Transcribed Notes</div>
            <div class="result-content">
                <div class="notes-sections">
            <div class="notes-section">
                <h4>'' @ u_stethoscope @ '' Chief Complaints</h4>
                <ul class="complaints-list">
                    <li><i>fever</i></li>
                </ul>
            </div>
        
            <div class="notes-section">
                <h4>'' @ u_warning_sign @ u_vs16 @ '' Allergies</h4>
                <p class="no-allergies">No allergies noted</p>
            </div>
        </div>
            </div>
        </div>
        <div class="result-item">
            <div class="result-label">'' @ u_clipboard @ '' Executive Summary</div>
            <div class="result-content">
                <p class="no-data">No executive summary available</p>
            </div>
        </div>
    '')\<close>

definition markupMedicine :: jsval where
  \<open>markupMedicine =
     JObj [(''status'', JStr ''success''),
           (''medicines_extracted'', JArr [JObj [(''brand_name'', JStr ''<b>Dolo</b>'')]])]\<close>

definition markupMedicineHtml :: string where
  \<open>markupMedicineHtml =
     (''
        <div class="result-item">
            <div class="result-label">'' @ u_pill @ '' Medicines Detected</div>
            <div class="result-content">
                <div class="medicines-grid">
            <div class="medicine-card">
                <div class="med-header">
                    <span class="brand-name"><b>Dolo</b></span>
                    <span class="generic-name">[Unclear]</span>
                </div>
                <div class="med-details">
                    <span class="strength">'' @ u_flexed_biceps @ '' [Unclear]</span>
                    <span class="form">'' @ u_pill @ '' [Unclear]</span>
                    
                </div>
            </div>
        </div>
            </div>
        </div>
        <div class="result-item">
            <div class="result-label">'' @ u_warning_sign @ u_vs16 @ '' Safety Analysis</div>
            <div class="result-content">
                <p class="no-data">No safety analysis available</p>
            </div>
        </div>
    '')\<close>

definition plainTranslation :: jsval where
  \<open>plainTranslation =
     JObj [(''status'', JStr ''success''), (''translation'', JStr ''<b>ok</b>'')]\<close>

definition plainTranslationHtml :: string where
  \<open>plainTranslationHtml =
     (''
        <div class="result-item">
            <div class="result-label">'' @ u_globe_with_meridians @ '' Translation</div>
            <div class="result-value">
                <pre>"<b>ok</b>"</pre>
            </div>
        </div>
        <div class="result-item">
            <div class="result-label">'' @ u_heavy_check_mark @ u_vs16 @ '' Validation</div>
            <div class="result-value">
                <pre>undefined</pre>
            </div>
        </div>
    '')\<close>

definition markupTranslation :: jsval where
  \<open>markupTranslation =
     JObj [(''status'', JStr ''success''), (''translation'', JStr ''<a href="x">'')]\<close>

definition markupTranslationHtml :: string where
  \<open>markupTranslationHtml =
     (''
        <div class="result-item">
            <div class="result-label">'' @ u_globe_with_meridians @ '' Translation</div>
            <div class="result-value">
                <pre>"<a href='' @ [CHR 0x5C] @ ''"x'' @ [CHR 0x5C] @ ''">"</pre>
            </div>
        </div>
        <div class="result-item">
            <div class="result-label">'' @ u_heavy_check_mark @ u_vs16 @ '' Validation</div>
            <div class="result-value">
                <pre>undefined</pre>
            </div>
        </div>
    '')\<close>

definition nestedTranslation :: jsval where
  \<open>nestedTranslation =
     JObj [(''status'', JStr ''success''),
           (''translation'', JObj [(''text'', JStr ''<b>ok</b>''), (''parts'', JArr [JStr ''<i>a</i>''])]),
           (''validation'', JObj [(''valid'', JBool True)])]\<close>

definition nestedTranslationHtml :: string where
  \<open>nestedTranslationHtml =
     (''
        <div class="result-item">
            <div class="result-label">'' @ u_globe_with_meridians @ '' Translation</div>
            <div class="result-value">
                <pre>{
  "text": "<b>ok</b>",
  "parts": [
    "<i>a</i>"
  ]
}</pre>
            </div>
        </div>
        <div class="result-item">
            <div class="result-label">'' @ u_heavy_check_mark @ u_vs16 @ '' Validation</div>
            <div class="result-value">
                <pre>{
  "valid": true
}</pre>
            </div>
        </div>
    '')\<close>

definition oddTranslation :: jsval where
  \<open>oddTranslation =
     JObj [(''status'', JStr ''success''),
           (''translation'', JObj [(''n'', JNum Positive ''Infinity''),
                                   (''s'', JStr [CHR 0xED, CHR 0xA0, CHR 0x80])])]\<close>

definition oddTranslationHtml :: string where
  \<open>oddTranslationHtml =
     (''
        <div class="result-item">
            <div class="result-label">'' @ u_globe_with_meridians @ '' Translation</div>
            <div class="result-value">
                <pre>{
  "n": null,
  "s": "'' @ [CHR 0x5C] @ ''ud800"
}</pre>
            </div>
        </div>
        <div class="result-item">
            <div class="result-label">'' @ u_heavy_check_mark @ u_vs16 @ '' Validation</div>
            <div class="result-value">
                <pre>undefined</pre>
            </div>
        </div>
    '')\<close>

text \<open>A triage payload with all four vitals, an empty physical assessment and an
  analysis that holds the priority only, and the text the script writes for it.\<close>

definition sparseTriage :: jsval where
  "sparseTriage =
     JObj [(''status'', JStr ''success''),
       (''vitals_extraction'',
          JObj [(''pulse'', JNum Positive ''72''), (''bp'', JStr ''120/80''),
                (''spo2'', JNum Positive ''98''), (''temperature'', JNum Positive ''36.6'')]),
       (''physical_assessment'', JObj []),
       (''triage_analysis'', JObj [(''priority'', JStr ''RED'')])]"

definition sparseTriageHtml :: string where
  \<open>sparseTriageHtml =
     (''
        <div class="result-item">
            <div class="result-label">'' @ u_bar_chart @ '' Vitals Extracted</div>
            <div class="result-content">
                <div class="vitals-grid">
            <div class="vital-item">
                <span class="vital-label">'' @ u_beating_heart @ '' Pulse</span>
                <span class="vital-value ">72 bpm</span>
            </div>
        
            <div class="vital-item">
                <span class="vital-label">'' @ u_stethoscope @ '' Blood Pressure</span>
                <span class="vital-value ">120/80 mmHg</span>
            </div>
        
            <div class="vital-item">
                <span class="vital-label">'' @ u_lungs @ '' SpO2</span>
                <span class="vital-value ">98 %</span>
            </div>
        
            <div class="vital-item">
                <span class="vital-label">'' @ u_thermometer @ u_vs16 @ '' Temperature</span>
                <span class="vital-value ">36.6 '' @ u_degree_sign @ ''C</span>
            </div>
        </div>
            </div>
        </div>
        <div class="result-item">
            <div class="result-label">'' @ u_eye @ u_vs16 @ '' Physical Assessment</div>
            <div class="result-content">
                <div class="physical-assessment"></div>
            </div>
        </div>
        <div class="result-item">
            <div class="result-label">'' @ u_ambulance @ '' Triage Analysis</div>
            <div class="result-content">
                
        <div class="priority-badge danger">
            <span class="priority-icon">'' @ u_large_red_circle @ ''</span>
            <span class="priority-text">RED Priority</span>
        </div>
    
            </div>
        </div>
    '')\<close>


section \<open>What a payload holds\<close>

text \<open>
  The strings a value holds: the value itself when it is a string, and the strings held
  by the elements of an array and by the values of the properties of an object, at any
  depth.
\<close>

fun occursIn :: "string \<Rightarrow> jsval \<Rightarrow> bool"
  and occursInElems :: "string \<Rightarrow> jsval list \<Rightarrow> bool"
  and occursInProps :: "string \<Rightarrow> (string \<times> jsval) list \<Rightarrow> bool" where
  "occursIn s (JStr t) = (s = t)"
| "occursIn s (JArr xs) = occursInElems s xs"
| "occursIn s (JObj kvs) = occursInProps s kvs"
| "occursIn s v = False"
| "occursInElems s [] = False"
| "occursInElems s (x # xs) = (occursIn s x \<or> occursInElems s xs)"
| "occursInProps s [] = False"
| "occursInProps s ((k, v) # kvs) = (occursIn s v \<or> occursInProps s kvs)"

text \<open>A string none of whose code units is a surrogate standing alone.\<close>

fun surrogateFree :: "string \<Rightarrow> bool" where
  "surrogateFree (c # d # e # cs) = (\<not> isSurrogate c d e \<and> surrogateFree (d # e # cs))"
| "surrogateFree cs = True"

text \<open>
  The values whose conversion to a string throws: an object with an own property
  \<open>toString\<close>, and an array with such a value among its elements.
\<close>

fun hidesToString :: "jsval \<Rightarrow> bool"
  and hidesToStringElems :: "jsval list \<Rightarrow> bool" where
  "hidesToString (JObj kvs) = (map_of kvs ''toString'' \<noteq> None)"
| "hidesToString (JArr xs) = hidesToStringElems xs"
| "hidesToString v = False"
| "hidesToStringElems [] = False"
| "hidesToStringElems (x # xs) = (hidesToString x \<or> hidesToStringElems xs)"

text \<open>
  The payloads of the five result schemas, every field optional. \<open>own obj k\<close> is what
  reading the property \<open>k\<close> of the object gives. The fields are those the builders read:
  a text field is absent, \<open>null\<close>, a string, a number or a boolean; a list field is
  absent, \<open>null\<close> or an array of such texts; a section is absent, \<open>null\<close> or an object
  with such fields; the tests and the medicines are absent, \<open>null\<close> or an array of
  objects with text fields; the explanations are an object whose \<open>explanations\<close> are
  absent or \<open>null\<close>, or an array of objects with text fields whose \<open>status\<close> is absent,
  \<open>null\<close> or a string. The translator puts no condition on \<open>translation\<close> and
  \<open>validation\<close>.
\<close>

definition own :: "(string \<times> jsval) list \<Rightarrow> string \<Rightarrow> jsval" where
  "own obj k = (case map_of obj k of None \<Rightarrow> JUndefined | Some v \<Rightarrow> v)"

fun isText :: "jsval \<Rightarrow> bool" where
  "isText (JArr xs) = False"
| "isText (JObj kvs) = False"
| "isText v = True"

fun isTextList :: "jsval \<Rightarrow> bool" where
  "isTextList JUndefined = True"
| "isTextList JNull = True"
| "isTextList (JArr xs) = list_all isText xs"
| "isTextList v = False"

fun isLabel :: "jsval \<Rightarrow> bool" where
  "isLabel JUndefined = True"
| "isLabel JNull = True"
| "isLabel (JStr s) = True"
| "isLabel v = False"

definition isRecord :: "string list \<Rightarrow> string list \<Rightarrow> jsval \<Rightarrow> bool" where
  "isRecord textKeys listKeys v =
     (case v of
        JObj obj \<Rightarrow> list_all (\<lambda>k. isText (own obj k)) textKeys
                    \<and> list_all (\<lambda>k. isTextList (own obj k)) listKeys
      | _ \<Rightarrow> False)"

definition isRecordList :: "string list \<Rightarrow> jsval \<Rightarrow> bool" where
  "isRecordList textKeys v =
     (case v of JArr xs \<Rightarrow> list_all (isRecord textKeys []) xs | _ \<Rightarrow> False)"

definition isExplanation :: "jsval \<Rightarrow> bool" where
  "isExplanation v =
     (case v of
        JObj obj \<Rightarrow> isLabel (own obj ''status'')
                    \<and> list_all (\<lambda>k. isText (own obj k)) [''test_name'', ''simple_explanation'', ''analogy'']
      | _ \<Rightarrow> False)"

definition isExplanations :: "jsval \<Rightarrow> bool" where
  "isExplanations v =
     (case v of
        JObj obj \<Rightarrow>
          nullish (own obj ''explanations'')
          \<or> (case own obj ''explanations'' of JArr xs \<Rightarrow> list_all isExplanation xs | _ \<Rightarrow> False)
            \<and> isTextList (own obj ''next_steps'') \<and> isText (own obj ''warning_signs'')
      | _ \<Rightarrow> False)"

definition optional :: "(jsval \<Rightarrow> bool) \<Rightarrow> jsval \<Rightarrow> bool" where
  "optional P v = (nullish v \<or> P v)"

definition conforms :: "tab \<Rightarrow> (string \<times> jsval) list \<Rightarrow> bool" where
  "conforms t result =
     (case t of
        Triage \<Rightarrow>
          optional (isRecord [''pulse'', ''bp'', ''spo2'', ''temperature'', ''physical_signs''] [])
            (own result ''vitals_extraction'')
          \<and> optional (isRecord [''physical_condition'', ''distress_level'', ''breathing_assessment'',
                ''consciousness''] [''visible_signs''])
            (own result ''physical_assessment'')
          \<and> optional (isRecord [''priority'', ''justification_english'', ''justification_hindi'',
                ''recommended_action'', ''assessment_basis''] [''key_vital_flags'', ''physical_flags''])
            (own result ''triage_analysis'')
      | Reports \<Rightarrow>
          optional (isRecordList [''test_name'', ''result'', ''unit'', ''reference_range'', ''status''])
            (own result ''extracted_tests'')
          \<and> optional isExplanations (own result ''patient_explanations'')
      | Scribe \<Rightarrow>
          optional (isRecord [''duration''] [''chief_complaints'', ''previous_medications'',
                ''allergies'', ''examination_findings''])
            (own result ''transcribed_notes'')
          \<and> optional (isRecord [''doctor_focus_time''] [''executive_summary'', ''critical_flags''])
            (own result ''doctor_summary'')
      | Translator \<Rightarrow> True
      | Polypharmacy \<Rightarrow>
          optional (isRecordList [''brand_name'', ''generic_name'', ''strength'', ''form'', ''frequency''])
            (own result ''medicines_extracted'')
          \<and> optional (isRecord [''urgency'', ''recommendation'']
                [''drug_interactions'', ''duplicate_medications'', ''safety_warnings''])
            (own result ''safety_analysis''))"

section \<open>Text that a computation shows whenever it returns\<close>

text \<open>
  A device for the proofs below: \<open>shows_text s m\<close> says that the computation \<open>m\<close>, if it
  returns a text, returns one that contains \<open>s\<close>. It follows the structure of the
  builders: a template shows what one of its pieces shows, a loop shows what one of its
  rounds shows.
\<close>

definition shows_text :: "string \<Rightarrow> js_error + string \<Rightarrow> bool" where
  "shows_text s m = (case m of Inl e \<Rightarrow> True | Inr h \<Rightarrow> sublist s h)"

text \<open>\<open>returns m\<close> says that the computation \<open>m\<close> throws nothing.\<close>

definition returns :: "'e + 'a \<Rightarrow> bool" where
  "returns m = (case m of Inl e \<Rightarrow> False | Inr a \<Rightarrow> True)"

section \<open>Properties of the file stage\<close>

lemma show_nat_digit: "n < 10 \<Longrightarrow> show_nat n = [digit n]"
  by (simp add: show_nat.simps)

lemma show_nat_10: "show_nat 10 = ''10''"
  by (simp add: show_nat.simps [of 10] show_nat_digit digit_def)

lemma fileStorage_updatePreview: "fileStorage (updatePreview t st) = fileStorage st"
  by (simp add: updatePreview_def Let_def)

lemma processBtn_updatePreview: "processBtn (updatePreview t st) = processBtn st"
  by (simp add: updatePreview_def Let_def)

lemma fileStorage_storeFile:
  "fileStorage (storeFile t f st) =
     (fileStorage st)(t := fileStorage st t @ (if isImage f then [f] else []))"
  by (simp add: storeFile_def isImage_def)

lemma fileStorage_fold_storeFile:
  "fileStorage (fold (storeFile t) files st) =
     (fileStorage st)(t := fileStorage st t @ filter isImage files)"
proof (induction files arbitrary: st)
  case Nil
  show ?case by simp
next
  case (Cons f files)
  show ?case
    by (auto simp: Cons.IH fileStorage_storeFile fun_eq_iff)
qed

lemma processBtn_fold_storeFile: "processBtn (fold (storeFile t) files st) = processBtn st"
  by (induction files arbitrary: st) (simp_all add: storeFile_def)

lemma fileStorage_handleFileSelect_accepted:
  assumes "files \<noteq> []" and "length files \<le> maxFilesOf t"
  shows "fileStorage (handleFileSelect t files st) = (fileStorage st)(t := filter isImage files)"
  using assms
  by (simp add: handleFileSelect_def Let_def fileStorage_updatePreview
      fileStorage_fold_storeFile split: option.split)

lemma splice1_beyond: "int (length xs) \<le> index \<Longrightarrow> splice1 index xs = xs"
  by (simp add: splice1_def Let_def)

lemma splice1_Nil: "splice1 index [] = []"
  by (simp add: splice1_def Let_def)

lemma fileStorage_removeFile:
  "fileStorage (removeFile t index st) = (fileStorage st)(t := splice1 index (fileStorage st t))"
  by (simp add: removeFile_def Let_def fileStorage_updatePreview split: option.split)

text \<open>
  C4. For every tab and every non-empty list of candidates within the tab's limit,
  \<open>handleFileSelect\<close> leaves in \<open>fileStorage[tab]\<close> exactly the candidates whose type
  starts with \<open>image/\<close>, in their original order, whatever was staged before; the lists
  of the other tabs are not touched.
\<close>

theorem handleFileSelect_stages_images:
  assumes "files \<noteq> []" and "length files \<le> maxFilesOf t"
  shows "fileStorage (handleFileSelect t files st) t = filter isImage files
    \<and> (\<forall>u. u \<noteq> t \<longrightarrow> fileStorage (handleFileSelect t files st) u = fileStorage st u)"
  by (simp add: fileStorage_handleFileSelect_accepted [OF assms])

theorem handleFileSelect_stages_images_witness:
  "fileStorage (handleFileSelect Triage [photo, letter, scan]
      (initial\<lparr> fileStorage := (\<lambda>_. [scan, scan]) \<rparr>)) Triage = [photo, scan]
   \<and> fileStorage (handleFileSelect Triage [photo, letter, scan]
      (initial\<lparr> fileStorage := (\<lambda>_. [scan, scan]) \<rparr>)) Reports = [scan, scan]"
  using handleFileSelect_stages_images [of "[photo, letter, scan]" Triage
      "initial\<lparr> fileStorage := (\<lambda>_. [scan, scan]) \<rparr>"]
  by (simp add: maxFilesOf_def isImage_def startsWith_def photo_def letter_def scan_def)

text \<open>
  C2, as the script has it. An empty candidate list returns at once: the whole state,
  and so the staged lists and the list of toasts, is what it was (no notice is shown).
  A list longer than the tab's maximum (1 for the translator, 10 otherwise) changes
  nothing but the toasts, which gain the error toast \<open>Maximum N file(s) allowed\<close>.
  In neither case is a request sent.
\<close>

theorem handleFileSelect_rejects:
  "(length files = 0 \<longrightarrow> handleFileSelect t files st = st)
   \<and> (length files > maxFilesOf t \<longrightarrow>
        handleFileSelect t files st =
          st\<lparr> toasts := toasts st @
            [(''Maximum '' @ show_nat (maxFilesOf t) @ '' file(s) allowed'', ''error'')] \<rparr>
        \<and> fileStorage (handleFileSelect t files st) = fileStorage st
        \<and> requests (handleFileSelect t files st) = requests st)
   \<and> maxFilesOf t = (if t = Translator then 1 else 10)"
  by (simp add: handleFileSelect_def Let_def showToast_def maxFilesOf_def)

theorem handleFileSelect_rejects_witness:
  "handleFileSelect Translator [] initial = initial
   \<and> handleFileSelect Translator [photo, scan] initial =
        initial\<lparr> toasts := [(''Maximum 1 file(s) allowed'', ''error'')] \<rparr>
   \<and> fileStorage (handleFileSelect Translator [photo, scan] initial) Translator = []
   \<and> requests (handleFileSelect Translator [photo, scan] initial) = []"
  using handleFileSelect_rejects [of "[]" Translator initial]
    handleFileSelect_rejects [of "[photo, scan]" Translator initial]
  by (simp add: maxFilesOf_def show_nat_digit digit_def initial_def)

text \<open>
  C2 as stated fails for the empty list: selecting no file at all on the triage tab of
  the fresh page shows no toast.
\<close>

theorem handleFileSelect_empty_no_notice:
  "toasts (handleFileSelect Triage [] initial) = []"
  by (simp add: handleFileSelect_def Let_def initial_def)

text \<open>
  C5 at a failing input. On the fresh page one image is selected on the triage tab,
  which enables the submit control; then a single PDF is selected. The selection is
  accepted (one file, within the limit), the staged list becomes empty, and the submit
  control is still enabled: \<open>handleFileSelect\<close> only ever sets \<open>disabled = false\<close>.
\<close>

theorem handleFileSelect_empty_stage_button_enabled:
  "fileStorage (handleFileSelect Triage [letter] (handleFileSelect Triage [photo] initial)) Triage = []
   \<and> processBtn (handleFileSelect Triage [photo] initial) Triage = Some False
   \<and> processBtn (handleFileSelect Triage [letter] (handleFileSelect Triage [photo] initial)) Triage
       = Some False"
  by (simp add: handleFileSelect_def Let_def maxFilesOf_def storeFile_def startsWith_def
      updatePreview_def initial_def photo_def letter_def)

text \<open>
  C6, as the script has it. \<open>removeFile\<close> has no bounds check of its own; it relies on
  \<open>splice\<close>. For an index at or beyond the length of the staged list, and for any index
  when the list is empty, the staged lists of all tabs are unchanged (and the model of
  \<open>removeFile\<close> has no error result: nothing in it can throw).
\<close>

theorem removeFile_beyond_noop:
  assumes "int (length (fileStorage st t)) \<le> index \<or> fileStorage st t = []"
  shows "fileStorage (removeFile t index st) = fileStorage st"
proof -
  have "splice1 index (fileStorage st t) = fileStorage st t"
    using assms by (auto simp: splice1_beyond splice1_Nil)
  then show ?thesis
    by (simp add: fileStorage_removeFile)
qed

theorem removeFile_beyond_noop_witness:
  "fileStorage (removeFile Triage 2 (initial\<lparr> fileStorage := (\<lambda>_. [photo, scan]) \<rparr>))
     = (\<lambda>_. [photo, scan])"
  using removeFile_beyond_noop [of "initial\<lparr> fileStorage := (\<lambda>_. [photo, scan]) \<rparr>" Triage 2]
  by simp

text \<open>
  C6 as stated fails for a negative index: \<open>splice(-1, 1)\<close> removes the last element.
\<close>

theorem removeFile_negative_removes_last:
  "fileStorage (removeFile Triage (- 1) (initial\<lparr> fileStorage := (\<lambda>_. [photo, scan]) \<rparr>)) Triage
     = [photo]"
  by (simp add: fileStorage_removeFile splice1_def Let_def)

text \<open>
  C9. The length test of \<open>handleFileSelect\<close> reads the raw candidate list. On every tab
  and in every state there is a candidate list that is over the limit although it holds
  no image at all (so its image-typed part is within the limit): it is rejected with the
  toast and the staged lists stay as they were.
\<close>

theorem handleFileSelect_limit_before_filter:
  "\<exists>files. length files > maxFilesOf t
      \<and> length (filter isImage files) \<le> maxFilesOf t
      \<and> fileStorage (handleFileSelect t files st) = fileStorage st
      \<and> toasts (handleFileSelect t files st) =
          toasts st @ [(''Maximum '' @ show_nat (maxFilesOf t) @ '' file(s) allowed'', ''error'')]"
proof -
  let ?files = "replicate 11 letter"
  have "length ?files > maxFilesOf t"
    by (simp add: maxFilesOf_def)
  moreover have "filter isImage ?files = []"
    by (simp add: isImage_def startsWith_def letter_def)
  ultimately show ?thesis
    by (intro exI [of _ ?files]) (simp add: handleFileSelect_def Let_def showToast_def)
qed

section \<open>Properties of the renderers and of the submission\<close>

subsection \<open>Sequencing\<close>

lemma bindE_Inr [simp]: "bindE (Inr a) f = f a"
  by (simp add: bindE_def)

lemma bindE_Inl [simp]: "bindE (Inl e) f = Inl e"
  by (simp add: bindE_def)

lemma bindE_eq_Inr: "bindE m f = Inr b \<longleftrightarrow> (\<exists>a. m = Inr a \<and> f a = Inr b)"
  by (cases m) simp_all

lemma concatE_member:
  "concatE ms = Inr out \<Longrightarrow> m \<in> set ms \<Longrightarrow> \<exists>s. m = Inr s \<and> sublist s out"
proof (induction ms arbitrary: out)
  case Nil
  then show ?case by simp
next
  case (Cons a ms)
  from Cons.prems(1) obtain s r where a: "a = Inr s" and r: "concatE ms = Inr r"
    and out: "out = s @ r"
    by (auto simp: bindE_eq_Inr)
  show ?case
  proof (cases "m = a")
    case True
    then show ?thesis using a out by auto
  next
    case False
    then have "m \<in> set ms" using Cons.prems(2) by simp
    from Cons.IH [OF r this] obtain s' where "m = Inr s'" "sublist s' r" by blast
    then show ?thesis using out
      by (metis sublist_append)
  qed
qed

lemma template_member:
  "template ps = Inr out \<Longrightarrow> p \<in> set ps \<Longrightarrow> \<exists>s. pieceStr p = Inr s \<and> sublist s out"
  unfolding template_def by (rule concatE_member) auto

lemma get_not_nullish: "\<not> nullish v \<Longrightarrow> \<exists>x. get v k = Inr x"
  by (cases v) simp_all

lemma template_Lit_Val_Lit:
  "template [Lit a, Val (Inr v), Lit b] = bindE (toStr v) (\<lambda>s. Inr (a @ s @ b))"
  by (cases "toStr v") (simp_all add: template_def)

lemma toStr_returns:
  "(\<exists>m. toStr v = Inr m) \<longleftrightarrow> \<not> hidesToString v"
  "(\<exists>m. joinComma xs = Inr m) \<longleftrightarrow> \<not> hidesToStringElems xs"
proof (induction v and xs rule: toStr_joinComma.induct)
  case (9 x)
  then show ?case by (cases x) auto
next
  case (10 x y ys)
  then show ?case by (cases x) (auto simp: bindE_eq_Inr)
qed simp_all

text \<open>
  C8, as the script has it. For every tab and every payload other than \<open>null\<close> whose
  \<open>status\<close> is not the string \<open>success\<close>, \<open>displayResults\<close> calls no builder of a tab, the
  same for all five tabs, and
  \<^item> when \<open>result.error\<close> is absent, \<open>null\<close>, \<open>false\<close>, 0 or the empty string, it leaves in
    the results container the one paragraph of class \<open>result-error\<close> that reads
    \<open>Unknown error\<close>;
  \<^item> when \<open>result.error\<close> is another value whose conversion to a string returns (every
    value but an object with an own property \<open>toString\<close> and an array holding one), it
    leaves the one paragraph that reads this string, the error itself when it is a
    string;
  \<^item> otherwise the conversion throws and the container is left empty.
\<close>

theorem displayResults_error_block:
  assumes "\<not> nullish result" and "get result ''status'' \<noteq> Inr (JStr ''success'')"
  shows \<open>\<exists>error. get result ''error'' = Inr error
    \<and> (\<not> truthy error \<longrightarrow>
          displayResults rt t result st =
            (None, st\<lparr> results := (results st)
               (t := ''<p class="result-error">Error: Unknown error</p>'') \<rparr>))
    \<and> (truthy error \<and> \<not> hidesToString error \<longrightarrow>
          (\<exists>m. toStr error = Inr m \<and> (\<forall>s. error = JStr s \<longrightarrow> m = s)
             \<and> displayResults rt t result st =
                 (None, st\<lparr> results := (results st)
                    (t := ''<p class="result-error">Error: '' @ m @ ''</p>'') \<rparr>)))
    \<and> (truthy error \<and> hidesToString error \<longrightarrow>
          (\<exists>e. displayResults rt t result st = (Some e, st\<lparr> results := (results st)(t := []) \<rparr>)))\<close>
proof -
  from assms(1) obtain status where status: "get result ''status'' = Inr status"
    using get_not_nullish by blast
  from assms(1) obtain error where error: "get result ''error'' = Inr error"
    using get_not_nullish by blast
  from status assms(2) have ne: "status \<noteq> JStr ''success''" by simp
  have html: \<open>resultsHtml rt t result =
        (if truthy error
         then bindE (toStr error) (\<lambda>m. Inr (''<p class="result-error">Error: '' @ m @ ''</p>''))
         else Inr ''<p class="result-error">Error: Unknown error</p>'')\<close>
    using ne by (simp add: resultsHtml_def status error template_Lit_Val_Lit orElse_def)
  have none: \<open>displayResults rt t result st =
      (None, st\<lparr> results := (results st)(t := ''<p class="result-error">Error: Unknown error</p>'') \<rparr>)\<close>
    if "\<not> truthy error"
    using that by (simp add: displayResults_def html)
  have str: \<open>\<exists>m. toStr error = Inr m \<and> (\<forall>s. error = JStr s \<longrightarrow> m = s)
      \<and> displayResults rt t result st =
         (None, st\<lparr> results := (results st)(t := ''<p class="result-error">Error: '' @ m @ ''</p>'') \<rparr>)\<close>
    if "truthy error \<and> \<not> hidesToString error"
  proof -
    from that toStr_returns(1) [of error] obtain m where m: "toStr error = Inr m" by blast
    then have "\<forall>s. error = JStr s \<longrightarrow> m = s" by auto
    moreover have \<open>displayResults rt t result st =
         (None, st\<lparr> results := (results st)(t := ''<p class="result-error">Error: '' @ m @ ''</p>'') \<rparr>)\<close>
      using that m by (simp add: displayResults_def html)
    ultimately show ?thesis using m by blast
  qed
  have thr: \<open>\<exists>e. displayResults rt t result st = (Some e, st\<lparr> results := (results st)(t := []) \<rparr>)\<close>
    if "truthy error \<and> hidesToString error"
  proof -
    from that toStr_returns(1) [of error] obtain e where "toStr error = Inl e"
      by (cases "toStr error") auto
    then show ?thesis using that by (simp add: displayResults_def html)
  qed
  show ?thesis
    using error none str thr by blast
qed

theorem displayResults_error_block_witness:
  \<open>displayResults exampleRuntime Reports
      (JObj [(''status'', JStr ''error''), (''error'', JStr ''Model unavailable'')]) initial
    = (None, initial\<lparr> results := (results initial)
         (Reports := ''<p class="result-error">Error: Model unavailable</p>'') \<rparr>)
   \<and> displayResults exampleRuntime Triage (JObj [(''status'', JStr ''error'')]) initial
    = (None, initial\<lparr> results := (results initial)
         (Triage := ''<p class="result-error">Error: Unknown error</p>'') \<rparr>)\<close>
  using displayResults_error_block [of "JObj [(''status'', JStr ''error''), (''error'', JStr ''Model unavailable'')]"
      exampleRuntime Reports initial]
    displayResults_error_block [of "JObj [(''status'', JStr ''error'')]" exampleRuntime Triage initial]
  by simp

text \<open>
  C8 as stated fails on a payload that is \<open>null\<close>, and on a payload whose \<open>error\<close> is an
  object with a property \<open>toString\<close>: \<open>displayResults\<close> throws a \<open>TypeError\<close> and the results
  container holds no error block.
\<close>

theorem displayResults_throws_without_block:
  \<open>displayResults exampleRuntime Triage JNull initial
     = (Some (TypeError (''Cannot read properties of null (reading '' @ [CHR 0x27] @ ''status'' @ [CHR 0x27] @ '')'')),
        initial\<lparr> results := (results initial)(Triage := []) \<rparr>)
   \<and> displayResults exampleRuntime Triage
       (JObj [(''status'', JStr ''error''), (''error'', JObj [(''toString'', JNull)])]) initial
     = (Some (TypeError ''Cannot convert object to primitive value''),
        initial\<lparr> results := (results initial)(Triage := []) \<rparr>)\<close>
  by (simp add: displayResults_def resultsHtml_def template_def orElse_def)


lemma show_nat_not_Nil: "show_nat n \<noteq> []"
  by (subst show_nat.simps) simp



lemma resultsHtml_triageScenario: "resultsHtml rt Triage triageScenario = Inr triageScenarioHtml"
  by (simp add: resultsHtml_def triageScenario_def triageScenarioHtml_def buildTriageResults_def
      buildVitalsTable_def buildPhysicalAssessment_def buildTriageAnalysis_def template_def
      whenE_def truthyE_def hasItems_def vitalItem_def vitalsMap_def orElse_def
      priorityClass_def priorityIcon_def)

lemma triageScenarioHtml_badge:
  \<open>sublist ''<div class="priority-badge danger">'' triageScenarioHtml\<close>
proof -
  have \<open>triageScenarioHtml =
      take 1401 triageScenarioHtml @ ''<div class="priority-badge danger">''
      @ drop 1436 triageScenarioHtml\<close>
    by (simp add: triageScenarioHtml_def u_ambulance_def u_bar_chart_def u_beating_heart_def u_degree_sign_def u_eye_def u_large_red_circle_def u_lungs_def u_speaking_head_in_silhouette_def u_stethoscope_def u_thermometer_def u_vs16_def)
  then show ?thesis
    by (metis sublist_appendI)
qed

lemma triageScenarioHtml_text:
  \<open>sublist ''<span class="priority-text">RED Priority</span>'' triageScenarioHtml\<close>
proof -
  have \<open>triageScenarioHtml =
      take 1501 triageScenarioHtml @ ''<span class="priority-text">RED Priority</span>''
      @ drop 1548 triageScenarioHtml\<close>
    by (simp add: triageScenarioHtml_def u_ambulance_def u_bar_chart_def u_beating_heart_def u_degree_sign_def u_eye_def u_large_red_circle_def u_lungs_def u_speaking_head_in_silhouette_def u_stethoscope_def u_thermometer_def u_vs16_def)
  then show ?thesis
    by (metis sublist_appendI)
qed

lemma triageScenarioHtml_pulse:
  \<open>sublist (''<span class="vital-label">'' @ u_beating_heart @ '' Pulse</span>
                <span class="vital-value ">110 bpm</span>'') triageScenarioHtml\<close>
proof -
  have \<open>triageScenarioHtml =
      take 237 triageScenarioHtml @ (''<span class="vital-label">'' @ u_beating_heart @ '' Pulse</span>
                <span class="vital-value ">110 bpm</span>'')
      @ drop 338 triageScenarioHtml\<close>
    by (simp add: triageScenarioHtml_def u_ambulance_def u_bar_chart_def u_beating_heart_def u_degree_sign_def u_eye_def u_large_red_circle_def u_lungs_def u_speaking_head_in_silhouette_def u_stethoscope_def u_thermometer_def u_vs16_def)
  then show ?thesis
    by (metis sublist_appendI)
qed

lemma triageScenarioHtml_bp:
  \<open>sublist (''<span class="vital-label">'' @ u_stethoscope @ '' Blood Pressure</span>
                <span class="vital-value missing">Not recorded</span>'') triageScenarioHtml\<close>
proof -
  have \<open>triageScenarioHtml =
      take 420 triageScenarioHtml @ (''<span class="vital-label">'' @ u_stethoscope @ '' Blood Pressure</span>
                <span class="vital-value missing">Not recorded</span>'')
      @ drop 542 triageScenarioHtml\<close>
    by (simp add: triageScenarioHtml_def u_ambulance_def u_bar_chart_def u_beating_heart_def u_degree_sign_def u_eye_def u_large_red_circle_def u_lungs_def u_speaking_head_in_silhouette_def u_stethoscope_def u_thermometer_def u_vs16_def)
  then show ?thesis
    by (metis sublist_appendI)
qed

lemma triageScenarioHtml_english:
  \<open>sublist (''<h4>'' @ u_speaking_head_in_silhouette @ u_vs16 @ '' English</h4>
                <p>Tachycardia with hypoxia</p>'') triageScenarioHtml\<close>
proof -
  have \<open>triageScenarioHtml =
      take 1625 triageScenarioHtml @ (''<h4>'' @ u_speaking_head_in_silhouette @ u_vs16 @ '' English</h4>
                <p>Tachycardia with hypoxia</p>'')
      @ drop 1697 triageScenarioHtml\<close>
    by (simp add: triageScenarioHtml_def u_ambulance_def u_bar_chart_def u_beating_heart_def u_degree_sign_def u_eye_def u_large_red_circle_def u_lungs_def u_speaking_head_in_silhouette_def u_stethoscope_def u_thermometer_def u_vs16_def)
  then show ?thesis
    by (metis sublist_appendI)
qed

text \<open>
  C7. For the triage payload of the specification's scenario \<open>displayResults\<close> throws
  nothing and writes a text that contains the priority badge with the class \<open>danger\<close>
  and the text \<open>RED Priority\<close>, the pulse entry \<open>110 bpm\<close>, the blood-pressure entry
  \<open>Not recorded\<close> (with the class \<open>missing\<close>), and the English justification
  \<open>Tachycardia with hypoxia\<close>.
\<close>

theorem displayResults_triage_scenario:
  \<open>displayResults rt Triage triageScenario st
     = (None, st\<lparr> results := (results st)(Triage := triageScenarioHtml) \<rparr>)
   \<and> sublist ''<div class="priority-badge danger">'' triageScenarioHtml
   \<and> sublist ''<span class="priority-text">RED Priority</span>'' triageScenarioHtml
   \<and> sublist (''<span class="vital-label">'' @ u_beating_heart @ '' Pulse</span>
                <span class="vital-value ">110 bpm</span>'') triageScenarioHtml
   \<and> sublist (''<span class="vital-label">'' @ u_stethoscope @ '' Blood Pressure</span>
                <span class="vital-value missing">Not recorded</span>'') triageScenarioHtml
   \<and> sublist (''<h4>'' @ u_speaking_head_in_silhouette @ u_vs16 @ '' English</h4>
                <p>Tachycardia with hypoxia</p>'') triageScenarioHtml\<close>
  using triageScenarioHtml_badge triageScenarioHtml_text triageScenarioHtml_pulse
    triageScenarioHtml_bp triageScenarioHtml_english
  by (simp add: displayResults_def resultsHtml_triageScenario)

subsection \<open>The examples, evaluated\<close>

lemma resultsHtml_markupReport:
  "resultsHtml exampleRuntime Reports markupReport = Inr markupReportHtml"
  by (simp add: markupReport_def markupReportHtml_def resultsHtml_def template_def orElse_def
      buildReportsResults_def buildTestsTable_def testRow_def testStatusClass_def buildPatientExplanation_def)

lemma status_markupReport:
  \<open>map_of [(''status'', JStr ''success''),
           (''extracted_tests'', JArr [JObj [(''test_name'', JStr ''<u>Hb</u>'')]])] ''status''
    = Some (JStr ''success'')\<close>
  by simp

lemma resultsHtml_markupNotes:
  "resultsHtml exampleRuntime Scribe markupNotes = Inr markupNotesHtml"
  by (simp add: markupNotes_def markupNotesHtml_def resultsHtml_def template_def orElse_def
      buildScribeResults_def buildTranscribedNotes_def buildExecutiveSummary_def whenE_def truthyE_def hasItems_def)

lemma status_markupNotes:
  \<open>map_of [(''status'', JStr ''success''),
           (''transcribed_notes'', JObj [(''chief_complaints'', JArr [JStr ''<i>fever</i>''])])] ''status''
    = Some (JStr ''success'')\<close>
  by simp

lemma resultsHtml_markupMedicine:
  "resultsHtml exampleRuntime Polypharmacy markupMedicine = Inr markupMedicineHtml"
  by (simp add: markupMedicine_def markupMedicineHtml_def resultsHtml_def template_def orElse_def
      buildPolypharmacyResults_def buildMedicinesList_def medicineCard_def buildSafetyAnalysis_def)

lemma status_markupMedicine:
  \<open>map_of [(''status'', JStr ''success''),
           (''medicines_extracted'', JArr [JObj [(''brand_name'', JStr ''<b>Dolo</b>'')]])] ''status''
    = Some (JStr ''success'')\<close>
  by simp

lemma resultsHtml_plainTranslation:
  "resultsHtml exampleRuntime Translator plainTranslation = Inr plainTranslationHtml"
  by (simp add: plainTranslation_def plainTranslationHtml_def resultsHtml_def template_def orElse_def
      buildTranslatorResults_def jsonStringify_def quoteJSON_def escapeChar_def isSurrogate_def
      surrogateEscape_def hexDigit_def wrapItems_def)

lemma status_plainTranslation:
  \<open>map_of [(''status'', JStr ''success''), (''translation'', JStr ''<b>ok</b>'')] ''status''
    = Some (JStr ''success'')\<close>
  by simp

lemma resultsHtml_markupTranslation:
  "resultsHtml exampleRuntime Translator markupTranslation = Inr markupTranslationHtml"
  by (simp add: markupTranslation_def markupTranslationHtml_def resultsHtml_def template_def orElse_def
      buildTranslatorResults_def jsonStringify_def quoteJSON_def escapeChar_def isSurrogate_def
      surrogateEscape_def hexDigit_def wrapItems_def)

lemma status_markupTranslation:
  \<open>map_of [(''status'', JStr ''success''), (''translation'', JStr ''<a href="x">'')] ''status''
    = Some (JStr ''success'')\<close>
  by simp

lemma resultsHtml_nestedTranslation:
  "resultsHtml exampleRuntime Translator nestedTranslation = Inr nestedTranslationHtml"
  by (simp add: nestedTranslation_def nestedTranslationHtml_def resultsHtml_def template_def orElse_def
      buildTranslatorResults_def jsonStringify_def quoteJSON_def escapeChar_def isSurrogate_def
      surrogateEscape_def hexDigit_def wrapItems_def)

lemma status_nestedTranslation:
  \<open>map_of [(''status'', JStr ''success''),
           (''translation'', JObj [(''text'', JStr ''<b>ok</b>''), (''parts'', JArr [JStr ''<i>a</i>''])]),
           (''validation'', JObj [(''valid'', JBool True)])] ''status''
    = Some (JStr ''success'')\<close>
  by simp

lemma resultsHtml_oddTranslation:
  "resultsHtml exampleRuntime Translator oddTranslation = Inr oddTranslationHtml"
  by (simp add: oddTranslation_def oddTranslationHtml_def resultsHtml_def template_def orElse_def
      buildTranslatorResults_def jsonStringify_def quoteJSON_def escapeChar_def isSurrogate_def
      surrogateEscape_def hexDigit_def wrapItems_def)

lemma status_oddTranslation:
  \<open>map_of [(''status'', JStr ''success''),
           (''translation'', JObj [(''n'', JNum Positive ''Infinity''),
                                   (''s'', JStr [CHR 0xED, CHR 0xA0, CHR 0x80])])] ''status''
    = Some (JStr ''success'')\<close>
  by simp

lemma status_triageScenario:
  "map_of [(''status'', JStr ''success''),
       (''vitals_extraction'',
          JObj [(''pulse'', JNum Positive ''110''), (''bp'', JNull),
                (''spo2'', JNum Positive ''94''), (''temperature'', JNum Positive ''38.2'')]),
       (''triage_analysis'',
          JObj [(''priority'', JStr ''RED''),
                (''justification_english'', JStr ''Tachycardia with hypoxia'')])] ''status''
    = Some (JStr ''success'')"
  by simp

subsection \<open>Rules for the text a computation shows\<close>

lemma shows_text_Inr [simp]: "shows_text s (Inr h) = sublist s h"
  by (simp add: shows_text_def)

lemma shows_text_Inl [simp]: "shows_text s (Inl e)"
  by (simp add: shows_text_def)

lemma shows_textD: "shows_text s m \<Longrightarrow> m = Inr h \<Longrightarrow> sublist s h"
  by simp

lemma shows_text_trans:
  "shows_text s (Inr h) \<Longrightarrow> shows_text h m \<Longrightarrow> shows_text s m"
  by (cases m) (auto intro: sublist_order.order.trans)

lemma shows_text_bindE: "(\<And>a. m = Inr a \<Longrightarrow> shows_text s (f a)) \<Longrightarrow> shows_text s (bindE m f)"
  by (cases m) simp_all

lemma shows_text_concatE:
  "m \<in> set ms \<Longrightarrow> shows_text s m \<Longrightarrow> shows_text s (concatE ms)"
proof (cases "concatE ms")
  case (Inl e)
  then show ?thesis by simp
next
  case (Inr out)
  assume "m \<in> set ms" "shows_text s m"
  with concatE_member [OF Inr] obtain h where "m = Inr h" "sublist h out" "sublist s h"
    by fastforce
  then show ?thesis using Inr
    by (auto intro: sublist_order.order.trans)
qed

lemma shows_text_concatE_map:
  "x \<in> set xs \<Longrightarrow> shows_text s (f x) \<Longrightarrow> shows_text s (concatE (map f xs))"
  by (rule shows_text_concatE [of "f x"]) auto

lemma shows_text_template:
  "n < length ps \<Longrightarrow> shows_text s (pieceStr (ps ! n)) \<Longrightarrow> shows_text s (template ps)"
  unfolding template_def by (rule shows_text_concatE [of "pieceStr (ps ! n)"]) auto

lemma shows_text_whenE:
  "(c = Inr True \<Longrightarrow> shows_text s body) \<Longrightarrow> s = [] \<or> c \<noteq> Inr False \<Longrightarrow> shows_text s (whenE c body)"
  by (cases c) (auto simp: whenE_def)

lemma shows_text_mapJoin:
  "x \<in> set xs \<Longrightarrow> shows_text s (f x) \<Longrightarrow> shows_text s (mapJoin name f (JArr xs))"
  by (simp add: shows_text_concatE_map)

lemma shows_text_Val_between:
  "shows_text s (template [Lit a, Val (Inr (JStr s)), Lit b])"
  by (simp add: template_def)

lemma get_JObj: "get (JObj kvs) k = Inr (case map_of kvs k of None \<Rightarrow> JUndefined | Some v \<Rightarrow> v)"
  by simp

lemma truthyE_Inr [simp]: "truthyE (Inr v) = Inr (truthy v)"
  by (simp add: truthyE_def)

lemma hasItems_JArr [simp]: "hasItems rt (JArr xs) = Inr (xs \<noteq> [])"
  by (simp add: hasItems_def)

text \<open>The two shapes of a section: a text field, and a list whose elements are shown
  one by one.\<close>

lemma shows_text_field_section:
  "shows_text s (whenE (truthyE (Inr (JStr s))) (template [Lit a, Val (Inr (JStr s)), Lit b]))"
  by (rule shows_text_whenE) (auto simp: template_def)

lemma shows_text_list_section:
  assumes "JStr s \<in> set xs"
  shows "shows_text s (whenE (hasItems rt (JArr xs))
     (template [Lit a, Html (mapJoin name (\<lambda>v. template [Lit c, Val (Inr v), Lit d]) (JArr xs)), Lit b]))"
proof (rule shows_text_whenE)
  show "shows_text s
     (template [Lit a, Html (mapJoin name (\<lambda>v. template [Lit c, Val (Inr v), Lit d]) (JArr xs)), Lit b])"
    by (rule shows_text_template [of 1])
      (use assms in \<open>auto intro!: shows_text_concatE_map [of "JStr s"] simp: template_def\<close>)
  show "s = [] \<or> hasItems rt (JArr xs) \<noteq> Inr False"
    using assms by auto
qed

subsection \<open>Where the builders show the strings of a payload\<close>

lemma shows_text_Nil [simp]: "shows_text [] m"
  by (cases m) simp_all

lemma shows_text_orElse:
  "shows_text s (toStr (orElse (JStr s) d))"
  by (cases "s = []") (simp_all add: orElse_def)

lemma vitalItem_shows_value:
  assumes "map_of obj key = Some (JStr s)"
  shows "shows_text s (vitalItem (JObj obj) (key, label, unit))"
  unfolding vitalItem_def
  apply (simp add: assms template_def [of "[Val (Inr (JStr s)), Lit '' '', Lit unit]"])
  apply (rule shows_text_template [of 5])
   apply simp
  apply simp
  done

lemma buildVitalsTable_shows_entry:
  assumes "entry \<in> set vitalsMap" and "shows_text s (vitalItem (JObj obj) entry)"
  shows "shows_text s (buildVitalsTable (JObj obj))"
  unfolding buildVitalsTable_def template_def
  apply (simp only: truthy.simps not_True_eq_False if_False)
  apply (rule shows_text_concatE [of "vitalItem (JObj obj) entry"])
  using assms apply (auto simp: image_iff)
  done

lemma buildVitalsTable_shows_vital:
  assumes "k \<in> {''pulse'', ''bp'', ''spo2'', ''temperature''}" and "map_of obj k = Some (JStr s)"
  shows "shows_text s (buildVitalsTable (JObj obj))"
proof -
  from assms(1) obtain label unit where "(k, label, unit) \<in> set vitalsMap"
    by (auto simp: vitalsMap_def)
  then show ?thesis
    by (rule buildVitalsTable_shows_entry) (rule vitalItem_shows_value [OF assms(2)])
qed

lemma buildVitalsTable_shows_physical_signs:
  assumes "map_of obj ''physical_signs'' = Some (JStr s)"
  shows "shows_text s (buildVitalsTable (JObj obj))"
  unfolding buildVitalsTable_def
  apply (simp only: truthy.simps not_True_eq_False if_False)
  apply (rule shows_text_template [of 5])
   apply (simp add: vitalsMap_def)
  apply (simp add: assms vitalsMap_def)
  apply (rule shows_text_whenE)
   apply (rule shows_text_template [of 1])
    apply simp
   apply simp
  apply simp
  done

lemma buildPhysicalAssessment_shows_physical_condition:
  assumes "map_of obj ''physical_condition'' = Some (JStr s)"
  shows "shows_text s (buildPhysicalAssessment rt (JObj obj))"
  unfolding buildPhysicalAssessment_def
  apply (simp only: truthy.simps not_True_eq_False if_False)
  apply (simp add: assms)?
  apply (rule shows_text_template [of 1])
   apply simp
  apply (simp add: assms)
  apply (rule shows_text_whenE)
   apply (rule shows_text_template [of 1])
    apply simp
   apply simp
  apply simp
  done

lemma buildPhysicalAssessment_shows_distress_level:
  assumes "map_of obj ''distress_level'' = Some (JStr s)"
  shows "shows_text s (buildPhysicalAssessment rt (JObj obj))"
  unfolding buildPhysicalAssessment_def
  apply (simp only: truthy.simps not_True_eq_False if_False)
  apply (simp add: assms)?
  apply (rule shows_text_template [of 2])
   apply simp
  apply (simp add: assms)
  apply (rule shows_text_whenE)
   apply (rule shows_text_template [of 5])
    apply simp
   apply simp
  apply simp
  done

lemma buildPhysicalAssessment_shows_breathing_assessment:
  assumes "map_of obj ''breathing_assessment'' = Some (JStr s)"
  shows "shows_text s (buildPhysicalAssessment rt (JObj obj))"
  unfolding buildPhysicalAssessment_def
  apply (simp only: truthy.simps not_True_eq_False if_False)
  apply (simp add: assms)?
  apply (rule shows_text_template [of 3])
   apply simp
  apply (simp add: assms)
  apply (rule shows_text_whenE)
   apply (rule shows_text_template [of 1])
    apply simp
   apply simp
  apply simp
  done

lemma buildPhysicalAssessment_shows_consciousness:
  assumes "map_of obj ''consciousness'' = Some (JStr s)"
  shows "shows_text s (buildPhysicalAssessment rt (JObj obj))"
  unfolding buildPhysicalAssessment_def
  apply (simp only: truthy.simps not_True_eq_False if_False)
  apply (simp add: assms)?
  apply (rule shows_text_template [of 4])
   apply simp
  apply (simp add: assms)
  apply (rule shows_text_whenE)
   apply (rule shows_text_template [of 3])
    apply simp
   apply simp
  apply simp
  done

lemma buildPhysicalAssessment_shows_visible_signs:
  assumes "map_of obj ''visible_signs'' = Some (JArr xs)" and "JStr s \<in> set xs"
  shows "shows_text s (buildPhysicalAssessment rt (JObj obj))"
  unfolding buildPhysicalAssessment_def
  apply (simp only: truthy.simps not_True_eq_False if_False)
  apply (rule shows_text_template [of 5])
   apply simp
  apply (simp add: assms)
  apply (rule shows_text_whenE)
   apply (rule shows_text_template [of 1])
    apply simp
   apply simp
   apply (rule shows_text_concatE_map [of "JStr s"])
    apply (rule assms)
   apply (rule shows_text_Val_between)
  using assms apply auto
  done

lemma buildPhysicalAssessment_shows_text_fields:
  assumes "k \<in> {''physical_condition'', ''distress_level'', ''breathing_assessment'', ''consciousness''}" and "map_of obj k = Some (JStr s)"
  shows "shows_text s (buildPhysicalAssessment rt (JObj obj))"
  using assms by (auto intro: buildPhysicalAssessment_shows_physical_condition buildPhysicalAssessment_shows_distress_level buildPhysicalAssessment_shows_breathing_assessment buildPhysicalAssessment_shows_consciousness)

lemma buildTriageAnalysis_shows_priority:
  assumes "map_of obj ''priority'' = Some (JStr s)"
  shows "shows_text s (buildTriageAnalysis rt (JObj obj))"
  unfolding buildTriageAnalysis_def
  apply (simp only: truthy.simps not_True_eq_False if_False)
  apply (simp add: assms)
  apply (rule shows_text_template [of 0])
   apply simp
  apply simp
  apply (rule shows_text_template [of 5])
   apply simp
  apply (simp add: shows_text_orElse)
  done

lemma buildTriageAnalysis_shows_justification_english:
  assumes "map_of obj ''justification_english'' = Some (JStr s)"
  shows "shows_text s (buildTriageAnalysis rt (JObj obj))"
  unfolding buildTriageAnalysis_def
  apply (simp only: truthy.simps not_True_eq_False if_False)
  apply (simp only: get_JObj bindE_Inr)
  apply (rule shows_text_template [of 1])
   apply simp
  apply (simp add: assms)
  apply (rule shows_text_whenE)
   apply (rule shows_text_template [of 1])
    apply simp
   apply simp
  apply simp
  done

lemma buildTriageAnalysis_shows_justification_hindi:
  assumes "map_of obj ''justification_hindi'' = Some (JStr s)"
  shows "shows_text s (buildTriageAnalysis rt (JObj obj))"
  unfolding buildTriageAnalysis_def
  apply (simp only: truthy.simps not_True_eq_False if_False)
  apply (simp only: get_JObj bindE_Inr)
  apply (rule shows_text_template [of 2])
   apply simp
  apply (simp add: assms)
  apply (rule shows_text_whenE)
   apply (rule shows_text_template [of 1])
    apply simp
   apply simp
  apply simp
  done

lemma buildTriageAnalysis_shows_recommended_action:
  assumes "map_of obj ''recommended_action'' = Some (JStr s)"
  shows "shows_text s (buildTriageAnalysis rt (JObj obj))"
  unfolding buildTriageAnalysis_def
  apply (simp only: truthy.simps not_True_eq_False if_False)
  apply (simp only: get_JObj bindE_Inr)
  apply (rule shows_text_template [of 3])
   apply simp
  apply (simp add: assms)
  apply (rule shows_text_whenE)
   apply (rule shows_text_template [of 1])
    apply simp
   apply simp
  apply simp
  done

lemma buildTriageAnalysis_shows_key_vital_flags:
  assumes "map_of obj ''key_vital_flags'' = Some (JArr xs)" and "JStr s \<in> set xs"
  shows "shows_text s (buildTriageAnalysis rt (JObj obj))"
  unfolding buildTriageAnalysis_def
  apply (simp only: truthy.simps not_True_eq_False if_False)
  apply (simp only: get_JObj bindE_Inr)
  apply (rule shows_text_template [of 4])
   apply simp
  apply (simp add: assms)
  apply (rule shows_text_whenE)
   apply (rule shows_text_template [of 1])
    apply simp
   apply simp
   apply (rule shows_text_concatE_map [of "JStr s"])
    apply (rule assms)
   apply (rule shows_text_Val_between)
  using assms apply auto
  done

lemma buildTriageAnalysis_shows_physical_flags:
  assumes "map_of obj ''physical_flags'' = Some (JArr xs)" and "JStr s \<in> set xs"
  shows "shows_text s (buildTriageAnalysis rt (JObj obj))"
  unfolding buildTriageAnalysis_def
  apply (simp only: truthy.simps not_True_eq_False if_False)
  apply (simp only: get_JObj bindE_Inr)
  apply (rule shows_text_template [of 5])
   apply simp
  apply (simp add: assms)
  apply (rule shows_text_whenE)
   apply (rule shows_text_template [of 1])
    apply simp
   apply simp
   apply (rule shows_text_concatE_map [of "JStr s"])
    apply (rule assms)
   apply (rule shows_text_Val_between)
  using assms apply auto
  done

lemma buildTriageAnalysis_shows_assessment_basis:
  assumes "map_of obj ''assessment_basis'' = Some (JStr s)"
  shows "shows_text s (buildTriageAnalysis rt (JObj obj))"
  unfolding buildTriageAnalysis_def
  apply (simp only: truthy.simps not_True_eq_False if_False)
  apply (simp only: get_JObj bindE_Inr)
  apply (rule shows_text_template [of 6])
   apply simp
  apply (simp add: assms)
  apply (rule shows_text_whenE)
   apply (rule shows_text_template [of 1])
    apply simp
   apply simp
  apply simp
  done

lemma buildTriageAnalysis_shows_text_fields:
  assumes "k \<in> {''priority'', ''justification_english'', ''justification_hindi'', ''recommended_action'', ''assessment_basis''}" and "map_of obj k = Some (JStr s)"
  shows "shows_text s (buildTriageAnalysis rt (JObj obj))"
  using assms by (auto intro: buildTriageAnalysis_shows_priority buildTriageAnalysis_shows_justification_english buildTriageAnalysis_shows_justification_hindi buildTriageAnalysis_shows_recommended_action buildTriageAnalysis_shows_assessment_basis)

lemma testRow_shows_test_name:
  assumes "map_of obj ''test_name'' = Some (JStr s)"
  shows "shows_text s (testRow (JObj obj))"
  unfolding testRow_def
  apply (simp only: get_JObj bindE_Inr)
  apply (rule shows_text_template [of 1])
   apply simp
  apply (simp add: assms shows_text_orElse)
  done

lemma testRow_shows_result:
  assumes "map_of obj ''result'' = Some (JStr s)"
  shows "shows_text s (testRow (JObj obj))"
  unfolding testRow_def
  apply (simp only: get_JObj bindE_Inr)
  apply (rule shows_text_template [of 3])
   apply simp
  apply (simp add: assms shows_text_orElse)
  done

lemma testRow_shows_unit:
  assumes "map_of obj ''unit'' = Some (JStr s)"
  shows "shows_text s (testRow (JObj obj))"
  unfolding testRow_def
  apply (simp only: get_JObj bindE_Inr)
  apply (rule shows_text_template [of 5])
   apply simp
  apply (simp add: assms shows_text_orElse)
  done

lemma testRow_shows_reference_range:
  assumes "map_of obj ''reference_range'' = Some (JStr s)"
  shows "shows_text s (testRow (JObj obj))"
  unfolding testRow_def
  apply (simp only: get_JObj bindE_Inr)
  apply (rule shows_text_template [of 7])
   apply simp
  apply (simp add: assms shows_text_orElse)
  done

lemma testRow_shows_status:
  assumes "map_of obj ''status'' = Some (JStr s)"
  shows "shows_text s (testRow (JObj obj))"
  unfolding testRow_def
  apply (simp add: assms)
  apply (rule shows_text_template [of 11])
   apply simp
  apply (simp add: shows_text_orElse)
  done

lemma testRow_shows_text_fields:
  assumes "k \<in> {''test_name'', ''result'', ''unit'', ''reference_range'', ''status''}"
    and "map_of obj k = Some (JStr s)"
  shows "shows_text s (testRow (JObj obj))"
  using assms by (auto intro: testRow_shows_test_name testRow_shows_result testRow_shows_unit
      testRow_shows_reference_range testRow_shows_status)

lemma buildTestsTable_shows_row:
  assumes "test \<in> set tests" and "shows_text s (testRow test)"
  shows "shows_text s (buildTestsTable rt (JArr tests))"
proof -
  from assms(1) have ne: "tests \<noteq> []" by auto
  show ?thesis
    unfolding buildTestsTable_def
    apply (simp add: ne)
    apply (rule shows_text_template [of 2])
     apply simp
    apply simp
    apply (rule shows_text_concatE_map [where f = testRow, OF assms])
    done
qed

lemma explanationItem_shows_test_name:
  assumes "map_of obj ''test_name'' = Some (JStr s)"
  shows "shows_text s (explanationItem rt (JObj obj))"
  unfolding explanationItem_def
  apply (simp only: get_JObj bindE_Inr)
  apply (rule shows_text_template [of 3])
   apply simp
  apply (simp add: assms)
  done

lemma explanationItem_shows_status:
  assumes "map_of obj ''status'' = Some (JStr s)"
  shows "shows_text s (explanationItem rt (JObj obj))"
  unfolding explanationItem_def
  apply (simp only: get_JObj bindE_Inr assms option.simps)
  apply (rule shows_text_template [of 7])
   apply simp
  apply simp
  done

lemma explanationItem_shows_simple_explanation:
  assumes "map_of obj ''simple_explanation'' = Some (JStr s)"
  shows "shows_text s (explanationItem rt (JObj obj))"
  unfolding explanationItem_def
  apply (simp only: get_JObj bindE_Inr)
  apply (rule shows_text_template [of 9])
   apply simp
  apply (simp add: assms)
  done

lemma explanationItem_shows_analogy:
  assumes "map_of obj ''analogy'' = Some (JStr s)"
  shows "shows_text s (explanationItem rt (JObj obj))"
  unfolding explanationItem_def
  apply (simp only: get_JObj bindE_Inr)
  apply (rule shows_text_template [of 11])
   apply simp
  apply (simp add: assms)
  apply (rule impI)
  apply (rule shows_text_Val_between)
  done

lemma explanationItem_shows_text_fields:
  assumes "k \<in> {''test_name'', ''status'', ''simple_explanation'', ''analogy''}"
    and "map_of obj k = Some (JStr s)"
  shows "shows_text s (explanationItem rt (JObj obj))"
  using assms by (auto intro: explanationItem_shows_test_name explanationItem_shows_status
      explanationItem_shows_simple_explanation explanationItem_shows_analogy)

lemma buildPatientExplanation_shows_item:
  assumes "map_of obj ''explanations'' = Some (JArr exps)" and "exp \<in> set exps"
    and "shows_text s (explanationItem rt exp)"
  shows "shows_text s (buildPatientExplanation rt (JObj obj))"
  unfolding buildPatientExplanation_def
  apply (simp add: assms(1))
  apply (rule shows_text_template [of 1])
   apply simp
  apply simp
  apply (rule shows_text_concatE_map [where f = "explanationItem rt", OF assms(2,3)])
  done

lemma buildPatientExplanation_shows_next_steps:
  assumes "map_of obj ''explanations'' = Some (JArr exps)"
    and "map_of obj ''next_steps'' = Some (JArr xs)" and "JStr s \<in> set xs"
  shows "shows_text s (buildPatientExplanation rt (JObj obj))"
  unfolding buildPatientExplanation_def
  apply (simp add: assms(1))
  apply (rule shows_text_template [of 2])
   apply simp
  apply (simp add: assms)
  apply (rule shows_text_whenE)
   apply (rule shows_text_template [of 1])
    apply simp
   apply simp
   apply (rule shows_text_concatE_map [of "JStr s"])
    apply (rule assms)
   apply (rule shows_text_Val_between)
  using assms apply auto
  done

lemma buildPatientExplanation_shows_warning_signs:
  assumes "map_of obj ''explanations'' = Some (JArr exps)"
    and "map_of obj ''warning_signs'' = Some (JStr s)"
  shows "shows_text s (buildPatientExplanation rt (JObj obj))"
  unfolding buildPatientExplanation_def
  apply (simp add: assms(1))
  apply (rule shows_text_template [of 3])
   apply simp
  apply (simp add: assms)
  apply (rule shows_text_whenE)
   apply (rule shows_text_template [of 1])
    apply simp
   apply simp
  apply simp
  done

lemma buildTranscribedNotes_shows_chief_complaints:
  assumes "map_of obj ''chief_complaints'' = Some (JArr xs)" and "JStr s \<in> set xs"
  shows "shows_text s (buildTranscribedNotes rt (JObj obj))"
  unfolding buildTranscribedNotes_def
  apply (simp only: truthy.simps not_True_eq_False if_False)
  apply (rule shows_text_template [of 1])
   apply simp
  apply (simp add: assms)
  apply (rule shows_text_whenE)
   apply (rule shows_text_template [of 1])
    apply simp
   apply simp
   apply (rule shows_text_concatE_map [of "JStr s"])
    apply (rule assms)
   apply (rule shows_text_Val_between)
  using assms apply auto
  done

lemma buildTranscribedNotes_shows_duration:
  assumes "map_of obj ''duration'' = Some (JStr s)"
  shows "shows_text s (buildTranscribedNotes rt (JObj obj))"
  unfolding buildTranscribedNotes_def
  apply (simp only: truthy.simps not_True_eq_False if_False)
  apply (simp add: assms)?
  apply (rule shows_text_template [of 2])
   apply simp
  apply (simp add: assms)
  apply (rule shows_text_whenE)
   apply (rule shows_text_template [of 1])
    apply simp
   apply simp
  apply simp
  done

lemma buildTranscribedNotes_shows_previous_medications:
  assumes "map_of obj ''previous_medications'' = Some (JArr xs)" and "JStr s \<in> set xs"
  shows "shows_text s (buildTranscribedNotes rt (JObj obj))"
  unfolding buildTranscribedNotes_def
  apply (simp only: truthy.simps not_True_eq_False if_False)
  apply (rule shows_text_template [of 3])
   apply simp
  apply (simp add: assms)
  apply (rule shows_text_whenE)
   apply (rule shows_text_template [of 1])
    apply simp
   apply simp
   apply (rule shows_text_concatE_map [of "JStr s"])
    apply (rule assms)
   apply (rule shows_text_Val_between)
  using assms apply auto
  done

lemma buildTranscribedNotes_shows_allergies:
  assumes "map_of obj ''allergies'' = Some (JArr xs)" and "JStr s \<in> set xs"
  shows "shows_text s (buildTranscribedNotes rt (JObj obj))"
proof -
  from assms(2) have ne: "xs \<noteq> []" by auto
  show ?thesis
    unfolding buildTranscribedNotes_def
  apply (simp only: truthy.simps not_True_eq_False if_False)
    apply (rule shows_text_template [of 4])
     apply simp
    apply (simp add: assms ne)
    apply (rule shows_text_template [of 1])
     apply simp
    apply simp
    apply (rule shows_text_concatE_map [of "JStr s"])
     apply (rule assms)
    apply (rule shows_text_Val_between)
    done
qed

lemma buildTranscribedNotes_shows_examination_findings:
  assumes "map_of obj ''examination_findings'' = Some (JArr xs)" and "JStr s \<in> set xs"
  shows "shows_text s (buildTranscribedNotes rt (JObj obj))"
  unfolding buildTranscribedNotes_def
  apply (simp only: truthy.simps not_True_eq_False if_False)
  apply (rule shows_text_template [of 5])
   apply simp
  apply (simp add: assms)
  apply (rule shows_text_whenE)
   apply (rule shows_text_template [of 1])
    apply simp
   apply simp
   apply (rule shows_text_concatE_map [of "JStr s"])
    apply (rule assms)
   apply (rule shows_text_Val_between)
  using assms apply auto
  done

lemma buildExecutiveSummary_shows_executive_summary:
  assumes "map_of obj ''executive_summary'' = Some (JArr xs)" and "JStr s \<in> set xs"
  shows "shows_text s (buildExecutiveSummary rt (JObj obj))"
  unfolding buildExecutiveSummary_def
  apply (simp only: truthy.simps not_True_eq_False if_False)
  apply (rule shows_text_template [of 1])
   apply simp
  apply (simp add: assms)
  apply (rule shows_text_whenE)
   apply (rule shows_text_template [of 1])
    apply simp
   apply simp
   apply (rule shows_text_concatE_map [of "JStr s"])
    apply (rule assms)
   apply (rule shows_text_Val_between)
  using assms apply auto
  done

lemma buildExecutiveSummary_shows_critical_flags:
  assumes "map_of obj ''critical_flags'' = Some (JArr xs)" and "JStr s \<in> set xs"
  shows "shows_text s (buildExecutiveSummary rt (JObj obj))"
  unfolding buildExecutiveSummary_def
  apply (simp only: truthy.simps not_True_eq_False if_False)
  apply (rule shows_text_template [of 2])
   apply simp
  apply (simp add: assms)
  apply (rule shows_text_whenE)
   apply (rule shows_text_template [of 1])
    apply simp
   apply simp
   apply (rule shows_text_concatE_map [of "JStr s"])
    apply (rule assms)
   apply (rule shows_text_Val_between)
  using assms apply auto
  done

lemma buildExecutiveSummary_shows_doctor_focus_time:
  assumes "map_of obj ''doctor_focus_time'' = Some (JStr s)"
  shows "shows_text s (buildExecutiveSummary rt (JObj obj))"
  unfolding buildExecutiveSummary_def
  apply (simp only: truthy.simps not_True_eq_False if_False)
  apply (simp add: assms)?
  apply (rule shows_text_template [of 3])
   apply simp
  apply (simp add: assms)
  apply (rule shows_text_whenE)
   apply (rule shows_text_template [of 1])
    apply simp
   apply simp
  apply simp
  done

lemma medicineCard_shows_brand_name:
  assumes "map_of obj ''brand_name'' = Some (JStr s)"
  shows "shows_text s (medicineCard (JObj obj))"
  unfolding medicineCard_def
  apply (rule shows_text_template [of 1])
   apply simp
  apply (simp add: assms shows_text_orElse)
  done

lemma medicineCard_shows_generic_name:
  assumes "map_of obj ''generic_name'' = Some (JStr s)"
  shows "shows_text s (medicineCard (JObj obj))"
  unfolding medicineCard_def
  apply (rule shows_text_template [of 3])
   apply simp
  apply (simp add: assms shows_text_orElse)
  done

lemma medicineCard_shows_strength:
  assumes "map_of obj ''strength'' = Some (JStr s)"
  shows "shows_text s (medicineCard (JObj obj))"
  unfolding medicineCard_def
  apply (rule shows_text_template [of 5])
   apply simp
  apply (simp add: assms shows_text_orElse)
  done

lemma medicineCard_shows_form:
  assumes "map_of obj ''form'' = Some (JStr s)"
  shows "shows_text s (medicineCard (JObj obj))"
  unfolding medicineCard_def
  apply (rule shows_text_template [of 7])
   apply simp
  apply (simp add: assms shows_text_orElse)
  done

lemma medicineCard_shows_frequency:
  assumes "map_of obj ''frequency'' = Some (JStr s)"
  shows "shows_text s (medicineCard (JObj obj))"
  unfolding medicineCard_def
  apply (rule shows_text_template [of 9])
   apply simp
  apply (simp add: assms)
  apply (rule impI)
  apply (rule shows_text_Val_between)
  done

lemma medicineCard_shows_text_fields:
  assumes "k \<in> {''brand_name'', ''generic_name'', ''strength'', ''form'', ''frequency''}"
    and "map_of obj k = Some (JStr s)"
  shows "shows_text s (medicineCard (JObj obj))"
  using assms by (auto intro: medicineCard_shows_brand_name medicineCard_shows_generic_name
      medicineCard_shows_strength medicineCard_shows_form medicineCard_shows_frequency)

lemma buildMedicinesList_shows_card:
  assumes "med \<in> set meds" and "shows_text s (medicineCard med)"
  shows "shows_text s (buildMedicinesList rt (JArr meds))"
proof -
  from assms(1) have ne: "meds \<noteq> []" by auto
  show ?thesis
    unfolding buildMedicinesList_def
    apply (simp add: ne)
    apply (rule shows_text_template [of 1])
     apply simp
    apply simp
    apply (rule shows_text_concatE_map [where f = medicineCard, OF assms])
    done
qed

lemma buildSafetyAnalysis_shows_urgency:
  assumes "map_of obj ''urgency'' = Some (JStr s)"
  shows "shows_text s (buildSafetyAnalysis rt (JObj obj))"
  unfolding buildSafetyAnalysis_def
  apply (simp only: truthy.simps not_True_eq_False if_False)
  apply (simp add: assms)
  apply (rule shows_text_template [of 0])
   apply simp
  apply simp
  apply (rule shows_text_template [of 5])
   apply simp
  apply (simp add: shows_text_orElse)
  done

lemma buildSafetyAnalysis_shows_drug_interactions:
  assumes "map_of obj ''drug_interactions'' = Some (JArr xs)" and "JStr s \<in> set xs"
  shows "shows_text s (buildSafetyAnalysis rt (JObj obj))"
  unfolding buildSafetyAnalysis_def
  apply (simp only: truthy.simps not_True_eq_False if_False)
  apply (simp only: get_JObj bindE_Inr)
  apply (rule shows_text_template [of 1])
   apply simp
  apply (simp add: assms)
  apply (rule shows_text_whenE)
   apply (rule shows_text_template [of 1])
    apply simp
   apply simp
   apply (rule shows_text_concatE_map [of "JStr s"])
    apply (rule assms)
   apply (rule shows_text_Val_between)
  using assms apply auto
  done

lemma buildSafetyAnalysis_shows_duplicate_medications:
  assumes "map_of obj ''duplicate_medications'' = Some (JArr xs)" and "JStr s \<in> set xs"
  shows "shows_text s (buildSafetyAnalysis rt (JObj obj))"
  unfolding buildSafetyAnalysis_def
  apply (simp only: truthy.simps not_True_eq_False if_False)
  apply (simp only: get_JObj bindE_Inr)
  apply (rule shows_text_template [of 2])
   apply simp
  apply (simp add: assms)
  apply (rule shows_text_whenE)
   apply (rule shows_text_template [of 1])
    apply simp
   apply simp
   apply (rule shows_text_concatE_map [of "JStr s"])
    apply (rule assms)
   apply (rule shows_text_Val_between)
  using assms apply auto
  done

lemma buildSafetyAnalysis_shows_safety_warnings:
  assumes "map_of obj ''safety_warnings'' = Some (JArr xs)" and "JStr s \<in> set xs"
  shows "shows_text s (buildSafetyAnalysis rt (JObj obj))"
  unfolding buildSafetyAnalysis_def
  apply (simp only: truthy.simps not_True_eq_False if_False)
  apply (simp only: get_JObj bindE_Inr)
  apply (rule shows_text_template [of 3])
   apply simp
  apply (simp add: assms)
  apply (rule shows_text_whenE)
   apply (rule shows_text_template [of 1])
    apply simp
   apply simp
   apply (rule shows_text_concatE_map [of "JStr s"])
    apply (rule assms)
   apply (rule shows_text_Val_between)
  using assms apply auto
  done

lemma buildSafetyAnalysis_shows_recommendation:
  assumes "map_of obj ''recommendation'' = Some (JStr s)"
  shows "shows_text s (buildSafetyAnalysis rt (JObj obj))"
  unfolding buildSafetyAnalysis_def
  apply (simp only: truthy.simps not_True_eq_False if_False)
  apply (simp only: get_JObj bindE_Inr)
  apply (rule shows_text_template [of 4])
   apply simp
  apply (simp add: assms)
  apply (rule shows_text_whenE)
   apply (rule shows_text_template [of 1])
    apply simp
   apply simp
  apply simp
  done

subsection \<open>From a section to the whole result\<close>

lemma resultsHtml_success:
  assumes "map_of kvs ''status'' = Some (JStr ''success'')"
  shows "resultsHtml rt t (JObj kvs) =
    (case t of
       Triage \<Rightarrow> buildTriageResults rt (JObj kvs)
     | Reports \<Rightarrow> buildReportsResults rt (JObj kvs)
     | Scribe \<Rightarrow> buildScribeResults rt (JObj kvs)
     | Translator \<Rightarrow> buildTranslatorResults (JObj kvs)
     | Polypharmacy \<Rightarrow> buildPolypharmacyResults rt (JObj kvs))"
  by (simp add: resultsHtml_def assms)

text \<open>The value of a field of an object: \<open>undefined\<close> when it is absent.\<close>

lemma get_Some: "map_of kvs k = Some v \<Longrightarrow> get (JObj kvs) k = Inr v"
  by simp

lemma get_None: "map_of kvs k = None \<Longrightarrow> get (JObj kvs) k = Inr JUndefined"
  by simp

lemma buildTriageResults_shows_vitals_extraction:
  assumes "get (JObj kvs) ''vitals_extraction'' = Inr v" and "shows_text s (buildVitalsTable v)"
  shows "shows_text s (buildTriageResults rt (JObj kvs))"
  unfolding buildTriageResults_def
  apply (simp only: get_JObj bindE_Inr)
  apply (rule shows_text_template [of 1])
   apply simp
  using assms apply simp
  done

lemma buildTriageResults_shows_physical_assessment:
  assumes "get (JObj kvs) ''physical_assessment'' = Inr v" and "shows_text s (buildPhysicalAssessment rt v)"
  shows "shows_text s (buildTriageResults rt (JObj kvs))"
  unfolding buildTriageResults_def
  apply (simp only: get_JObj bindE_Inr)
  apply (rule shows_text_template [of 3])
   apply simp
  using assms apply simp
  done

lemma buildTriageResults_shows_triage_analysis:
  assumes "get (JObj kvs) ''triage_analysis'' = Inr v" and "shows_text s (buildTriageAnalysis rt v)"
  shows "shows_text s (buildTriageResults rt (JObj kvs))"
  unfolding buildTriageResults_def
  apply (simp only: get_JObj bindE_Inr)
  apply (rule shows_text_template [of 5])
   apply simp
  using assms apply simp
  done

lemma buildReportsResults_shows_extracted_tests:
  assumes "get (JObj kvs) ''extracted_tests'' = Inr v" and "shows_text s (buildTestsTable rt v)"
  shows "shows_text s (buildReportsResults rt (JObj kvs))"
  unfolding buildReportsResults_def
  apply (simp only: get_JObj bindE_Inr)
  apply (rule shows_text_template [of 1])
   apply simp
  using assms apply simp
  done

lemma buildReportsResults_shows_patient_explanations:
  assumes "get (JObj kvs) ''patient_explanations'' = Inr v" and "shows_text s (buildPatientExplanation rt v)"
  shows "shows_text s (buildReportsResults rt (JObj kvs))"
  unfolding buildReportsResults_def
  apply (simp only: get_JObj bindE_Inr)
  apply (rule shows_text_template [of 3])
   apply simp
  using assms apply simp
  done

lemma buildScribeResults_shows_transcribed_notes:
  assumes "get (JObj kvs) ''transcribed_notes'' = Inr v" and "shows_text s (buildTranscribedNotes rt v)"
  shows "shows_text s (buildScribeResults rt (JObj kvs))"
  unfolding buildScribeResults_def
  apply (simp only: get_JObj bindE_Inr)
  apply (rule shows_text_template [of 1])
   apply simp
  using assms apply simp
  done

lemma buildScribeResults_shows_doctor_summary:
  assumes "get (JObj kvs) ''doctor_summary'' = Inr v" and "shows_text s (buildExecutiveSummary rt v)"
  shows "shows_text s (buildScribeResults rt (JObj kvs))"
  unfolding buildScribeResults_def
  apply (simp only: get_JObj bindE_Inr)
  apply (rule shows_text_template [of 3])
   apply simp
  using assms apply simp
  done

lemma buildPolypharmacyResults_shows_medicines_extracted:
  assumes "get (JObj kvs) ''medicines_extracted'' = Inr v" and "shows_text s (buildMedicinesList rt v)"
  shows "shows_text s (buildPolypharmacyResults rt (JObj kvs))"
  unfolding buildPolypharmacyResults_def
  apply (simp only: get_JObj bindE_Inr)
  apply (rule shows_text_template [of 1])
   apply simp
  using assms apply simp
  done

lemma buildPolypharmacyResults_shows_safety_analysis:
  assumes "get (JObj kvs) ''safety_analysis'' = Inr v" and "shows_text s (buildSafetyAnalysis rt v)"
  shows "shows_text s (buildPolypharmacyResults rt (JObj kvs))"
  unfolding buildPolypharmacyResults_def
  apply (simp only: get_JObj bindE_Inr)
  apply (rule shows_text_template [of 3])
   apply simp
  using assms apply simp
  done

subsection \<open>Every string field of a result is shown as it is\<close>

lemma buildVitalsTable_shows_text_fields:
  assumes "k \<in> {''pulse'', ''bp'', ''spo2'', ''temperature'', ''physical_signs''}"
    and "map_of obj k = Some (JStr s)"
  shows "shows_text s (buildVitalsTable (JObj obj))"
  using assms
  by (auto intro: buildVitalsTable_shows_vital buildVitalsTable_shows_physical_signs)

lemma buildTriageAnalysis_shows_list_fields:
  assumes "k \<in> {''key_vital_flags'', ''physical_flags''}"
    and "map_of obj k = Some (JArr xs)" and "JStr s \<in> set xs"
  shows "shows_text s (buildTriageAnalysis rt (JObj obj))"
  using assms
  by (auto intro: buildTriageAnalysis_shows_key_vital_flags buildTriageAnalysis_shows_physical_flags)

lemma buildTranscribedNotes_shows_list_fields:
  assumes "k \<in> {''chief_complaints'', ''previous_medications'', ''allergies'', ''examination_findings''}"
    and "map_of obj k = Some (JArr xs)" and "JStr s \<in> set xs"
  shows "shows_text s (buildTranscribedNotes rt (JObj obj))"
  using assms
  by (auto intro: buildTranscribedNotes_shows_chief_complaints
      buildTranscribedNotes_shows_previous_medications buildTranscribedNotes_shows_allergies
      buildTranscribedNotes_shows_examination_findings)

lemma buildExecutiveSummary_shows_list_fields:
  assumes "k \<in> {''executive_summary'', ''critical_flags''}"
    and "map_of obj k = Some (JArr xs)" and "JStr s \<in> set xs"
  shows "shows_text s (buildExecutiveSummary rt (JObj obj))"
  using assms
  by (auto intro: buildExecutiveSummary_shows_executive_summary
      buildExecutiveSummary_shows_critical_flags)

lemma buildSafetyAnalysis_shows_list_fields:
  assumes "k \<in> {''drug_interactions'', ''duplicate_medications'', ''safety_warnings''}"
    and "map_of obj k = Some (JArr xs)" and "JStr s \<in> set xs"
  shows "shows_text s (buildSafetyAnalysis rt (JObj obj))"
  using assms
  by (auto intro: buildSafetyAnalysis_shows_drug_interactions
      buildSafetyAnalysis_shows_duplicate_medications buildSafetyAnalysis_shows_safety_warnings)

lemma buildSafetyAnalysis_shows_text_fields:
  assumes "k \<in> {''urgency'', ''recommendation''}" and "map_of obj k = Some (JStr s)"
  shows "shows_text s (buildSafetyAnalysis rt (JObj obj))"
  using assms
  by (auto intro: buildSafetyAnalysis_shows_urgency buildSafetyAnalysis_shows_recommendation)

subsubsection \<open>The translator\<close>

lemma escapeChar_plain:
  assumes "c \<noteq> CHR 0x22" and "c \<noteq> CHR 0x5C" and "(32 :: nat) \<le> of_char c"
  shows "escapeChar c = [c]"
  using assms by (auto simp: escapeChar_def)

lemma quoteJSONChars_plain:
  "\<forall>c \<in> set s. c \<noteq> CHR 0x22 \<and> c \<noteq> CHR 0x5C \<and> (32 :: nat) \<le> of_char c \<Longrightarrow> surrogateFree s
    \<Longrightarrow> quoteJSONChars s = s"
  by (induction s rule: quoteJSONChars.induct) (simp_all add: escapeChar_plain)

lemma quoteJSON_plain:
  assumes "\<forall>c \<in> set s. c \<noteq> CHR 0x22 \<and> c \<noteq> CHR 0x5C \<and> (32 :: nat) \<le> of_char c"
    and "surrogateFree s"
  shows "quoteJSON s = [CHR 0x22] @ s @ [CHR 0x22]"
  using assms by (simp add: quoteJSON_def quoteJSONChars_plain)

text \<open>The text of a value holds the JSON text of every string the value holds.\<close>

lemma sublist_joinLines:
  "item \<in> set items \<Longrightarrow> sublist item (joinLines sep items)"
proof (induction sep items rule: joinLines.induct)
  case (1 sep)
  then show ?case by simp
next
  case (2 sep x)
  then show ?case by simp
next
  case (3 sep x y ys)
  show ?case
  proof (cases "item = x")
    case True
    then show ?thesis by (simp add: sublist_append_rightI)
  next
    case False
    with 3 have "sublist item (joinLines sep (y # ys))" by simp
    then have "sublist item ((x @ sep) @ joinLines sep (y # ys))"
      by (rule sublist_order.order.trans [OF _ sublist_append_leftI])
    then show ?thesis by simp
  qed
qed

lemma sublist_wrapItems:
  assumes "item \<in> set items" and "sublist x item"
  shows "sublist x (wrapItems opn cls ind items)"
proof -
  from assms(1) have ne: "items \<noteq> []" by auto
  have "sublist item (joinLines ('','' @ [CHR 0x0A] @ ind @ ''  '') items)"
    by (rule sublist_joinLines [OF assms(1)])
  with assms(2) have "sublist x (joinLines ('','' @ [CHR 0x0A] @ ind @ ''  '') items)"
    by (rule sublist_order.order.trans)
  then have "sublist x ((opn @ [CHR 0x0A] @ ind @ ''  '')
      @ joinLines ('','' @ [CHR 0x0A] @ ind @ ''  '') items @ ([CHR 0x0A] @ ind @ cls))"
    by (rule sublist_order.order.trans [OF _ sublist_appendI])
  then show ?thesis using ne by (simp add: wrapItems_def)
qed

lemma serialize_occurs:
  "occursIn s v \<longrightarrow> sublist (quoteJSON s) (serialize ind v)"
  "occursInElems s xs \<longrightarrow> (\<exists>item \<in> set (serializeElems ind xs). sublist (quoteJSON s) item)"
  "occursInProps s kvs \<longrightarrow> (\<exists>item \<in> set (serializeProps ind kvs). sublist (quoteJSON s) item)"
proof (induction ind v and ind xs and ind kvs rule: serialize_serializeElems_serializeProps.induct)
  case (6 ind xs)
  then show ?case by (auto intro: sublist_wrapItems)
next
  case (7 ind kvs)
  then show ?case by (auto intro: sublist_wrapItems)
next
  case (11 ind k v kvs)
  show ?case
  proof (intro impI)
    assume o: "occursInProps s ((k, v) # kvs)"
    show "\<exists>item \<in> set (serializeProps ind ((k, v) # kvs)). sublist (quoteJSON s) item"
    proof (cases "occursIn s v")
      case True
      then have nu: "v \<noteq> JUndefined" by auto
      with 11 True have "sublist (quoteJSON s) (serialize ind v)" by simp
      then have "sublist (quoteJSON s) ((quoteJSON k @ '': '') @ serialize ind v)"
        by (rule sublist_order.order.trans [OF _ sublist_append_leftI])
      with nu show ?thesis by simp
    next
      case False
      with o have "occursInProps s kvs" by simp
      with 11 show ?thesis by (cases "v = JUndefined") auto
    qed
  qed
qed simp_all

lemma jsonStringify_occurs:
  assumes "occursIn s v"
  shows "shows_text (quoteJSON s) (toStr (jsonStringify v))"
proof -
  from assms have "v \<noteq> JUndefined" by auto
  then show ?thesis
    using serialize_occurs(1) [of s v "[]"] assms by (simp add: jsonStringify_def)
qed

lemma buildTranslatorResults_shows_field:
  assumes "k \<in> {''translation'', ''validation''}" and "map_of kvs k = Some v" and "occursIn s v"
  shows "shows_text (quoteJSON s) (buildTranslatorResults (JObj kvs))"
proof -
  have "k = ''translation'' \<or> k = ''validation''" using assms(1) by simp
  then show ?thesis
  proof
    assume k: "k = ''translation''"
    show ?thesis
      unfolding buildTranslatorResults_def
      apply (simp only: get_JObj bindE_Inr)
      apply (rule shows_text_template [of 1])
       apply simp
      using assms(2) k jsonStringify_occurs [OF assms(3)] apply simp
      done
  next
    assume k: "k = ''validation''"
    show ?thesis
      unfolding buildTranslatorResults_def
      apply (simp only: get_JObj bindE_Inr)
      apply (rule shows_text_template [of 3])
       apply simp
      using assms(2) k jsonStringify_occurs [OF assms(3)] apply simp
      done
  qed
qed

lemma sublist_of_shown:
  "shows_text s m \<Longrightarrow> m = Inr html \<Longrightarrow> sublist s html"
  by simp

text \<open>
  C10, as the script has it. Let the payload be an object whose \<open>status\<close> is \<open>success\<close>,
  and let rendering return the text \<open>html\<close>. On the triage, reports, scribe and
  polypharmacy tabs every string \<open>s\<close> held by a field of the result schema (a text field
  of a section, a text field of an entry of the tests, explanations or medicines list,
  a string element of a list field) occurs in \<open>html\<close> exactly as it is, whatever
  characters it has; \<open>next_steps\<close> and \<open>warning_signs\<close> are rendered only when the
  \<open>explanations\<close> list is there. On the translator tab every string that \<open>translation\<close>
  or \<open>validation\<close> holds (the value itself, an element of an array or the value of a
  property, at any depth) occurs as its JSON text: quoted, with the double quote, the
  backslash, the control characters and the surrogates that stand alone escaped; it
  occurs unchanged when it has none of these (\<open><\<close>, \<open>>\<close> and \<open>&\<close> are not escaped).
\<close>

theorem payload_strings_rendered_verbatim:
  assumes "map_of kvs ''status'' = Some (JStr ''success'')"
  shows
   "(resultsHtml rt Triage (JObj kvs) = Inr html \<longrightarrow>
      (\<forall>obj k. map_of kvs ''vitals_extraction'' = Some (JObj obj)
          \<and> k \<in> {''pulse'', ''bp'', ''spo2'', ''temperature'', ''physical_signs''}
          \<and> map_of obj k = Some (JStr s) \<longrightarrow> sublist s html)
    \<and> (\<forall>obj k. map_of kvs ''physical_assessment'' = Some (JObj obj)
          \<and> k \<in> {''physical_condition'', ''distress_level'', ''breathing_assessment'', ''consciousness''}
          \<and> map_of obj k = Some (JStr s) \<longrightarrow> sublist s html)
    \<and> (\<forall>obj xs. map_of kvs ''physical_assessment'' = Some (JObj obj)
          \<and> map_of obj ''visible_signs'' = Some (JArr xs) \<and> JStr s \<in> set xs \<longrightarrow> sublist s html)
    \<and> (\<forall>obj k. map_of kvs ''triage_analysis'' = Some (JObj obj)
          \<and> k \<in> {''priority'', ''justification_english'', ''justification_hindi'',
                 ''recommended_action'', ''assessment_basis''}
          \<and> map_of obj k = Some (JStr s) \<longrightarrow> sublist s html)
    \<and> (\<forall>obj k xs. map_of kvs ''triage_analysis'' = Some (JObj obj)
          \<and> k \<in> {''key_vital_flags'', ''physical_flags''}
          \<and> map_of obj k = Some (JArr xs) \<and> JStr s \<in> set xs \<longrightarrow> sublist s html))
  \<and> (resultsHtml rt Reports (JObj kvs) = Inr html \<longrightarrow>
      (\<forall>tests obj k. map_of kvs ''extracted_tests'' = Some (JArr tests) \<and> JObj obj \<in> set tests
          \<and> k \<in> {''test_name'', ''result'', ''unit'', ''reference_range'', ''status''}
          \<and> map_of obj k = Some (JStr s) \<longrightarrow> sublist s html)
    \<and> (\<forall>ex exps obj k. map_of kvs ''patient_explanations'' = Some (JObj ex)
          \<and> map_of ex ''explanations'' = Some (JArr exps) \<and> JObj obj \<in> set exps
          \<and> k \<in> {''test_name'', ''status'', ''simple_explanation'', ''analogy''}
          \<and> map_of obj k = Some (JStr s) \<longrightarrow> sublist s html)
    \<and> (\<forall>ex exps xs. map_of kvs ''patient_explanations'' = Some (JObj ex)
          \<and> map_of ex ''explanations'' = Some (JArr exps)
          \<and> map_of ex ''next_steps'' = Some (JArr xs) \<and> JStr s \<in> set xs \<longrightarrow> sublist s html)
    \<and> (\<forall>ex exps. map_of kvs ''patient_explanations'' = Some (JObj ex)
          \<and> map_of ex ''explanations'' = Some (JArr exps)
          \<and> map_of ex ''warning_signs'' = Some (JStr s) \<longrightarrow> sublist s html))
  \<and> (resultsHtml rt Scribe (JObj kvs) = Inr html \<longrightarrow>
      (\<forall>obj k xs. map_of kvs ''transcribed_notes'' = Some (JObj obj)
          \<and> k \<in> {''chief_complaints'', ''previous_medications'', ''allergies'', ''examination_findings''}
          \<and> map_of obj k = Some (JArr xs) \<and> JStr s \<in> set xs \<longrightarrow> sublist s html)
    \<and> (\<forall>obj. map_of kvs ''transcribed_notes'' = Some (JObj obj)
          \<and> map_of obj ''duration'' = Some (JStr s) \<longrightarrow> sublist s html)
    \<and> (\<forall>obj k xs. map_of kvs ''doctor_summary'' = Some (JObj obj)
          \<and> k \<in> {''executive_summary'', ''critical_flags''}
          \<and> map_of obj k = Some (JArr xs) \<and> JStr s \<in> set xs \<longrightarrow> sublist s html)
    \<and> (\<forall>obj. map_of kvs ''doctor_summary'' = Some (JObj obj)
          \<and> map_of obj ''doctor_focus_time'' = Some (JStr s) \<longrightarrow> sublist s html))
  \<and> (resultsHtml rt Polypharmacy (JObj kvs) = Inr html \<longrightarrow>
      (\<forall>meds obj k. map_of kvs ''medicines_extracted'' = Some (JArr meds) \<and> JObj obj \<in> set meds
          \<and> k \<in> {''brand_name'', ''generic_name'', ''strength'', ''form'', ''frequency''}
          \<and> map_of obj k = Some (JStr s) \<longrightarrow> sublist s html)
    \<and> (\<forall>obj k. map_of kvs ''safety_analysis'' = Some (JObj obj)
          \<and> k \<in> {''urgency'', ''recommendation''}
          \<and> map_of obj k = Some (JStr s) \<longrightarrow> sublist s html)
    \<and> (\<forall>obj k xs. map_of kvs ''safety_analysis'' = Some (JObj obj)
          \<and> k \<in> {''drug_interactions'', ''duplicate_medications'', ''safety_warnings''}
          \<and> map_of obj k = Some (JArr xs) \<and> JStr s \<in> set xs \<longrightarrow> sublist s html))
  \<and> (resultsHtml rt Translator (JObj kvs) = Inr html \<longrightarrow>
      (\<forall>k v. k \<in> {''translation'', ''validation''} \<and> map_of kvs k = Some v \<and> occursIn s v \<longrightarrow>
          sublist (quoteJSON s) html
          \<and> ((\<forall>c \<in> set s. c \<noteq> CHR 0x22 \<and> c \<noteq> CHR 0x5C \<and> (32 :: nat) \<le> of_char c)
               \<and> surrogateFree s \<longrightarrow>
               quoteJSON s = [CHR 0x22] @ s @ [CHR 0x22] \<and> sublist s html)))"
proof -
  note top = resultsHtml_success [OF assms, of rt]
  have triage: "shows_text s (resultsHtml rt Triage (JObj kvs))"
    if "map_of kvs f = Some (JObj obj)"
      and "(f = ''vitals_extraction'' \<and> shows_text s (buildVitalsTable (JObj obj)))
         \<or> (f = ''physical_assessment'' \<and> shows_text s (buildPhysicalAssessment rt (JObj obj)))
         \<or> (f = ''triage_analysis'' \<and> shows_text s (buildTriageAnalysis rt (JObj obj)))"
    for f obj
    using that
    by (auto simp: top intro: buildTriageResults_shows_vitals_extraction
        buildTriageResults_shows_physical_assessment buildTriageResults_shows_triage_analysis
        get_Some)
  have reports: "shows_text s (resultsHtml rt Reports (JObj kvs))"
    if "map_of kvs f = Some v"
      and "(f = ''extracted_tests'' \<and> shows_text s (buildTestsTable rt v))
         \<or> (f = ''patient_explanations'' \<and> shows_text s (buildPatientExplanation rt v))"
    for f v
    using that
    by (auto simp: top intro: buildReportsResults_shows_extracted_tests
        buildReportsResults_shows_patient_explanations get_Some)
  have scribe: "shows_text s (resultsHtml rt Scribe (JObj kvs))"
    if "map_of kvs f = Some v"
      and "(f = ''transcribed_notes'' \<and> shows_text s (buildTranscribedNotes rt v))
         \<or> (f = ''doctor_summary'' \<and> shows_text s (buildExecutiveSummary rt v))"
    for f v
    using that
    by (auto simp: top intro: buildScribeResults_shows_transcribed_notes
        buildScribeResults_shows_doctor_summary get_Some)
  have poly: "shows_text s (resultsHtml rt Polypharmacy (JObj kvs))"
    if "map_of kvs f = Some v"
      and "(f = ''medicines_extracted'' \<and> shows_text s (buildMedicinesList rt v))
         \<or> (f = ''safety_analysis'' \<and> shows_text s (buildSafetyAnalysis rt v))"
    for f v
    using that
    by (auto simp: top intro: buildPolypharmacyResults_shows_medicines_extracted
        buildPolypharmacyResults_shows_safety_analysis get_Some)
  have c_triage: "resultsHtml rt Triage (JObj kvs) = Inr html \<longrightarrow>
      (\<forall>obj k. map_of kvs ''vitals_extraction'' = Some (JObj obj)
          \<and> k \<in> {''pulse'', ''bp'', ''spo2'', ''temperature'', ''physical_signs''}
          \<and> map_of obj k = Some (JStr s) \<longrightarrow> sublist s html)
    \<and> (\<forall>obj k. map_of kvs ''physical_assessment'' = Some (JObj obj)
          \<and> k \<in> {''physical_condition'', ''distress_level'', ''breathing_assessment'', ''consciousness''}
          \<and> map_of obj k = Some (JStr s) \<longrightarrow> sublist s html)
    \<and> (\<forall>obj xs. map_of kvs ''physical_assessment'' = Some (JObj obj)
          \<and> map_of obj ''visible_signs'' = Some (JArr xs) \<and> JStr s \<in> set xs \<longrightarrow> sublist s html)
    \<and> (\<forall>obj k. map_of kvs ''triage_analysis'' = Some (JObj obj)
          \<and> k \<in> {''priority'', ''justification_english'', ''justification_hindi'',
                 ''recommended_action'', ''assessment_basis''}
          \<and> map_of obj k = Some (JStr s) \<longrightarrow> sublist s html)
    \<and> (\<forall>obj k xs. map_of kvs ''triage_analysis'' = Some (JObj obj)
          \<and> k \<in> {''key_vital_flags'', ''physical_flags''}
          \<and> map_of obj k = Some (JArr xs) \<and> JStr s \<in> set xs \<longrightarrow> sublist s html)"
  proof (intro impI conjI allI)
    assume r: "resultsHtml rt Triage (JObj kvs) = Inr html"
    show "sublist s html"
      if "map_of kvs ''vitals_extraction'' = Some (JObj obj)
          \<and> k \<in> {''pulse'', ''bp'', ''spo2'', ''temperature'', ''physical_signs''}
          \<and> map_of obj k = Some (JStr s)" for obj k
      using that triage [of "''vitals_extraction''" obj]
        buildVitalsTable_shows_text_fields [of k obj s] r
      by (metis sublist_of_shown)
    show "sublist s html"
      if "map_of kvs ''physical_assessment'' = Some (JObj obj)
          \<and> k \<in> {''physical_condition'', ''distress_level'', ''breathing_assessment'', ''consciousness''}
          \<and> map_of obj k = Some (JStr s)" for obj k
      using that triage [of "''physical_assessment''" obj]
        buildPhysicalAssessment_shows_text_fields [of k obj s rt] r
      by (metis sublist_of_shown)
    show "sublist s html"
      if "map_of kvs ''physical_assessment'' = Some (JObj obj)
          \<and> map_of obj ''visible_signs'' = Some (JArr xs) \<and> JStr s \<in> set xs" for obj xs
      using that triage [of "''physical_assessment''" obj]
        buildPhysicalAssessment_shows_visible_signs [of obj xs s rt] r
      by (metis sublist_of_shown)
    show "sublist s html"
      if "map_of kvs ''triage_analysis'' = Some (JObj obj)
          \<and> k \<in> {''priority'', ''justification_english'', ''justification_hindi'',
                 ''recommended_action'', ''assessment_basis''}
          \<and> map_of obj k = Some (JStr s)" for obj k
      using that triage [of "''triage_analysis''" obj]
        buildTriageAnalysis_shows_text_fields [of k obj s rt] r
      by (metis sublist_of_shown)
    show "sublist s html"
      if "map_of kvs ''triage_analysis'' = Some (JObj obj)
          \<and> k \<in> {''key_vital_flags'', ''physical_flags''}
          \<and> map_of obj k = Some (JArr xs) \<and> JStr s \<in> set xs" for obj k xs
      using that triage [of "''triage_analysis''" obj]
        buildTriageAnalysis_shows_list_fields [of k obj xs s rt] r
      by (metis sublist_of_shown)
  qed
  have c_reports: "resultsHtml rt Reports (JObj kvs) = Inr html \<longrightarrow>
      (\<forall>tests obj k. map_of kvs ''extracted_tests'' = Some (JArr tests) \<and> JObj obj \<in> set tests
          \<and> k \<in> {''test_name'', ''result'', ''unit'', ''reference_range'', ''status''}
          \<and> map_of obj k = Some (JStr s) \<longrightarrow> sublist s html)
    \<and> (\<forall>ex exps obj k. map_of kvs ''patient_explanations'' = Some (JObj ex)
          \<and> map_of ex ''explanations'' = Some (JArr exps) \<and> JObj obj \<in> set exps
          \<and> k \<in> {''test_name'', ''status'', ''simple_explanation'', ''analogy''}
          \<and> map_of obj k = Some (JStr s) \<longrightarrow> sublist s html)
    \<and> (\<forall>ex exps xs. map_of kvs ''patient_explanations'' = Some (JObj ex)
          \<and> map_of ex ''explanations'' = Some (JArr exps)
          \<and> map_of ex ''next_steps'' = Some (JArr xs) \<and> JStr s \<in> set xs \<longrightarrow> sublist s html)
    \<and> (\<forall>ex exps. map_of kvs ''patient_explanations'' = Some (JObj ex)
          \<and> map_of ex ''explanations'' = Some (JArr exps)
          \<and> map_of ex ''warning_signs'' = Some (JStr s) \<longrightarrow> sublist s html)"
  proof (intro impI conjI allI)
    assume r: "resultsHtml rt Reports (JObj kvs) = Inr html"
    show "sublist s html"
      if "map_of kvs ''extracted_tests'' = Some (JArr tests) \<and> JObj obj \<in> set tests
          \<and> k \<in> {''test_name'', ''result'', ''unit'', ''reference_range'', ''status''}
          \<and> map_of obj k = Some (JStr s)" for tests obj k
      using that reports [of "''extracted_tests''" "JArr tests"]
        buildTestsTable_shows_row [of "JObj obj" tests s rt]
        testRow_shows_text_fields [of k obj s] r
      by (metis sublist_of_shown)
    show "sublist s html"
      if "map_of kvs ''patient_explanations'' = Some (JObj ex)
          \<and> map_of ex ''explanations'' = Some (JArr exps) \<and> JObj obj \<in> set exps
          \<and> k \<in> {''test_name'', ''status'', ''simple_explanation'', ''analogy''}
          \<and> map_of obj k = Some (JStr s)" for ex exps obj k
      using that reports [of "''patient_explanations''" "JObj ex"]
        buildPatientExplanation_shows_item [of ex exps "JObj obj" s rt]
        explanationItem_shows_text_fields [of k obj s rt] r
      by (metis sublist_of_shown)
    show "sublist s html"
      if "map_of kvs ''patient_explanations'' = Some (JObj ex)
          \<and> map_of ex ''explanations'' = Some (JArr exps)
          \<and> map_of ex ''next_steps'' = Some (JArr xs) \<and> JStr s \<in> set xs" for ex exps xs
      using that reports [of "''patient_explanations''" "JObj ex"]
        buildPatientExplanation_shows_next_steps [of ex exps xs s rt] r
      by (metis sublist_of_shown)
    show "sublist s html"
      if "map_of kvs ''patient_explanations'' = Some (JObj ex)
          \<and> map_of ex ''explanations'' = Some (JArr exps)
          \<and> map_of ex ''warning_signs'' = Some (JStr s)" for ex exps
      using that reports [of "''patient_explanations''" "JObj ex"]
        buildPatientExplanation_shows_warning_signs [of ex exps s rt] r
      by (metis sublist_of_shown)
  qed
  have c_scribe: "resultsHtml rt Scribe (JObj kvs) = Inr html \<longrightarrow>
      (\<forall>obj k xs. map_of kvs ''transcribed_notes'' = Some (JObj obj)
          \<and> k \<in> {''chief_complaints'', ''previous_medications'', ''allergies'', ''examination_findings''}
          \<and> map_of obj k = Some (JArr xs) \<and> JStr s \<in> set xs \<longrightarrow> sublist s html)
    \<and> (\<forall>obj. map_of kvs ''transcribed_notes'' = Some (JObj obj)
          \<and> map_of obj ''duration'' = Some (JStr s) \<longrightarrow> sublist s html)
    \<and> (\<forall>obj k xs. map_of kvs ''doctor_summary'' = Some (JObj obj)
          \<and> k \<in> {''executive_summary'', ''critical_flags''}
          \<and> map_of obj k = Some (JArr xs) \<and> JStr s \<in> set xs \<longrightarrow> sublist s html)
    \<and> (\<forall>obj. map_of kvs ''doctor_summary'' = Some (JObj obj)
          \<and> map_of obj ''doctor_focus_time'' = Some (JStr s) \<longrightarrow> sublist s html)"
  proof (intro impI conjI allI)
    assume r: "resultsHtml rt Scribe (JObj kvs) = Inr html"
    show "sublist s html"
      if "map_of kvs ''transcribed_notes'' = Some (JObj obj)
          \<and> k \<in> {''chief_complaints'', ''previous_medications'', ''allergies'', ''examination_findings''}
          \<and> map_of obj k = Some (JArr xs) \<and> JStr s \<in> set xs" for obj k xs
      using that scribe [of "''transcribed_notes''" "JObj obj"]
        buildTranscribedNotes_shows_list_fields [of k obj xs s rt] r
      by (metis sublist_of_shown)
    show "sublist s html"
      if "map_of kvs ''transcribed_notes'' = Some (JObj obj)
          \<and> map_of obj ''duration'' = Some (JStr s)" for obj
      using that scribe [of "''transcribed_notes''" "JObj obj"]
        buildTranscribedNotes_shows_duration [of obj s rt] r
      by (metis sublist_of_shown)
    show "sublist s html"
      if "map_of kvs ''doctor_summary'' = Some (JObj obj)
          \<and> k \<in> {''executive_summary'', ''critical_flags''}
          \<and> map_of obj k = Some (JArr xs) \<and> JStr s \<in> set xs" for obj k xs
      using that scribe [of "''doctor_summary''" "JObj obj"]
        buildExecutiveSummary_shows_list_fields [of k obj xs s rt] r
      by (metis sublist_of_shown)
    show "sublist s html"
      if "map_of kvs ''doctor_summary'' = Some (JObj obj)
          \<and> map_of obj ''doctor_focus_time'' = Some (JStr s)" for obj
      using that scribe [of "''doctor_summary''" "JObj obj"]
        buildExecutiveSummary_shows_doctor_focus_time [of obj s rt] r
      by (metis sublist_of_shown)
  qed
  have c_poly: "resultsHtml rt Polypharmacy (JObj kvs) = Inr html \<longrightarrow>
      (\<forall>meds obj k. map_of kvs ''medicines_extracted'' = Some (JArr meds) \<and> JObj obj \<in> set meds
          \<and> k \<in> {''brand_name'', ''generic_name'', ''strength'', ''form'', ''frequency''}
          \<and> map_of obj k = Some (JStr s) \<longrightarrow> sublist s html)
    \<and> (\<forall>obj k. map_of kvs ''safety_analysis'' = Some (JObj obj)
          \<and> k \<in> {''urgency'', ''recommendation''}
          \<and> map_of obj k = Some (JStr s) \<longrightarrow> sublist s html)
    \<and> (\<forall>obj k xs. map_of kvs ''safety_analysis'' = Some (JObj obj)
          \<and> k \<in> {''drug_interactions'', ''duplicate_medications'', ''safety_warnings''}
          \<and> map_of obj k = Some (JArr xs) \<and> JStr s \<in> set xs \<longrightarrow> sublist s html)"
  proof (intro impI conjI allI)
    assume r: "resultsHtml rt Polypharmacy (JObj kvs) = Inr html"
    show "sublist s html"
      if "map_of kvs ''medicines_extracted'' = Some (JArr meds) \<and> JObj obj \<in> set meds
          \<and> k \<in> {''brand_name'', ''generic_name'', ''strength'', ''form'', ''frequency''}
          \<and> map_of obj k = Some (JStr s)" for meds obj k
      using that poly [of "''medicines_extracted''" "JArr meds"]
        buildMedicinesList_shows_card [of "JObj obj" meds s rt]
        medicineCard_shows_text_fields [of k obj s] r
      by (metis sublist_of_shown)
    show "sublist s html"
      if "map_of kvs ''safety_analysis'' = Some (JObj obj)
          \<and> k \<in> {''urgency'', ''recommendation''}
          \<and> map_of obj k = Some (JStr s)" for obj k
      using that poly [of "''safety_analysis''" "JObj obj"]
        buildSafetyAnalysis_shows_text_fields [of k obj s rt] r
      by (metis sublist_of_shown)
    show "sublist s html"
      if "map_of kvs ''safety_analysis'' = Some (JObj obj)
          \<and> k \<in> {''drug_interactions'', ''duplicate_medications'', ''safety_warnings''}
          \<and> map_of obj k = Some (JArr xs) \<and> JStr s \<in> set xs" for obj k xs
      using that poly [of "''safety_analysis''" "JObj obj"]
        buildSafetyAnalysis_shows_list_fields [of k obj xs s rt] r
      by (metis sublist_of_shown)
  qed
  have c_translator: "resultsHtml rt Translator (JObj kvs) = Inr html \<longrightarrow>
      (\<forall>k v. k \<in> {''translation'', ''validation''} \<and> map_of kvs k = Some v \<and> occursIn s v \<longrightarrow>
          sublist (quoteJSON s) html
          \<and> ((\<forall>c \<in> set s. c \<noteq> CHR 0x22 \<and> c \<noteq> CHR 0x5C \<and> (32 :: nat) \<le> of_char c)
               \<and> surrogateFree s \<longrightarrow>
               quoteJSON s = [CHR 0x22] @ s @ [CHR 0x22] \<and> sublist s html))"
  proof (intro impI allI)
    fix k v
    assume r: "resultsHtml rt Translator (JObj kvs) = Inr html"
      and k: "k \<in> {''translation'', ''validation''} \<and> map_of kvs k = Some v \<and> occursIn s v"
    from k have "shows_text (quoteJSON s) (buildTranslatorResults (JObj kvs))"
      using buildTranslatorResults_shows_field by blast
    with r have q: "sublist (quoteJSON s) html"
      by (simp add: top)
    have "quoteJSON s = [CHR 0x22] @ s @ [CHR 0x22] \<and> sublist s html"
      if plain: "(\<forall>c \<in> set s. c \<noteq> CHR 0x22 \<and> c \<noteq> CHR 0x5C \<and> (32 :: nat) \<le> of_char c)
               \<and> surrogateFree s"
    proof -
      have e: "quoteJSON s = [CHR 0x22] @ s @ [CHR 0x22]"
        by (rule quoteJSON_plain [OF conjunct1 [OF plain] conjunct2 [OF plain]])
      have "sublist s (quoteJSON s)"
        unfolding e by (rule sublist_appendI)
      with q e show ?thesis
        by (metis sublist_order.order.trans)
    qed
    with q show "sublist (quoteJSON s) html
          \<and> ((\<forall>c \<in> set s. c \<noteq> CHR 0x22 \<and> c \<noteq> CHR 0x5C \<and> (32 :: nat) \<le> of_char c)
               \<and> surrogateFree s \<longrightarrow>
               quoteJSON s = [CHR 0x22] @ s @ [CHR 0x22] \<and> sublist s html)"
      by blast
  qed
  from c_triage c_reports c_scribe c_poly c_translator show ?thesis
    by (intro conjI)
qed

theorem payload_strings_rendered_verbatim_witness:
  "sublist ''Tachycardia with hypoxia'' triageScenarioHtml
   \<and> sublist ''<u>Hb</u>'' markupReportHtml
   \<and> sublist ''<i>fever</i>'' markupNotesHtml
   \<and> sublist ''<b>Dolo</b>'' markupMedicineHtml
   \<and> sublist ''<b>ok</b>'' plainTranslationHtml
   \<and> sublist ''<i>a</i>'' nestedTranslationHtml
   \<and> sublist ([CHR 0x22, CHR 0x5C] @ ''ud800'' @ [CHR 0x22]) oddTranslationHtml"
proof -
  note t1 = payload_strings_rendered_verbatim [OF status_triageScenario,
      of exampleRuntime triageScenarioHtml "''Tachycardia with hypoxia''"]
  note a1 = mp [OF conjunct1 [OF t1] resultsHtml_triageScenario [unfolded triageScenario_def]]
  have 1: "sublist ''Tachycardia with hypoxia'' triageScenarioHtml"
    by (rule conjunct1 [OF conjunct2 [OF conjunct2 [OF conjunct2 [OF a1]]], rule_format,
          of "[(''priority'', JStr ''RED''),
                (''justification_english'', JStr ''Tachycardia with hypoxia'')]"
            "''justification_english''"])
      simp
  note t2 = payload_strings_rendered_verbatim [OF status_markupReport,
      of exampleRuntime markupReportHtml "''<u>Hb</u>''"]
  note a2 = mp [OF conjunct1 [OF conjunct2 [OF t2]] resultsHtml_markupReport [unfolded markupReport_def]]
  have 2: "sublist ''<u>Hb</u>'' markupReportHtml"
    by (rule conjunct1 [OF a2, rule_format,
          of "[JObj [(''test_name'', JStr ''<u>Hb</u>'')]]" "[(''test_name'', JStr ''<u>Hb</u>'')]"
            "''test_name''"])
      simp
  note t3 = payload_strings_rendered_verbatim [OF status_markupNotes,
      of exampleRuntime markupNotesHtml "''<i>fever</i>''"]
  note a3 = mp [OF conjunct1 [OF conjunct2 [OF conjunct2 [OF t3]]] resultsHtml_markupNotes [unfolded markupNotes_def]]
  have 3: "sublist ''<i>fever</i>'' markupNotesHtml"
    by (rule conjunct1 [OF a3, rule_format,
          of "[(''chief_complaints'', JArr [JStr ''<i>fever</i>''])]" "''chief_complaints''"
            "[JStr ''<i>fever</i>'']"])
      simp
  note t4 = payload_strings_rendered_verbatim [OF status_markupMedicine,
      of exampleRuntime markupMedicineHtml "''<b>Dolo</b>''"]
  note a4 = mp [OF conjunct1 [OF conjunct2 [OF conjunct2 [OF conjunct2 [OF t4]]]] resultsHtml_markupMedicine [unfolded markupMedicine_def]]
  have 4: "sublist ''<b>Dolo</b>'' markupMedicineHtml"
    by (rule conjunct1 [OF a4, rule_format,
          of "[JObj [(''brand_name'', JStr ''<b>Dolo</b>'')]]" "[(''brand_name'', JStr ''<b>Dolo</b>'')]"
            "''brand_name''"])
      simp
  note t5 = payload_strings_rendered_verbatim [OF status_plainTranslation,
      of exampleRuntime plainTranslationHtml "''<b>ok</b>''"]
  note a5 = mp [OF conjunct2 [OF conjunct2 [OF conjunct2 [OF conjunct2 [OF t5]]]] resultsHtml_plainTranslation [unfolded plainTranslation_def]]
  have "sublist (quoteJSON ''<b>ok</b>'') plainTranslationHtml
      \<and> ((\<forall>c \<in> set ''<b>ok</b>''. c \<noteq> CHR 0x22 \<and> c \<noteq> CHR 0x5C \<and> (32 :: nat) \<le> of_char c)
           \<and> surrogateFree ''<b>ok</b>'' \<longrightarrow>
           quoteJSON ''<b>ok</b>'' = [CHR 0x22] @ ''<b>ok</b>'' @ [CHR 0x22]
           \<and> sublist ''<b>ok</b>'' plainTranslationHtml)"
    by (rule a5 [rule_format, of "''translation''" "JStr ''<b>ok</b>''"]) simp
  then have 5: "sublist ''<b>ok</b>'' plainTranslationHtml"
    by (simp add: isSurrogate_def)
  note t6 = payload_strings_rendered_verbatim [OF status_nestedTranslation,
      of exampleRuntime nestedTranslationHtml "''<i>a</i>''"]
  note a6 = mp [OF conjunct2 [OF conjunct2 [OF conjunct2 [OF conjunct2 [OF t6]]]] resultsHtml_nestedTranslation [unfolded nestedTranslation_def]]
  have "sublist (quoteJSON ''<i>a</i>'') nestedTranslationHtml
      \<and> ((\<forall>c \<in> set ''<i>a</i>''. c \<noteq> CHR 0x22 \<and> c \<noteq> CHR 0x5C \<and> (32 :: nat) \<le> of_char c)
           \<and> surrogateFree ''<i>a</i>'' \<longrightarrow>
           quoteJSON ''<i>a</i>'' = [CHR 0x22] @ ''<i>a</i>'' @ [CHR 0x22]
           \<and> sublist ''<i>a</i>'' nestedTranslationHtml)"
    by (rule a6 [rule_format, of "''translation''"
          "JObj [(''text'', JStr ''<b>ok</b>''), (''parts'', JArr [JStr ''<i>a</i>''])]"]) simp
  then have 6: "sublist ''<i>a</i>'' nestedTranslationHtml"
    by (simp add: isSurrogate_def)
  note t7 = payload_strings_rendered_verbatim [OF status_oddTranslation,
      of exampleRuntime oddTranslationHtml "[CHR 0xED, CHR 0xA0, CHR 0x80]"]
  note a7 = mp [OF conjunct2 [OF conjunct2 [OF conjunct2 [OF conjunct2 [OF t7]]]] resultsHtml_oddTranslation [unfolded oddTranslation_def]]
  have "sublist (quoteJSON [CHR 0xED, CHR 0xA0, CHR 0x80]) oddTranslationHtml
      \<and> ((\<forall>c \<in> set [CHR 0xED, CHR 0xA0, CHR 0x80]. c \<noteq> CHR 0x22 \<and> c \<noteq> CHR 0x5C \<and> (32 :: nat) \<le> of_char c)
           \<and> surrogateFree [CHR 0xED, CHR 0xA0, CHR 0x80] \<longrightarrow>
           quoteJSON [CHR 0xED, CHR 0xA0, CHR 0x80] = [CHR 0x22] @ [CHR 0xED, CHR 0xA0, CHR 0x80] @ [CHR 0x22]
           \<and> sublist [CHR 0xED, CHR 0xA0, CHR 0x80] oddTranslationHtml)"
    by (rule a7 [rule_format, of "''translation''"
          "JObj [(''n'', JNum Positive ''Infinity''), (''s'', JStr [CHR 0xED, CHR 0xA0, CHR 0x80])]"]) simp
  then have 7: "sublist ([CHR 0x22, CHR 0x5C] @ ''ud800'' @ [CHR 0x22]) oddTranslationHtml"
    by (simp add: quoteJSON_def isSurrogate_def surrogateEscape_def hexDigit_def)
  from 1 2 3 4 5 6 7 show ?thesis
    by (intro conjI)
qed

text \<open>
  C10 as stated fails on the translator tab: the string \<open><a href="x">\<close> held by
  \<open>translation\<close> does not occur in the text that is written; its quotes are escaped.
\<close>

theorem translator_escapes_markup_quotes:
  \<open>resultsHtml exampleRuntime Translator markupTranslation = Inr markupTranslationHtml
   \<and> \<not> sublist ''<a href="x">'' markupTranslationHtml\<close>
proof -
  have \<open>\<not> sublist ''<a href="x">'' markupTranslationHtml\<close>
    by (simp add: markupTranslationHtml_def sublist_Cons_right u_globe_with_meridians_def u_heavy_check_mark_def u_vs16_def)
  with resultsHtml_markupTranslation show ?thesis by blast
qed

subsection \<open>Placeholders\<close>

lemma concatE_append:
  "concatE (xs @ ys) = bindE (concatE xs) (\<lambda>a. bindE (concatE ys) (\<lambda>b. Inr (a @ b)))"
proof (induction xs)
  case Nil
  show ?case by (cases "concatE ys") simp_all
next
  case (Cons x xs)
  show ?case
    by (cases x; cases "concatE xs"; cases "concatE ys") (simp_all add: Cons.IH)
qed

lemma shows_text_template_slice:
  assumes "shows_text s (template (take n (drop i ps)))"
  shows "shows_text s (template ps)"
proof (cases "template ps")
  case (Inl e)
  then show ?thesis by simp
next
  case (Inr out)
  have "ps = take i ps @ take n (drop i ps) @ drop n (drop i ps)"
    by (simp only: append_take_drop_id)
  then have "template ps = concatE (map pieceStr (take i ps) @ map pieceStr (take n (drop i ps))
      @ map pieceStr (drop n (drop i ps)))"
    unfolding template_def by (metis map_append)
  with Inr obtain a m c where "template (take n (drop i ps)) = Inr m" and "out = a @ m @ c"
    unfolding template_def by (auto simp: concatE_append bindE_eq_Inr)
  with assms Inr show ?thesis
    by (auto intro: sublist_order.order.trans)
qed

lemma sublist_takedrop: "take (length x) (drop k ys) = x \<Longrightarrow> sublist x ys"
proof -
  assume "take (length x) (drop k ys) = x"
  then have "ys = take k ys @ x @ drop (length x) (drop k ys)"
    by (metis append_take_drop_id)
  then show ?thesis
    by (metis sublist_appendI)
qed

lemma template_returns:
  assumes "\<And>p. p \<in> set ps \<Longrightarrow> \<exists>h. pieceStr p = Inr h"
  shows "\<exists>h. template ps = Inr h"
  using assms unfolding template_def
proof (induction ps)
  case Nil
  show ?case by simp
next
  case (Cons p ps)
  then obtain h r where "pieceStr p = Inr h" "concatE (map pieceStr ps) = Inr r"
    by (metis list.set_intros(1) list.set_intros(2))
  then show ?case by simp
qed

text \<open>A field that is absent or \<open>null\<close>.\<close>

lemma absent_or_null:
  assumes "map_of obj k \<in> {None, Some JNull}"
  shows "\<exists>v. get (JObj obj) k = Inr v \<and> nullish v"
  using assms by auto

lemma nullish_not_truthy: "nullish v \<Longrightarrow> \<not> truthy v"
  by (cases v) simp_all

lemma nullish_hasItems: "nullish v \<Longrightarrow> hasItems rt v = Inr False"
  by (simp add: hasItems_def nullish_not_truthy)

lemma nullish_orElse: "nullish v \<Longrightarrow> orElse v d = d"
  by (simp add: orElse_def nullish_not_truthy)

lemma whenE_False [simp]: "whenE (Inr False) body = Inr []"
  by (simp add: whenE_def)

lemma buildVitalsTable_nullish:
  assumes "nullish v"
  shows \<open>buildVitalsTable v = Inr ''<p class="no-data">No vitals extracted</p>''\<close>
  using assms by (simp add: buildVitalsTable_def nullish_not_truthy)

lemma buildPhysicalAssessment_nullish:
  assumes "nullish v"
  shows \<open>buildPhysicalAssessment rt v = Inr ''<p class="no-data">No physical assessment available</p>''\<close>
  using assms by (simp add: buildPhysicalAssessment_def nullish_not_truthy)

lemma buildTriageAnalysis_nullish:
  assumes "nullish v"
  shows \<open>buildTriageAnalysis rt v = Inr ''<p class="no-data">No analysis available</p>''\<close>
  using assms by (simp add: buildTriageAnalysis_def nullish_not_truthy)

lemma buildTestsTable_nullish:
  assumes "nullish v"
  shows \<open>buildTestsTable rt v = Inr (''<p class="no-data">'' @ u_warning_sign @ u_vs16 @ '' No test data extracted. The image might need better quality or different angle.</p>'')\<close>
  using assms by (simp add: buildTestsTable_def nullish_not_truthy)

lemma buildPatientExplanation_nullish:
  assumes "nullish v"
  shows \<open>buildPatientExplanation rt v = Inr ''<p class="no-data">No explanations available</p>''\<close>
  using assms by (simp add: buildPatientExplanation_def nullish_not_truthy)

lemma buildTranscribedNotes_nullish:
  assumes "nullish v"
  shows \<open>buildTranscribedNotes rt v = Inr ''<p class="no-data">No notes transcribed</p>''\<close>
  using assms by (simp add: buildTranscribedNotes_def nullish_not_truthy)

lemma buildExecutiveSummary_nullish:
  assumes "nullish v"
  shows \<open>buildExecutiveSummary rt v = Inr ''<p class="no-data">No executive summary available</p>''\<close>
  using assms by (simp add: buildExecutiveSummary_def nullish_not_truthy)

lemma buildMedicinesList_nullish:
  assumes "nullish v"
  shows \<open>buildMedicinesList rt v = Inr (''<p class="no-data">'' @ u_warning_sign @ u_vs16 @ '' No medicines detected. Please ensure images show medicine strips or prescriptions clearly.</p>'')\<close>
  using assms by (simp add: buildMedicinesList_def nullish_not_truthy)

lemma buildSafetyAnalysis_nullish:
  assumes "nullish v"
  shows \<open>buildSafetyAnalysis rt v = Inr ''<p class="no-data">No safety analysis available</p>''\<close>
  using assms by (simp add: buildSafetyAnalysis_def nullish_not_truthy)

lemma buildTestsTable_empty:
  \<open>buildTestsTable rt (JArr []) = Inr (''<p class="no-data">'' @ u_warning_sign @ u_vs16 @ '' No test data extracted. The image might need better quality or different angle.</p>'')\<close>
  by (simp add: buildTestsTable_def)

lemma buildMedicinesList_empty:
  \<open>buildMedicinesList rt (JArr []) = Inr (''<p class="no-data">'' @ u_warning_sign @ u_vs16 @ '' No medicines detected. Please ensure images show medicine strips or prescriptions clearly.</p>'')\<close>
  by (simp add: buildMedicinesList_def)

lemma buildPatientExplanation_no_list:
  assumes "map_of obj ''explanations'' \<in> {None, Some JNull}"
  shows \<open>buildPatientExplanation rt (JObj obj) = Inr ''<p class="no-data">No explanations available</p>''\<close>
  using assms by (auto simp: buildPatientExplanation_def)

lemma vitalItem_absent:
  assumes "map_of obj key = None"
  shows \<open>shows_text (''<span class="vital-label">'' @ label @ ''</span>
                <span class="vital-value ">Not recorded</span>'')
     (vitalItem (JObj obj) (key, label, unit))\<close>
proof -
  have \<open>vitalItem (JObj obj) (key, label, unit) =
      Inr (''
            <div class="vital-item">
                '' @ (''<span class="vital-label">'' @ label @ ''</span>
                <span class="vital-value ">Not recorded</span>'') @ ''
            </div>
        '')\<close>
    by (simp add: vitalItem_def assms template_def)
  then show ?thesis
    by (simp only: shows_text_Inr sublist_appendI)
qed

lemma buildVitalsTable_shows_absent:
  assumes "(key, label, unit) \<in> set vitalsMap" and "map_of obj key = None"
  shows \<open>shows_text (''<span class="vital-label">'' @ label @ ''</span>
                <span class="vital-value ">Not recorded</span>'')
     (buildVitalsTable (JObj obj))\<close>
  by (rule buildVitalsTable_shows_entry [OF assms(1)]) (rule vitalItem_absent [OF assms(2)])

lemma vitalItem_null:
  assumes "map_of obj key = Some JNull"
  shows \<open>shows_text (''<span class="vital-label">'' @ label @ ''</span>
                <span class="vital-value missing">Not recorded</span>'')
     (vitalItem (JObj obj) (key, label, unit))\<close>
proof -
  have \<open>vitalItem (JObj obj) (key, label, unit) =
      Inr (''
            <div class="vital-item">
                '' @ (''<span class="vital-label">'' @ label @ ''</span>
                <span class="vital-value missing">Not recorded</span>'') @ ''
            </div>
        '')\<close>
    by (simp add: vitalItem_def assms template_def)
  then show ?thesis
    by (simp only: shows_text_Inr sublist_appendI)
qed

lemma buildVitalsTable_shows_null:
  assumes "(key, label, unit) \<in> set vitalsMap" and "map_of obj key = Some JNull"
  shows \<open>shows_text (''<span class="vital-label">'' @ label @ ''</span>
                <span class="vital-value missing">Not recorded</span>'')
     (buildVitalsTable (JObj obj))\<close>
  by (rule buildVitalsTable_shows_entry [OF assms(1)]) (rule vitalItem_null [OF assms(2)])

lemma buildTriageAnalysis_shows_unknown_priority:
  assumes "map_of obj ''priority'' \<in> {None, Some JNull}"
  shows \<open>shows_text ''<span class="priority-text">Unknown Priority</span>'' (buildTriageAnalysis rt (JObj obj))\<close>
proof -
  from absent_or_null [OF assms] obtain v where v: "get (JObj obj) ''priority'' = Inr v" "nullish v"
    by blast
  show ?thesis
    unfolding buildTriageAnalysis_def
    apply (simp only: truthy.simps not_True_eq_False if_False v bindE_Inr)
    apply (rule shows_text_template [of 0])
     apply simp
    apply (simp only: nth_Cons_0 pieceStr.simps)
    apply (rule shows_text_template_slice [where n = 3 and i = 4])
    apply (simp add: template_def nullish_orElse [OF v(2)])
    apply (rule sublist_takedrop [of _ 20])
    apply simp
    done
qed

lemma buildSafetyAnalysis_shows_unknown_urgency:
  assumes "map_of obj ''urgency'' \<in> {None, Some JNull}"
  shows \<open>shows_text ''<span class="urgency-text">Unknown Urgency</span>'' (buildSafetyAnalysis rt (JObj obj))\<close>
proof -
  from absent_or_null [OF assms] obtain v where v: "get (JObj obj) ''urgency'' = Inr v" "nullish v"
    by blast
  show ?thesis
    unfolding buildSafetyAnalysis_def
    apply (simp only: truthy.simps not_True_eq_False if_False v bindE_Inr)
    apply (rule shows_text_template [of 0])
     apply simp
    apply (simp only: nth_Cons_0 pieceStr.simps)
    apply (rule shows_text_template_slice [where n = 3 and i = 4])
    apply (simp add: template_def nullish_orElse [OF v(2)])
    apply (rule sublist_takedrop [of _ 20])
    apply simp
    done
qed

lemma testRow_shows_missing_test_name:
  assumes "map_of obj ''test_name'' \<in> {None, Some JNull}"
  shows \<open>shows_text ''<span class="test-name">Unknown</span>'' (testRow (JObj obj))\<close>
proof -
  from absent_or_null [OF assms] obtain v where v: "get (JObj obj) ''test_name'' = Inr v" "nullish v"
    by blast
  show ?thesis
    unfolding testRow_def
    apply (simp only: v bindE_Inr get_JObj [of obj "''status''"])
    apply (rule shows_text_template_slice [where n = 3 and i = 0])
    apply (simp add: template_def nullish_orElse [OF v(2)])
    apply (rule sublist_takedrop [of _ 52])
    apply simp
    done
qed

lemma testRow_shows_missing_result:
  assumes "map_of obj ''result'' \<in> {None, Some JNull}"
  shows \<open>shows_text ''<span class="test-result">N/A '' (testRow (JObj obj))\<close>
proof -
  from absent_or_null [OF assms] obtain v where v: "get (JObj obj) ''result'' = Inr v" "nullish v"
    by blast
  show ?thesis
    unfolding testRow_def
    apply (simp only: v bindE_Inr get_JObj [of obj "''status''"])
    apply (rule shows_text_template_slice [where n = 3 and i = 2])
    apply (simp add: template_def nullish_orElse [OF v(2)])
    apply (rule sublist_takedrop [of _ 24])
    apply simp
    done
qed

lemma testRow_shows_missing_reference_range:
  assumes "map_of obj ''reference_range'' \<in> {None, Some JNull}"
  shows \<open>shows_text ''<span class="test-range">N/A</span>'' (testRow (JObj obj))\<close>
proof -
  from absent_or_null [OF assms] obtain v where v: "get (JObj obj) ''reference_range'' = Inr v" "nullish v"
    by blast
  show ?thesis
    unfolding testRow_def
    apply (simp only: v bindE_Inr get_JObj [of obj "''status''"])
    apply (rule shows_text_template_slice [where n = 3 and i = 6])
    apply (simp add: template_def nullish_orElse [OF v(2)])
    apply (rule sublist_takedrop [of _ 24])
    apply simp
    done
qed

lemma testRow_shows_missing_status:
  assumes "map_of obj ''status'' \<in> {None, Some JNull}"
  shows \<open>shows_text ''<span class="test-status unknown">Unknown</span>'' (testRow (JObj obj))\<close>
proof -
  from absent_or_null [OF assms] obtain v where v: "get (JObj obj) ''status'' = Inr v" "nullish v"
    by blast
  from v(2) have c: "testStatusClass v = ''unknown''"
    by (cases v) (simp_all add: testStatusClass_def)
  show ?thesis
    unfolding testRow_def
    apply (simp only: v bindE_Inr)
    apply (rule shows_text_template_slice [where n = 5 and i = 8])
    apply (simp add: template_def nullish_orElse [OF v(2)] c)
    apply (rule sublist_takedrop [of _ 24])
    apply simp
    done
qed

lemma medicineCard_shows_missing_brand_name:
  assumes "map_of obj ''brand_name'' \<in> {None, Some JNull}"
  shows \<open>shows_text ''<span class="brand-name">[Unclear]</span>'' (medicineCard (JObj obj))\<close>
proof -
  from absent_or_null [OF assms] obtain v where v: "get (JObj obj) ''brand_name'' = Inr v" "nullish v"
    by blast
  show ?thesis
    unfolding medicineCard_def
    apply (rule shows_text_template_slice [where n = 3 and i = 0])
    apply (simp del: get.simps add: v template_def nullish_orElse [OF v(2)] )
    apply (rule sublist_takedrop [of _ 102])
    apply simp
    done
qed

lemma medicineCard_shows_missing_generic_name:
  assumes "map_of obj ''generic_name'' \<in> {None, Some JNull}"
  shows \<open>shows_text ''<span class="generic-name">[Unclear]</span>'' (medicineCard (JObj obj))\<close>
proof -
  from absent_or_null [OF assms] obtain v where v: "get (JObj obj) ''generic_name'' = Inr v" "nullish v"
    by blast
  show ?thesis
    unfolding medicineCard_def
    apply (rule shows_text_template_slice [where n = 3 and i = 2])
    apply (simp del: get.simps add: v template_def nullish_orElse [OF v(2)] u_flexed_biceps_def)
    apply (rule sublist_takedrop [of _ 28])
    apply simp
    done
qed

lemma medicineCard_shows_missing_strength:
  assumes "map_of obj ''strength'' \<in> {None, Some JNull}"
  shows \<open>shows_text (''<span class="strength">'' @ u_flexed_biceps @ '' [Unclear]</span>'') (medicineCard (JObj obj))\<close>
proof -
  from absent_or_null [OF assms] obtain v where v: "get (JObj obj) ''strength'' = Inr v" "nullish v"
    by blast
  show ?thesis
    unfolding medicineCard_def
    apply (rule shows_text_template_slice [where n = 3 and i = 4])
    apply (simp del: get.simps add: v template_def nullish_orElse [OF v(2)] u_flexed_biceps_def u_pill_def)
    apply (rule sublist_takedrop [of _ 93])
    apply simp
    done
qed

lemma medicineCard_shows_missing_form:
  assumes "map_of obj ''form'' \<in> {None, Some JNull}"
  shows \<open>shows_text (''<span class="form">'' @ u_pill @ '' [Unclear]</span>'') (medicineCard (JObj obj))\<close>
proof -
  from absent_or_null [OF assms] obtain v where v: "get (JObj obj) ''form'' = Inr v" "nullish v"
    by blast
  show ?thesis
    unfolding medicineCard_def
    apply (rule shows_text_template_slice [where n = 3 and i = 6])
    apply (simp del: get.simps add: v template_def nullish_orElse [OF v(2)] u_pill_def)
    apply (rule sublist_takedrop [of _ 28])
    apply simp
    done
qed

lemma buildTranscribedNotes_shows_no_allergies:
  assumes "map_of obj ''allergies'' \<in> {None, Some JNull}"
  shows \<open>shows_text ''<p class="no-allergies">No allergies noted</p>'' (buildTranscribedNotes rt (JObj obj))\<close>
proof -
  from absent_or_null [OF assms] obtain v where v: "get (JObj obj) ''allergies'' = Inr v" "nullish v"
    by blast
  show ?thesis
    unfolding buildTranscribedNotes_def
    apply (simp only: truthy.simps not_True_eq_False if_False)
    apply (rule shows_text_template [of 4])
     apply simp
    apply (simp del: get.simps add: v nullish_hasItems [OF v(2)] u_vs16_def u_warning_sign_def)
    apply (rule sublist_takedrop [of _ 99])
    apply simp
    done
qed

subsection \<open>A payload of the schema makes no builder throw\<close>

lemma returns_iff: "returns m \<longleftrightarrow> (\<exists>a. m = Inr a)"
  by (cases m) (simp_all add: returns_def)

lemma returns_Inr [simp]: "returns (Inr a)"
  by (simp add: returns_def)

lemma returns_Inl [simp]: "\<not> returns (Inl e)"
  by (simp add: returns_def)

lemma returns_bindE: "returns (bindE m f) \<longleftrightarrow> returns m \<and> (\<forall>a. m = Inr a \<longrightarrow> returns (f a))"
  by (cases m) simp_all

lemma returns_concatE: "returns (concatE ms) \<longleftrightarrow> list_all returns ms"
proof (induction ms)
  case Nil
  show ?case by simp
next
  case (Cons m ms)
  show ?case
    by (cases m; cases "concatE ms") (use Cons in simp_all)
qed

lemma returns_template: "returns (template ps) \<longleftrightarrow> list_all (\<lambda>p. returns (pieceStr p)) ps"
  by (simp add: template_def returns_concatE list_all_iff)

lemma returns_whenE: "returns (whenE c body) \<longleftrightarrow> returns c \<and> (c = Inr True \<longrightarrow> returns body)"
  by (cases c) (auto simp: whenE_def)

lemma get_own: "get (JObj obj) k = Inr (own obj k)"
  by (simp add: own_def)

lemma isText_toStr: "isText v \<Longrightarrow> returns (toStr v)"
  by (cases v) simp_all

lemma isText_orElse: "isText v \<Longrightarrow> returns (toStr (orElse v (JStr d)))"
  by (cases v) (simp_all add: orElse_def)

lemma isLabel_isText: "isLabel v \<Longrightarrow> isText v"
  by (cases v) simp_all

lemma isLabel_lower:
  "isLabel v \<Longrightarrow> returns (optLowerCase rt name v)"
  "isLabel v \<Longrightarrow> optLowerCase rt name v = Inr a \<Longrightarrow> returns (toStr a)"
  by (cases v; auto)+

lemma isTextList_hasItems: "isTextList v \<Longrightarrow> returns (hasItems rt v)"
  by (cases v) (simp_all add: hasItems_def)

lemma isTextList_mapJoin:
  assumes "isTextList v" and "hasItems rt v = Inr True"
  shows "returns (mapJoin name (\<lambda>x. template [Lit c, Val (Inr x), Lit d]) v)"
proof (cases v)
  case (JArr xs)
  with assms(1) have "list_all isText xs" by simp
  then have "list_all (\<lambda>x. returns (template [Lit c, Val (Inr x), Lit d])) xs"
    by (simp add: list_all_iff returns_template isText_toStr)
  then show ?thesis
    by (simp add: JArr returns_concatE list_all_iff)
qed (use assms in \<open>simp_all add: hasItems_def\<close>)

lemmas returns_simps = returns_template returns_whenE returns_bindE get_own bindE_Inr truthyE_Inr
  isText_toStr isText_orElse isTextList_hasItems isTextList_mapJoin pieceStr.simps list.pred_inject

lemma vitalItem_conforms:
  "isText (own obj key) \<Longrightarrow> returns (vitalItem (JObj obj) (key, label, unit))"
  by (simp add: vitalItem_def returns_simps del: get.simps(3))

lemma buildVitalsTable_conforms:
  assumes "optional (isRecord [''pulse'', ''bp'', ''spo2'', ''temperature'', ''physical_signs''] []) v"
  shows "returns (buildVitalsTable v)"
proof (cases "nullish v")
  case True
  then show ?thesis by (cases v) (simp_all add: buildVitalsTable_def)
next
  case False
  with assms obtain obj where v: "v = JObj obj"
    and f: "isText (own obj ''pulse'')" "isText (own obj ''bp'')" "isText (own obj ''spo2'')" "isText (own obj ''temperature'')" "isText (own obj ''physical_signs'')"
    by (cases v) (simp_all add: optional_def isRecord_def)
  show ?thesis
    unfolding v buildVitalsTable_def
    using f by (simp add: returns_simps vitalsMap_def vitalItem_conforms del: get.simps(3))
qed

lemma buildPhysicalAssessment_conforms:
  assumes "optional (isRecord [''physical_condition'', ''distress_level'', ''breathing_assessment'', ''consciousness''] [''visible_signs'']) v"
  shows "returns (buildPhysicalAssessment rt v)"
proof (cases "nullish v")
  case True
  then show ?thesis by (cases v) (simp_all add: buildPhysicalAssessment_def)
next
  case False
  with assms obtain obj where v: "v = JObj obj"
    and f: "isText (own obj ''physical_condition'')" "isText (own obj ''distress_level'')" "isText (own obj ''breathing_assessment'')" "isText (own obj ''consciousness'')" "isTextList (own obj ''visible_signs'')"
    by (cases v) (simp_all add: optional_def isRecord_def)
  show ?thesis
    unfolding v buildPhysicalAssessment_def
    using f by (simp add: returns_simps del: get.simps(3))
qed

lemma buildTriageAnalysis_conforms:
  assumes "optional (isRecord [''priority'', ''justification_english'', ''justification_hindi'', ''recommended_action'', ''assessment_basis''] [''key_vital_flags'', ''physical_flags'']) v"
  shows "returns (buildTriageAnalysis rt v)"
proof (cases "nullish v")
  case True
  then show ?thesis by (cases v) (simp_all add: buildTriageAnalysis_def)
next
  case False
  with assms obtain obj where v: "v = JObj obj"
    and f: "isText (own obj ''priority'')" "isText (own obj ''justification_english'')" "isText (own obj ''justification_hindi'')" "isText (own obj ''recommended_action'')" "isText (own obj ''assessment_basis'')" "isTextList (own obj ''key_vital_flags'')" "isTextList (own obj ''physical_flags'')"
    by (cases v) (simp_all add: optional_def isRecord_def)
  show ?thesis
    unfolding v buildTriageAnalysis_def
    using f by (simp add: returns_simps del: get.simps(3))
qed

lemma buildTranscribedNotes_conforms:
  assumes "optional (isRecord [''duration''] [''chief_complaints'', ''previous_medications'', ''allergies'', ''examination_findings'']) v"
  shows "returns (buildTranscribedNotes rt v)"
proof (cases "nullish v")
  case True
  then show ?thesis by (cases v) (simp_all add: buildTranscribedNotes_def)
next
  case False
  with assms obtain obj where v: "v = JObj obj"
    and f: "isText (own obj ''duration'')" "isTextList (own obj ''chief_complaints'')" "isTextList (own obj ''previous_medications'')" "isTextList (own obj ''allergies'')" "isTextList (own obj ''examination_findings'')"
    by (cases v) (simp_all add: optional_def isRecord_def)
  show ?thesis
    unfolding v buildTranscribedNotes_def
    using f by (simp add: returns_simps del: get.simps(3))
qed

lemma buildExecutiveSummary_conforms:
  assumes "optional (isRecord [''doctor_focus_time''] [''executive_summary'', ''critical_flags'']) v"
  shows "returns (buildExecutiveSummary rt v)"
proof (cases "nullish v")
  case True
  then show ?thesis by (cases v) (simp_all add: buildExecutiveSummary_def)
next
  case False
  with assms obtain obj where v: "v = JObj obj"
    and f: "isText (own obj ''doctor_focus_time'')" "isTextList (own obj ''executive_summary'')" "isTextList (own obj ''critical_flags'')"
    by (cases v) (simp_all add: optional_def isRecord_def)
  show ?thesis
    unfolding v buildExecutiveSummary_def
    using f by (simp add: returns_simps del: get.simps(3))
qed

lemma buildSafetyAnalysis_conforms:
  assumes "optional (isRecord [''urgency'', ''recommendation''] [''drug_interactions'', ''duplicate_medications'', ''safety_warnings'']) v"
  shows "returns (buildSafetyAnalysis rt v)"
proof (cases "nullish v")
  case True
  then show ?thesis by (cases v) (simp_all add: buildSafetyAnalysis_def)
next
  case False
  with assms obtain obj where v: "v = JObj obj"
    and f: "isText (own obj ''urgency'')" "isText (own obj ''recommendation'')" "isTextList (own obj ''drug_interactions'')" "isTextList (own obj ''duplicate_medications'')" "isTextList (own obj ''safety_warnings'')"
    by (cases v) (simp_all add: optional_def isRecord_def)
  show ?thesis
    unfolding v buildSafetyAnalysis_def
    using f by (simp add: returns_simps del: get.simps(3))
qed

lemma testRow_conforms:
  assumes "isRecord [''test_name'', ''result'', ''unit'', ''reference_range'', ''status''] [] v"
  shows "returns (testRow v)"
proof -
  from assms obtain obj where v: "v = JObj obj"
    and f: "isText (own obj ''test_name'')" "isText (own obj ''result'')" "isText (own obj ''unit'')"
      "isText (own obj ''reference_range'')" "isText (own obj ''status'')"
    by (cases v) (simp_all add: isRecord_def)
  show ?thesis
    unfolding v testRow_def
    using f by (simp add: returns_simps del: get.simps(3))
qed

lemma buildTestsTable_conforms:
  assumes "optional (isRecordList [''test_name'', ''result'', ''unit'', ''reference_range'', ''status'']) v"
  shows "returns (buildTestsTable rt v)"
proof (cases "nullish v")
  case True
  then show ?thesis by (cases v) (simp_all add: buildTestsTable_def)
next
  case False
  with assms obtain xs where v: "v = JArr xs"
    and f: "list_all (isRecord [''test_name'', ''result'', ''unit'', ''reference_range'', ''status''] []) xs"
    by (cases v) (simp_all add: optional_def isRecordList_def)
  from f have "list_all (\<lambda>x. returns (testRow x)) xs"
    by (simp add: list_all_iff testRow_conforms)
  then show ?thesis
    unfolding v buildTestsTable_def
    by (simp add: returns_simps returns_concatE list_all_iff)
qed

lemma medicineCard_conforms:
  assumes "isRecord [''brand_name'', ''generic_name'', ''strength'', ''form'', ''frequency''] [] v"
  shows "returns (medicineCard v)"
proof -
  from assms obtain obj where v: "v = JObj obj"
    and f: "isText (own obj ''brand_name'')" "isText (own obj ''generic_name'')"
      "isText (own obj ''strength'')" "isText (own obj ''form'')" "isText (own obj ''frequency'')"
    by (cases v) (simp_all add: isRecord_def)
  show ?thesis
    unfolding v medicineCard_def
    using f by (simp add: returns_simps del: get.simps(3))
qed

lemma buildMedicinesList_conforms:
  assumes "optional (isRecordList [''brand_name'', ''generic_name'', ''strength'', ''form'', ''frequency'']) v"
  shows "returns (buildMedicinesList rt v)"
proof (cases "nullish v")
  case True
  then show ?thesis by (cases v) (simp_all add: buildMedicinesList_def)
next
  case False
  with assms obtain xs where v: "v = JArr xs"
    and f: "list_all (isRecord [''brand_name'', ''generic_name'', ''strength'', ''form'', ''frequency''] []) xs"
    by (cases v) (simp_all add: optional_def isRecordList_def)
  from f have "list_all (\<lambda>x. returns (medicineCard x)) xs"
    by (simp add: list_all_iff medicineCard_conforms)
  then show ?thesis
    unfolding v buildMedicinesList_def
    by (simp add: returns_simps returns_concatE list_all_iff)
qed

lemma explanationItem_conforms:
  assumes "isExplanation v"
  shows "returns (explanationItem rt v)"
proof -
  from assms obtain obj where v: "v = JObj obj"
    and f: "isLabel (own obj ''status'')" "isText (own obj ''test_name'')"
      "isText (own obj ''simple_explanation'')" "isText (own obj ''analogy'')"
    by (cases v) (simp_all add: isExplanation_def)
  show ?thesis
    unfolding v explanationItem_def
    using f by (simp add: returns_simps isLabel_lower isLabel_isText del: get.simps(3))
qed

lemma buildPatientExplanation_conforms:
  assumes "optional isExplanations v"
  shows "returns (buildPatientExplanation rt v)"
proof (cases "nullish v")
  case True
  then show ?thesis by (cases v) (simp_all add: buildPatientExplanation_def)
next
  case False
  with assms obtain obj where v: "v = JObj obj"
    and f: "nullish (own obj ''explanations'')
          \<or> (case own obj ''explanations'' of JArr xs \<Rightarrow> list_all isExplanation xs | _ \<Rightarrow> False)
            \<and> isTextList (own obj ''next_steps'') \<and> isText (own obj ''warning_signs'')"
    by (cases v) (simp_all add: optional_def isExplanations_def)
  from f show ?thesis
  proof
    assume "nullish (own obj ''explanations'')"
    then have "\<not> truthy (own obj ''explanations'')" by (cases "own obj ''explanations''") simp_all
    then show ?thesis
      unfolding v buildPatientExplanation_def
      by (simp add: returns_simps del: get.simps(3))
  next
    assume a: "(case own obj ''explanations'' of JArr xs \<Rightarrow> list_all isExplanation xs | _ \<Rightarrow> False)
            \<and> isTextList (own obj ''next_steps'') \<and> isText (own obj ''warning_signs'')"
    then obtain xs where e: "own obj ''explanations'' = JArr xs" and xs: "list_all isExplanation xs"
      by (cases "own obj ''explanations''") simp_all
    from xs have "list_all (\<lambda>x. returns (explanationItem rt x)) xs"
      by (simp add: list_all_iff explanationItem_conforms)
    then show ?thesis
      unfolding v buildPatientExplanation_def
      using a e by (simp add: returns_simps returns_concatE list_all_iff del: get.simps(3))
  qed
qed

lemma buildTranslatorResults_returns: "returns (buildTranslatorResults (JObj kvs))"
  by (simp add: buildTranslatorResults_def returns_simps jsonStringify_def del: get.simps(3))

lemma resultsHtml_conforms:
  assumes "map_of kvs ''status'' = Some (JStr ''success'')" and "conforms t kvs"
  shows "returns (resultsHtml rt t (JObj kvs))"
proof -
  have s: "own kvs ''status'' = JStr ''success''"
    using assms(1) by (simp add: own_def)
  show ?thesis
  proof (cases t)
    case Triage
    with assms(2) show ?thesis
      by (simp add: resultsHtml_def s conforms_def buildTriageResults_def returns_simps
          buildVitalsTable_conforms buildPhysicalAssessment_conforms buildTriageAnalysis_conforms
          del: get.simps(3))
  next
    case Reports
    with assms(2) show ?thesis
      by (simp add: resultsHtml_def s conforms_def buildReportsResults_def returns_simps
          buildTestsTable_conforms buildPatientExplanation_conforms del: get.simps(3))
  next
    case Scribe
    with assms(2) show ?thesis
      by (simp add: resultsHtml_def s conforms_def buildScribeResults_def returns_simps
          buildTranscribedNotes_conforms buildExecutiveSummary_conforms del: get.simps(3))
  next
    case Translator
    then show ?thesis
      using buildTranslatorResults_returns [of kvs]
      by (simp add: resultsHtml_def s returns_simps del: get.simps(3))
  next
    case Polypharmacy
    with assms(2) show ?thesis
      by (simp add: resultsHtml_def s conforms_def buildPolypharmacyResults_def returns_simps
          buildMedicinesList_conforms buildSafetyAnalysis_conforms del: get.simps(3))
  qed
qed

subsection \<open>Placeholders in the whole result\<close>

lemma resultsHtml_shows_vitals_extraction:
  assumes "map_of kvs ''status'' = Some (JStr ''success'')"
    and "shows_text s (buildVitalsTable (case map_of kvs ''vitals_extraction'' of None \<Rightarrow> JUndefined | Some v \<Rightarrow> v))"
  shows "shows_text s (resultsHtml rt Triage (JObj kvs))"
  unfolding resultsHtml_success [OF assms(1)] tab.case
  by (rule buildTriageResults_shows_vitals_extraction [OF get_JObj assms(2)])

lemma resultsHtml_placeholder_vitals_extraction:
  assumes "map_of kvs ''status'' = Some (JStr ''success'')"
    and "map_of kvs ''vitals_extraction'' \<in> {None, Some JNull}"
  shows \<open>shows_text ''<p class="no-data">No vitals extracted</p>''
     (resultsHtml rt Triage (JObj kvs))\<close>
proof (rule resultsHtml_shows_vitals_extraction [OF assms(1)])
  from assms(2) have "nullish (case map_of kvs ''vitals_extraction'' of None \<Rightarrow> JUndefined | Some v \<Rightarrow> v)"
    by auto
  then show \<open>shows_text ''<p class="no-data">No vitals extracted</p>''
     (buildVitalsTable (case map_of kvs ''vitals_extraction'' of None \<Rightarrow> JUndefined | Some v \<Rightarrow> v))\<close>
    by (simp add: buildVitalsTable_nullish)
qed

lemma resultsHtml_shows_physical_assessment:
  assumes "map_of kvs ''status'' = Some (JStr ''success'')"
    and "shows_text s (buildPhysicalAssessment rt (case map_of kvs ''physical_assessment'' of None \<Rightarrow> JUndefined | Some v \<Rightarrow> v))"
  shows "shows_text s (resultsHtml rt Triage (JObj kvs))"
  unfolding resultsHtml_success [OF assms(1)] tab.case
  by (rule buildTriageResults_shows_physical_assessment [OF get_JObj assms(2)])

lemma resultsHtml_placeholder_physical_assessment:
  assumes "map_of kvs ''status'' = Some (JStr ''success'')"
    and "map_of kvs ''physical_assessment'' \<in> {None, Some JNull}"
  shows \<open>shows_text ''<p class="no-data">No physical assessment available</p>''
     (resultsHtml rt Triage (JObj kvs))\<close>
proof (rule resultsHtml_shows_physical_assessment [OF assms(1)])
  from assms(2) have "nullish (case map_of kvs ''physical_assessment'' of None \<Rightarrow> JUndefined | Some v \<Rightarrow> v)"
    by auto
  then show \<open>shows_text ''<p class="no-data">No physical assessment available</p>''
     (buildPhysicalAssessment rt (case map_of kvs ''physical_assessment'' of None \<Rightarrow> JUndefined | Some v \<Rightarrow> v))\<close>
    by (simp add: buildPhysicalAssessment_nullish)
qed

lemma resultsHtml_shows_triage_analysis:
  assumes "map_of kvs ''status'' = Some (JStr ''success'')"
    and "shows_text s (buildTriageAnalysis rt (case map_of kvs ''triage_analysis'' of None \<Rightarrow> JUndefined | Some v \<Rightarrow> v))"
  shows "shows_text s (resultsHtml rt Triage (JObj kvs))"
  unfolding resultsHtml_success [OF assms(1)] tab.case
  by (rule buildTriageResults_shows_triage_analysis [OF get_JObj assms(2)])

lemma resultsHtml_placeholder_triage_analysis:
  assumes "map_of kvs ''status'' = Some (JStr ''success'')"
    and "map_of kvs ''triage_analysis'' \<in> {None, Some JNull}"
  shows \<open>shows_text ''<p class="no-data">No analysis available</p>''
     (resultsHtml rt Triage (JObj kvs))\<close>
proof (rule resultsHtml_shows_triage_analysis [OF assms(1)])
  from assms(2) have "nullish (case map_of kvs ''triage_analysis'' of None \<Rightarrow> JUndefined | Some v \<Rightarrow> v)"
    by auto
  then show \<open>shows_text ''<p class="no-data">No analysis available</p>''
     (buildTriageAnalysis rt (case map_of kvs ''triage_analysis'' of None \<Rightarrow> JUndefined | Some v \<Rightarrow> v))\<close>
    by (simp add: buildTriageAnalysis_nullish)
qed

lemma resultsHtml_shows_extracted_tests:
  assumes "map_of kvs ''status'' = Some (JStr ''success'')"
    and "shows_text s (buildTestsTable rt (case map_of kvs ''extracted_tests'' of None \<Rightarrow> JUndefined | Some v \<Rightarrow> v))"
  shows "shows_text s (resultsHtml rt Reports (JObj kvs))"
  unfolding resultsHtml_success [OF assms(1)] tab.case
  by (rule buildReportsResults_shows_extracted_tests [OF get_JObj assms(2)])

lemma resultsHtml_placeholder_extracted_tests:
  assumes "map_of kvs ''status'' = Some (JStr ''success'')"
    and "map_of kvs ''extracted_tests'' \<in> {None, Some JNull}"
  shows \<open>shows_text (''<p class="no-data">'' @ u_warning_sign @ u_vs16 @ '' No test data extracted. The image might need better quality or different angle.</p>'')
     (resultsHtml rt Reports (JObj kvs))\<close>
proof (rule resultsHtml_shows_extracted_tests [OF assms(1)])
  from assms(2) have "nullish (case map_of kvs ''extracted_tests'' of None \<Rightarrow> JUndefined | Some v \<Rightarrow> v)"
    by auto
  then show \<open>shows_text (''<p class="no-data">'' @ u_warning_sign @ u_vs16 @ '' No test data extracted. The image might need better quality or different angle.</p>'')
     (buildTestsTable rt (case map_of kvs ''extracted_tests'' of None \<Rightarrow> JUndefined | Some v \<Rightarrow> v))\<close>
    by (simp add: buildTestsTable_nullish)
qed

lemma resultsHtml_shows_patient_explanations:
  assumes "map_of kvs ''status'' = Some (JStr ''success'')"
    and "shows_text s (buildPatientExplanation rt (case map_of kvs ''patient_explanations'' of None \<Rightarrow> JUndefined | Some v \<Rightarrow> v))"
  shows "shows_text s (resultsHtml rt Reports (JObj kvs))"
  unfolding resultsHtml_success [OF assms(1)] tab.case
  by (rule buildReportsResults_shows_patient_explanations [OF get_JObj assms(2)])

lemma resultsHtml_placeholder_patient_explanations:
  assumes "map_of kvs ''status'' = Some (JStr ''success'')"
    and "map_of kvs ''patient_explanations'' \<in> {None, Some JNull}"
  shows \<open>shows_text ''<p class="no-data">No explanations available</p>''
     (resultsHtml rt Reports (JObj kvs))\<close>
proof (rule resultsHtml_shows_patient_explanations [OF assms(1)])
  from assms(2) have "nullish (case map_of kvs ''patient_explanations'' of None \<Rightarrow> JUndefined | Some v \<Rightarrow> v)"
    by auto
  then show \<open>shows_text ''<p class="no-data">No explanations available</p>''
     (buildPatientExplanation rt (case map_of kvs ''patient_explanations'' of None \<Rightarrow> JUndefined | Some v \<Rightarrow> v))\<close>
    by (simp add: buildPatientExplanation_nullish)
qed

lemma resultsHtml_shows_transcribed_notes:
  assumes "map_of kvs ''status'' = Some (JStr ''success'')"
    and "shows_text s (buildTranscribedNotes rt (case map_of kvs ''transcribed_notes'' of None \<Rightarrow> JUndefined | Some v \<Rightarrow> v))"
  shows "shows_text s (resultsHtml rt Scribe (JObj kvs))"
  unfolding resultsHtml_success [OF assms(1)] tab.case
  by (rule buildScribeResults_shows_transcribed_notes [OF get_JObj assms(2)])

lemma resultsHtml_placeholder_transcribed_notes:
  assumes "map_of kvs ''status'' = Some (JStr ''success'')"
    and "map_of kvs ''transcribed_notes'' \<in> {None, Some JNull}"
  shows \<open>shows_text ''<p class="no-data">No notes transcribed</p>''
     (resultsHtml rt Scribe (JObj kvs))\<close>
proof (rule resultsHtml_shows_transcribed_notes [OF assms(1)])
  from assms(2) have "nullish (case map_of kvs ''transcribed_notes'' of None \<Rightarrow> JUndefined | Some v \<Rightarrow> v)"
    by auto
  then show \<open>shows_text ''<p class="no-data">No notes transcribed</p>''
     (buildTranscribedNotes rt (case map_of kvs ''transcribed_notes'' of None \<Rightarrow> JUndefined | Some v \<Rightarrow> v))\<close>
    by (simp add: buildTranscribedNotes_nullish)
qed

lemma resultsHtml_shows_doctor_summary:
  assumes "map_of kvs ''status'' = Some (JStr ''success'')"
    and "shows_text s (buildExecutiveSummary rt (case map_of kvs ''doctor_summary'' of None \<Rightarrow> JUndefined | Some v \<Rightarrow> v))"
  shows "shows_text s (resultsHtml rt Scribe (JObj kvs))"
  unfolding resultsHtml_success [OF assms(1)] tab.case
  by (rule buildScribeResults_shows_doctor_summary [OF get_JObj assms(2)])

lemma resultsHtml_placeholder_doctor_summary:
  assumes "map_of kvs ''status'' = Some (JStr ''success'')"
    and "map_of kvs ''doctor_summary'' \<in> {None, Some JNull}"
  shows \<open>shows_text ''<p class="no-data">No executive summary available</p>''
     (resultsHtml rt Scribe (JObj kvs))\<close>
proof (rule resultsHtml_shows_doctor_summary [OF assms(1)])
  from assms(2) have "nullish (case map_of kvs ''doctor_summary'' of None \<Rightarrow> JUndefined | Some v \<Rightarrow> v)"
    by auto
  then show \<open>shows_text ''<p class="no-data">No executive summary available</p>''
     (buildExecutiveSummary rt (case map_of kvs ''doctor_summary'' of None \<Rightarrow> JUndefined | Some v \<Rightarrow> v))\<close>
    by (simp add: buildExecutiveSummary_nullish)
qed

lemma resultsHtml_shows_medicines_extracted:
  assumes "map_of kvs ''status'' = Some (JStr ''success'')"
    and "shows_text s (buildMedicinesList rt (case map_of kvs ''medicines_extracted'' of None \<Rightarrow> JUndefined | Some v \<Rightarrow> v))"
  shows "shows_text s (resultsHtml rt Polypharmacy (JObj kvs))"
  unfolding resultsHtml_success [OF assms(1)] tab.case
  by (rule buildPolypharmacyResults_shows_medicines_extracted [OF get_JObj assms(2)])

lemma resultsHtml_placeholder_medicines_extracted:
  assumes "map_of kvs ''status'' = Some (JStr ''success'')"
    and "map_of kvs ''medicines_extracted'' \<in> {None, Some JNull}"
  shows \<open>shows_text (''<p class="no-data">'' @ u_warning_sign @ u_vs16 @ '' No medicines detected. Please ensure images show medicine strips or prescriptions clearly.</p>'')
     (resultsHtml rt Polypharmacy (JObj kvs))\<close>
proof (rule resultsHtml_shows_medicines_extracted [OF assms(1)])
  from assms(2) have "nullish (case map_of kvs ''medicines_extracted'' of None \<Rightarrow> JUndefined | Some v \<Rightarrow> v)"
    by auto
  then show \<open>shows_text (''<p class="no-data">'' @ u_warning_sign @ u_vs16 @ '' No medicines detected. Please ensure images show medicine strips or prescriptions clearly.</p>'')
     (buildMedicinesList rt (case map_of kvs ''medicines_extracted'' of None \<Rightarrow> JUndefined | Some v \<Rightarrow> v))\<close>
    by (simp add: buildMedicinesList_nullish)
qed

lemma resultsHtml_shows_safety_analysis:
  assumes "map_of kvs ''status'' = Some (JStr ''success'')"
    and "shows_text s (buildSafetyAnalysis rt (case map_of kvs ''safety_analysis'' of None \<Rightarrow> JUndefined | Some v \<Rightarrow> v))"
  shows "shows_text s (resultsHtml rt Polypharmacy (JObj kvs))"
  unfolding resultsHtml_success [OF assms(1)] tab.case
  by (rule buildPolypharmacyResults_shows_safety_analysis [OF get_JObj assms(2)])

lemma resultsHtml_placeholder_safety_analysis:
  assumes "map_of kvs ''status'' = Some (JStr ''success'')"
    and "map_of kvs ''safety_analysis'' \<in> {None, Some JNull}"
  shows \<open>shows_text ''<p class="no-data">No safety analysis available</p>''
     (resultsHtml rt Polypharmacy (JObj kvs))\<close>
proof (rule resultsHtml_shows_safety_analysis [OF assms(1)])
  from assms(2) have "nullish (case map_of kvs ''safety_analysis'' of None \<Rightarrow> JUndefined | Some v \<Rightarrow> v)"
    by auto
  then show \<open>shows_text ''<p class="no-data">No safety analysis available</p>''
     (buildSafetyAnalysis rt (case map_of kvs ''safety_analysis'' of None \<Rightarrow> JUndefined | Some v \<Rightarrow> v))\<close>
    by (simp add: buildSafetyAnalysis_nullish)
qed

text \<open>
  C1, as the script has it. Let the payload be an object whose \<open>status\<close> is \<open>success\<close>.

  Whenever rendering returns a text, that text holds
  \<^item> for each section of the triage, reports, scribe and polypharmacy results whose field
    is absent or \<open>null\<close> (for the tests and the medicines also when it is the empty
    list, for the explanations also when their \<open>explanations\<close> list is absent or \<open>null\<close>),
    the \<open>no-data\<close> paragraph of that section;
  \<^item> for each of the four vitals that is absent or \<open>null\<close> in a vitals object, the entry
    with its label and \<open>Not recorded\<close> (of class \<open>missing\<close> when it is \<open>null\<close>);
  \<^item> \<open>Unknown Priority\<close> for an absent or \<open>null\<close> priority and \<open>Unknown Urgency\<close> for an
    absent or \<open>null\<close> urgency;
  \<^item> \<open>Unknown\<close>, \<open>N/A\<close>, \<open>N/A\<close> and \<open>Unknown\<close> for an absent or \<open>null\<close> name, result,
    reference range and status of a test;
  \<^item> \<open>No allergies noted\<close> for absent or \<open>null\<close> allergies;
  \<^item> \<open>[Unclear]\<close> for an absent or \<open>null\<close> brand name, generic name, strength and form of
    a medicine.

  Rendering throws nothing on a payload of the tab's schema, whichever of its fields
  are absent or \<open>null\<close>: no field that is missing makes a builder throw (\<open>conforms\<close>; an
  entry of the tests, the explanations or the medicines is an object there). The
  translator throws on no payload.

  The other fields have no placeholder in the script and are not covered.
\<close>

theorem absent_fields_render_placeholders:
  assumes "map_of kvs ''status'' = Some (JStr ''success'')"
  shows
   \<open>(resultsHtml rt Triage (JObj kvs) = Inr html \<longrightarrow>
        (map_of kvs ''vitals_extraction'' \<in> {None, Some JNull} \<longrightarrow>
          sublist ''<p class="no-data">No vitals extracted</p>'' html)
      \<and> (map_of kvs ''physical_assessment'' \<in> {None, Some JNull} \<longrightarrow>
          sublist ''<p class="no-data">No physical assessment available</p>'' html)
      \<and> (map_of kvs ''triage_analysis'' \<in> {None, Some JNull} \<longrightarrow>
          sublist ''<p class="no-data">No analysis available</p>'' html)
      \<and> (\<forall>obj key label unit. map_of kvs ''vitals_extraction'' = Some (JObj obj)
            \<and> (key, label, unit) \<in> set vitalsMap \<and> map_of obj key = None \<longrightarrow>
          sublist (''<span class="vital-label">'' @ label @ ''</span>
                <span class="vital-value ">Not recorded</span>'') html)
      \<and> (\<forall>obj key label unit. map_of kvs ''vitals_extraction'' = Some (JObj obj)
            \<and> (key, label, unit) \<in> set vitalsMap \<and> map_of obj key = Some JNull \<longrightarrow>
          sublist (''<span class="vital-label">'' @ label @ ''</span>
                <span class="vital-value missing">Not recorded</span>'') html)
      \<and> (\<forall>obj. map_of kvs ''triage_analysis'' = Some (JObj obj)
            \<and> map_of obj ''priority'' \<in> {None, Some JNull} \<longrightarrow>
          sublist ''<span class="priority-text">Unknown Priority</span>'' html))
  \<and> (resultsHtml rt Reports (JObj kvs) = Inr html \<longrightarrow>
        (map_of kvs ''extracted_tests'' \<in> {None, Some JNull, Some (JArr [])} \<longrightarrow>
          sublist (''<p class="no-data">'' @ u_warning_sign @ u_vs16 @ '' No test data extracted. The image might need better quality or different angle.</p>'') html)
      \<and> (map_of kvs ''patient_explanations'' \<in> {None, Some JNull} \<longrightarrow>
          sublist ''<p class="no-data">No explanations available</p>'' html)
      \<and> (\<forall>obj. map_of kvs ''patient_explanations'' = Some (JObj obj)
            \<and> map_of obj ''explanations'' \<in> {None, Some JNull} \<longrightarrow>
          sublist ''<p class="no-data">No explanations available</p>'' html)
      \<and> (\<forall>tests obj. map_of kvs ''extracted_tests'' = Some (JArr tests) \<and> JObj obj \<in> set tests
            \<and> map_of obj ''test_name'' \<in> {None, Some JNull} \<longrightarrow>
          sublist ''<span class="test-name">Unknown</span>'' html)
      \<and> (\<forall>tests obj. map_of kvs ''extracted_tests'' = Some (JArr tests) \<and> JObj obj \<in> set tests
            \<and> map_of obj ''result'' \<in> {None, Some JNull} \<longrightarrow>
          sublist ''<span class="test-result">N/A '' html)
      \<and> (\<forall>tests obj. map_of kvs ''extracted_tests'' = Some (JArr tests) \<and> JObj obj \<in> set tests
            \<and> map_of obj ''reference_range'' \<in> {None, Some JNull} \<longrightarrow>
          sublist ''<span class="test-range">N/A</span>'' html)
      \<and> (\<forall>tests obj. map_of kvs ''extracted_tests'' = Some (JArr tests) \<and> JObj obj \<in> set tests
            \<and> map_of obj ''status'' \<in> {None, Some JNull} \<longrightarrow>
          sublist ''<span class="test-status unknown">Unknown</span>'' html))
  \<and> (resultsHtml rt Scribe (JObj kvs) = Inr html \<longrightarrow>
        (map_of kvs ''transcribed_notes'' \<in> {None, Some JNull} \<longrightarrow>
          sublist ''<p class="no-data">No notes transcribed</p>'' html)
      \<and> (map_of kvs ''doctor_summary'' \<in> {None, Some JNull} \<longrightarrow>
          sublist ''<p class="no-data">No executive summary available</p>'' html)
      \<and> (\<forall>obj. map_of kvs ''transcribed_notes'' = Some (JObj obj)
            \<and> map_of obj ''allergies'' \<in> {None, Some JNull} \<longrightarrow>
          sublist ''<p class="no-allergies">No allergies noted</p>'' html))
  \<and> (resultsHtml rt Polypharmacy (JObj kvs) = Inr html \<longrightarrow>
        (map_of kvs ''medicines_extracted'' \<in> {None, Some JNull, Some (JArr [])} \<longrightarrow>
          sublist (''<p class="no-data">'' @ u_warning_sign @ u_vs16 @ '' No medicines detected. Please ensure images show medicine strips or prescriptions clearly.</p>'') html)
      \<and> (map_of kvs ''safety_analysis'' \<in> {None, Some JNull} \<longrightarrow>
          sublist ''<p class="no-data">No safety analysis available</p>'' html)
      \<and> (\<forall>meds obj. map_of kvs ''medicines_extracted'' = Some (JArr meds) \<and> JObj obj \<in> set meds
            \<and> map_of obj ''brand_name'' \<in> {None, Some JNull} \<longrightarrow>
          sublist ''<span class="brand-name">[Unclear]</span>'' html)
      \<and> (\<forall>meds obj. map_of kvs ''medicines_extracted'' = Some (JArr meds) \<and> JObj obj \<in> set meds
            \<and> map_of obj ''generic_name'' \<in> {None, Some JNull} \<longrightarrow>
          sublist ''<span class="generic-name">[Unclear]</span>'' html)
      \<and> (\<forall>meds obj. map_of kvs ''medicines_extracted'' = Some (JArr meds) \<and> JObj obj \<in> set meds
            \<and> map_of obj ''strength'' \<in> {None, Some JNull} \<longrightarrow>
          sublist (''<span class="strength">'' @ u_flexed_biceps @ '' [Unclear]</span>'') html)
      \<and> (\<forall>meds obj. map_of kvs ''medicines_extracted'' = Some (JArr meds) \<and> JObj obj \<in> set meds
            \<and> map_of obj ''form'' \<in> {None, Some JNull} \<longrightarrow>
          sublist (''<span class="form">'' @ u_pill @ '' [Unclear]</span>'') html)
      \<and> (\<forall>obj. map_of kvs ''safety_analysis'' = Some (JObj obj)
            \<and> map_of obj ''urgency'' \<in> {None, Some JNull} \<longrightarrow>
          sublist ''<span class="urgency-text">Unknown Urgency</span>'' html))
  \<and> (conforms t kvs \<longrightarrow> (\<exists>h. resultsHtml rt t (JObj kvs) = Inr h))\<close>
proof -
  have c_triage: \<open>(resultsHtml rt Triage (JObj kvs) = Inr html \<longrightarrow>
        (map_of kvs ''vitals_extraction'' \<in> {None, Some JNull} \<longrightarrow>
          sublist ''<p class="no-data">No vitals extracted</p>'' html)
      \<and> (map_of kvs ''physical_assessment'' \<in> {None, Some JNull} \<longrightarrow>
          sublist ''<p class="no-data">No physical assessment available</p>'' html)
      \<and> (map_of kvs ''triage_analysis'' \<in> {None, Some JNull} \<longrightarrow>
          sublist ''<p class="no-data">No analysis available</p>'' html)
      \<and> (\<forall>obj key label unit. map_of kvs ''vitals_extraction'' = Some (JObj obj)
            \<and> (key, label, unit) \<in> set vitalsMap \<and> map_of obj key = None \<longrightarrow>
          sublist (''<span class="vital-label">'' @ label @ ''</span>
                <span class="vital-value ">Not recorded</span>'') html)
      \<and> (\<forall>obj key label unit. map_of kvs ''vitals_extraction'' = Some (JObj obj)
            \<and> (key, label, unit) \<in> set vitalsMap \<and> map_of obj key = Some JNull \<longrightarrow>
          sublist (''<span class="vital-label">'' @ label @ ''</span>
                <span class="vital-value missing">Not recorded</span>'') html)
      \<and> (\<forall>obj. map_of kvs ''triage_analysis'' = Some (JObj obj)
            \<and> map_of obj ''priority'' \<in> {None, Some JNull} \<longrightarrow>
          sublist ''<span class="priority-text">Unknown Priority</span>'' html))\<close>
  proof (intro impI conjI allI)
    assume r: "resultsHtml rt Triage (JObj kvs) = Inr html"
    show \<open>sublist ''<p class="no-data">No vitals extracted</p>'' html\<close>
      if h: \<open>map_of kvs ''vitals_extraction'' \<in> {None, Some JNull}\<close>
    proof -
      have \<open>shows_text ''<p class="no-data">No vitals extracted</p>''
          (resultsHtml rt Triage (JObj kvs))\<close>
        by (rule resultsHtml_placeholder_vitals_extraction [OF assms h])
      with r show ?thesis by simp
    qed
    show \<open>sublist ''<p class="no-data">No physical assessment available</p>'' html\<close>
      if h: \<open>map_of kvs ''physical_assessment'' \<in> {None, Some JNull}\<close>
    proof -
      have \<open>shows_text ''<p class="no-data">No physical assessment available</p>''
          (resultsHtml rt Triage (JObj kvs))\<close>
        by (rule resultsHtml_placeholder_physical_assessment [OF assms h])
      with r show ?thesis by simp
    qed
    show \<open>sublist ''<p class="no-data">No analysis available</p>'' html\<close>
      if h: \<open>map_of kvs ''triage_analysis'' \<in> {None, Some JNull}\<close>
    proof -
      have \<open>shows_text ''<p class="no-data">No analysis available</p>''
          (resultsHtml rt Triage (JObj kvs))\<close>
        by (rule resultsHtml_placeholder_triage_analysis [OF assms h])
      with r show ?thesis by simp
    qed
    show \<open>sublist (''<span class="vital-label">'' @ label @ ''</span>
                <span class="vital-value ">Not recorded</span>'') html\<close>
      if h: \<open>map_of kvs ''vitals_extraction'' = Some (JObj obj)
            \<and> (key, label, unit) \<in> set vitalsMap \<and> map_of obj key = None\<close> for obj key label unit
    proof -
      from h have v: "(case map_of kvs ''vitals_extraction'' of None \<Rightarrow> JUndefined | Some v \<Rightarrow> v) = JObj obj"
        by simp
      have \<open>shows_text (''<span class="vital-label">'' @ label @ ''</span>
                <span class="vital-value ">Not recorded</span>'')
          (resultsHtml rt Triage (JObj kvs))\<close>
        apply (rule resultsHtml_shows_vitals_extraction [OF assms])
        unfolding v
        using h apply (intro buildVitalsTable_shows_absent [of key label unit])
        apply simp_all
        done
      with r show ?thesis by simp
    qed
    show \<open>sublist (''<span class="vital-label">'' @ label @ ''</span>
                <span class="vital-value missing">Not recorded</span>'') html\<close>
      if h: \<open>map_of kvs ''vitals_extraction'' = Some (JObj obj)
            \<and> (key, label, unit) \<in> set vitalsMap \<and> map_of obj key = Some JNull\<close> for obj key label unit
    proof -
      from h have v: "(case map_of kvs ''vitals_extraction'' of None \<Rightarrow> JUndefined | Some v \<Rightarrow> v) = JObj obj"
        by simp
      have \<open>shows_text (''<span class="vital-label">'' @ label @ ''</span>
                <span class="vital-value missing">Not recorded</span>'')
          (resultsHtml rt Triage (JObj kvs))\<close>
        apply (rule resultsHtml_shows_vitals_extraction [OF assms])
        unfolding v
        using h apply (intro buildVitalsTable_shows_null [of key label unit])
        apply simp_all
        done
      with r show ?thesis by simp
    qed
    show \<open>sublist ''<span class="priority-text">Unknown Priority</span>'' html\<close>
      if h: \<open>map_of kvs ''triage_analysis'' = Some (JObj obj)
            \<and> map_of obj ''priority'' \<in> {None, Some JNull}\<close> for obj
    proof -
      from h have v: "(case map_of kvs ''triage_analysis'' of None \<Rightarrow> JUndefined | Some v \<Rightarrow> v) = JObj obj"
        by simp
      have \<open>shows_text ''<span class="priority-text">Unknown Priority</span>''
          (resultsHtml rt Triage (JObj kvs))\<close>
        apply (rule resultsHtml_shows_triage_analysis [OF assms])
        unfolding v
        using h apply (intro buildTriageAnalysis_shows_unknown_priority)
        apply simp_all
        done
      with r show ?thesis by simp
    qed
  qed

  have c_reports: \<open>(resultsHtml rt Reports (JObj kvs) = Inr html \<longrightarrow>
        (map_of kvs ''extracted_tests'' \<in> {None, Some JNull, Some (JArr [])} \<longrightarrow>
          sublist (''<p class="no-data">'' @ u_warning_sign @ u_vs16 @ '' No test data extracted. The image might need better quality or different angle.</p>'') html)
      \<and> (map_of kvs ''patient_explanations'' \<in> {None, Some JNull} \<longrightarrow>
          sublist ''<p class="no-data">No explanations available</p>'' html)
      \<and> (\<forall>obj. map_of kvs ''patient_explanations'' = Some (JObj obj)
            \<and> map_of obj ''explanations'' \<in> {None, Some JNull} \<longrightarrow>
          sublist ''<p class="no-data">No explanations available</p>'' html)
      \<and> (\<forall>tests obj. map_of kvs ''extracted_tests'' = Some (JArr tests) \<and> JObj obj \<in> set tests
            \<and> map_of obj ''test_name'' \<in> {None, Some JNull} \<longrightarrow>
          sublist ''<span class="test-name">Unknown</span>'' html)
      \<and> (\<forall>tests obj. map_of kvs ''extracted_tests'' = Some (JArr tests) \<and> JObj obj \<in> set tests
            \<and> map_of obj ''result'' \<in> {None, Some JNull} \<longrightarrow>
          sublist ''<span class="test-result">N/A '' html)
      \<and> (\<forall>tests obj. map_of kvs ''extracted_tests'' = Some (JArr tests) \<and> JObj obj \<in> set tests
            \<and> map_of obj ''reference_range'' \<in> {None, Some JNull} \<longrightarrow>
          sublist ''<span class="test-range">N/A</span>'' html)
      \<and> (\<forall>tests obj. map_of kvs ''extracted_tests'' = Some (JArr tests) \<and> JObj obj \<in> set tests
            \<and> map_of obj ''status'' \<in> {None, Some JNull} \<longrightarrow>
          sublist ''<span class="test-status unknown">Unknown</span>'' html))\<close>
  proof (intro impI conjI allI)
    assume r: "resultsHtml rt Reports (JObj kvs) = Inr html"
    show \<open>sublist (''<p class="no-data">'' @ u_warning_sign @ u_vs16 @ '' No test data extracted. The image might need better quality or different angle.</p>'') html\<close>
      if h: \<open>map_of kvs ''extracted_tests'' \<in> {None, Some JNull, Some (JArr [])}\<close>
    proof -
      from h have \<open>buildTestsTable rt (case map_of kvs ''extracted_tests'' of None \<Rightarrow> JUndefined | Some v \<Rightarrow> v)
          = Inr (''<p class="no-data">'' @ u_warning_sign @ u_vs16 @ '' No test data extracted. The image might need better quality or different angle.</p>'')\<close>
        by (auto simp: buildTestsTable_nullish buildTestsTable_empty)
      then have \<open>shows_text (''<p class="no-data">'' @ u_warning_sign @ u_vs16 @ '' No test data extracted. The image might need better quality or different angle.</p>'')
          (resultsHtml rt Reports (JObj kvs))\<close>
        by (intro resultsHtml_shows_extracted_tests [OF assms]) simp
      with r show ?thesis by simp
    qed
    show \<open>sublist ''<p class="no-data">No explanations available</p>'' html\<close>
      if h: \<open>map_of kvs ''patient_explanations'' \<in> {None, Some JNull}\<close>
    proof -
      have \<open>shows_text ''<p class="no-data">No explanations available</p>''
          (resultsHtml rt Reports (JObj kvs))\<close>
        by (rule resultsHtml_placeholder_patient_explanations [OF assms h])
      with r show ?thesis by simp
    qed
    show \<open>sublist ''<p class="no-data">No explanations available</p>'' html\<close>
      if h: \<open>map_of kvs ''patient_explanations'' = Some (JObj obj)
            \<and> map_of obj ''explanations'' \<in> {None, Some JNull}\<close> for obj
    proof -
      from h have v: "(case map_of kvs ''patient_explanations'' of None \<Rightarrow> JUndefined | Some v \<Rightarrow> v) = JObj obj"
        by simp
      from h have \<open>buildPatientExplanation rt (JObj obj) = Inr ''<p class="no-data">No explanations available</p>''\<close>
        by (intro buildPatientExplanation_no_list) simp
      then have \<open>shows_text ''<p class="no-data">No explanations available</p>''
          (resultsHtml rt Reports (JObj kvs))\<close>
        by (intro resultsHtml_shows_patient_explanations [OF assms]) (simp add: v)
      with r show ?thesis by simp
    qed
    show \<open>sublist ''<span class="test-name">Unknown</span>'' html\<close>
      if h: \<open>map_of kvs ''extracted_tests'' = Some (JArr tests) \<and> JObj obj \<in> set tests
            \<and> map_of obj ''test_name'' \<in> {None, Some JNull}\<close> for tests obj
    proof -
      from h have v: "(case map_of kvs ''extracted_tests'' of None \<Rightarrow> JUndefined | Some v \<Rightarrow> v) = JArr tests"
        by simp
      from h have \<open>shows_text ''<span class="test-name">Unknown</span>'' (testRow (JObj obj))\<close>
        by (intro testRow_shows_missing_test_name) simp
      with h have \<open>shows_text ''<span class="test-name">Unknown</span>'' (buildTestsTable rt (JArr tests))\<close>
        by (intro buildTestsTable_shows_row [of "JObj obj"]) simp_all
      then have \<open>shows_text ''<span class="test-name">Unknown</span>''
          (resultsHtml rt Reports (JObj kvs))\<close>
        by (intro resultsHtml_shows_extracted_tests [OF assms]) (simp add: v)
      with r show ?thesis by simp
    qed
    show \<open>sublist ''<span class="test-result">N/A '' html\<close>
      if h: \<open>map_of kvs ''extracted_tests'' = Some (JArr tests) \<and> JObj obj \<in> set tests
            \<and> map_of obj ''result'' \<in> {None, Some JNull}\<close> for tests obj
    proof -
      from h have v: "(case map_of kvs ''extracted_tests'' of None \<Rightarrow> JUndefined | Some v \<Rightarrow> v) = JArr tests"
        by simp
      from h have \<open>shows_text ''<span class="test-result">N/A '' (testRow (JObj obj))\<close>
        by (intro testRow_shows_missing_result) simp
      with h have \<open>shows_text ''<span class="test-result">N/A '' (buildTestsTable rt (JArr tests))\<close>
        by (intro buildTestsTable_shows_row [of "JObj obj"]) simp_all
      then have \<open>shows_text ''<span class="test-result">N/A ''
          (resultsHtml rt Reports (JObj kvs))\<close>
        by (intro resultsHtml_shows_extracted_tests [OF assms]) (simp add: v)
      with r show ?thesis by simp
    qed
    show \<open>sublist ''<span class="test-range">N/A</span>'' html\<close>
      if h: \<open>map_of kvs ''extracted_tests'' = Some (JArr tests) \<and> JObj obj \<in> set tests
            \<and> map_of obj ''reference_range'' \<in> {None, Some JNull}\<close> for tests obj
    proof -
      from h have v: "(case map_of kvs ''extracted_tests'' of None \<Rightarrow> JUndefined | Some v \<Rightarrow> v) = JArr tests"
        by simp
      from h have \<open>shows_text ''<span class="test-range">N/A</span>'' (testRow (JObj obj))\<close>
        by (intro testRow_shows_missing_reference_range) simp
      with h have \<open>shows_text ''<span class="test-range">N/A</span>'' (buildTestsTable rt (JArr tests))\<close>
        by (intro buildTestsTable_shows_row [of "JObj obj"]) simp_all
      then have \<open>shows_text ''<span class="test-range">N/A</span>''
          (resultsHtml rt Reports (JObj kvs))\<close>
        by (intro resultsHtml_shows_extracted_tests [OF assms]) (simp add: v)
      with r show ?thesis by simp
    qed
    show \<open>sublist ''<span class="test-status unknown">Unknown</span>'' html\<close>
      if h: \<open>map_of kvs ''extracted_tests'' = Some (JArr tests) \<and> JObj obj \<in> set tests
            \<and> map_of obj ''status'' \<in> {None, Some JNull}\<close> for tests obj
    proof -
      from h have v: "(case map_of kvs ''extracted_tests'' of None \<Rightarrow> JUndefined | Some v \<Rightarrow> v) = JArr tests"
        by simp
      from h have \<open>shows_text ''<span class="test-status unknown">Unknown</span>'' (testRow (JObj obj))\<close>
        by (intro testRow_shows_missing_status) simp
      with h have \<open>shows_text ''<span class="test-status unknown">Unknown</span>'' (buildTestsTable rt (JArr tests))\<close>
        by (intro buildTestsTable_shows_row [of "JObj obj"]) simp_all
      then have \<open>shows_text ''<span class="test-status unknown">Unknown</span>''
          (resultsHtml rt Reports (JObj kvs))\<close>
        by (intro resultsHtml_shows_extracted_tests [OF assms]) (simp add: v)
      with r show ?thesis by simp
    qed
  qed

  have c_scribe: \<open>(resultsHtml rt Scribe (JObj kvs) = Inr html \<longrightarrow>
        (map_of kvs ''transcribed_notes'' \<in> {None, Some JNull} \<longrightarrow>
          sublist ''<p class="no-data">No notes transcribed</p>'' html)
      \<and> (map_of kvs ''doctor_summary'' \<in> {None, Some JNull} \<longrightarrow>
          sublist ''<p class="no-data">No executive summary available</p>'' html)
      \<and> (\<forall>obj. map_of kvs ''transcribed_notes'' = Some (JObj obj)
            \<and> map_of obj ''allergies'' \<in> {None, Some JNull} \<longrightarrow>
          sublist ''<p class="no-allergies">No allergies noted</p>'' html))\<close>
  proof (intro impI conjI allI)
    assume r: "resultsHtml rt Scribe (JObj kvs) = Inr html"
    show \<open>sublist ''<p class="no-data">No notes transcribed</p>'' html\<close>
      if h: \<open>map_of kvs ''transcribed_notes'' \<in> {None, Some JNull}\<close>
    proof -
      have \<open>shows_text ''<p class="no-data">No notes transcribed</p>''
          (resultsHtml rt Scribe (JObj kvs))\<close>
        by (rule resultsHtml_placeholder_transcribed_notes [OF assms h])
      with r show ?thesis by simp
    qed
    show \<open>sublist ''<p class="no-data">No executive summary available</p>'' html\<close>
      if h: \<open>map_of kvs ''doctor_summary'' \<in> {None, Some JNull}\<close>
    proof -
      have \<open>shows_text ''<p class="no-data">No executive summary available</p>''
          (resultsHtml rt Scribe (JObj kvs))\<close>
        by (rule resultsHtml_placeholder_doctor_summary [OF assms h])
      with r show ?thesis by simp
    qed
    show \<open>sublist ''<p class="no-allergies">No allergies noted</p>'' html\<close>
      if h: \<open>map_of kvs ''transcribed_notes'' = Some (JObj obj)
            \<and> map_of obj ''allergies'' \<in> {None, Some JNull}\<close> for obj
    proof -
      from h have v: "(case map_of kvs ''transcribed_notes'' of None \<Rightarrow> JUndefined | Some v \<Rightarrow> v) = JObj obj"
        by simp
      have \<open>shows_text ''<p class="no-allergies">No allergies noted</p>''
          (resultsHtml rt Scribe (JObj kvs))\<close>
        apply (rule resultsHtml_shows_transcribed_notes [OF assms])
        unfolding v
        using h apply (intro buildTranscribedNotes_shows_no_allergies)
        apply simp_all
        done
      with r show ?thesis by simp
    qed
  qed

  have c_poly: \<open>(resultsHtml rt Polypharmacy (JObj kvs) = Inr html \<longrightarrow>
        (map_of kvs ''medicines_extracted'' \<in> {None, Some JNull, Some (JArr [])} \<longrightarrow>
          sublist (''<p class="no-data">'' @ u_warning_sign @ u_vs16 @ '' No medicines detected. Please ensure images show medicine strips or prescriptions clearly.</p>'') html)
      \<and> (map_of kvs ''safety_analysis'' \<in> {None, Some JNull} \<longrightarrow>
          sublist ''<p class="no-data">No safety analysis available</p>'' html)
      \<and> (\<forall>meds obj. map_of kvs ''medicines_extracted'' = Some (JArr meds) \<and> JObj obj \<in> set meds
            \<and> map_of obj ''brand_name'' \<in> {None, Some JNull} \<longrightarrow>
          sublist ''<span class="brand-name">[Unclear]</span>'' html)
      \<and> (\<forall>meds obj. map_of kvs ''medicines_extracted'' = Some (JArr meds) \<and> JObj obj \<in> set meds
            \<and> map_of obj ''generic_name'' \<in> {None, Some JNull} \<longrightarrow>
          sublist ''<span class="generic-name">[Unclear]</span>'' html)
      \<and> (\<forall>meds obj. map_of kvs ''medicines_extracted'' = Some (JArr meds) \<and> JObj obj \<in> set meds
            \<and> map_of obj ''strength'' \<in> {None, Some JNull} \<longrightarrow>
          sublist (''<span class="strength">'' @ u_flexed_biceps @ '' [Unclear]</span>'') html)
      \<and> (\<forall>meds obj. map_of kvs ''medicines_extracted'' = Some (JArr meds) \<and> JObj obj \<in> set meds
            \<and> map_of obj ''form'' \<in> {None, Some JNull} \<longrightarrow>
          sublist (''<span class="form">'' @ u_pill @ '' [Unclear]</span>'') html)
      \<and> (\<forall>obj. map_of kvs ''safety_analysis'' = Some (JObj obj)
            \<and> map_of obj ''urgency'' \<in> {None, Some JNull} \<longrightarrow>
          sublist ''<span class="urgency-text">Unknown Urgency</span>'' html))\<close>
  proof (intro impI conjI allI)
    assume r: "resultsHtml rt Polypharmacy (JObj kvs) = Inr html"
    show \<open>sublist (''<p class="no-data">'' @ u_warning_sign @ u_vs16 @ '' No medicines detected. Please ensure images show medicine strips or prescriptions clearly.</p>'') html\<close>
      if h: \<open>map_of kvs ''medicines_extracted'' \<in> {None, Some JNull, Some (JArr [])}\<close>
    proof -
      from h have \<open>buildMedicinesList rt (case map_of kvs ''medicines_extracted'' of None \<Rightarrow> JUndefined | Some v \<Rightarrow> v)
          = Inr (''<p class="no-data">'' @ u_warning_sign @ u_vs16 @ '' No medicines detected. Please ensure images show medicine strips or prescriptions clearly.</p>'')\<close>
        by (auto simp: buildMedicinesList_nullish buildMedicinesList_empty)
      then have \<open>shows_text (''<p class="no-data">'' @ u_warning_sign @ u_vs16 @ '' No medicines detected. Please ensure images show medicine strips or prescriptions clearly.</p>'')
          (resultsHtml rt Polypharmacy (JObj kvs))\<close>
        by (intro resultsHtml_shows_medicines_extracted [OF assms]) simp
      with r show ?thesis by simp
    qed
    show \<open>sublist ''<p class="no-data">No safety analysis available</p>'' html\<close>
      if h: \<open>map_of kvs ''safety_analysis'' \<in> {None, Some JNull}\<close>
    proof -
      have \<open>shows_text ''<p class="no-data">No safety analysis available</p>''
          (resultsHtml rt Polypharmacy (JObj kvs))\<close>
        by (rule resultsHtml_placeholder_safety_analysis [OF assms h])
      with r show ?thesis by simp
    qed
    show \<open>sublist ''<span class="brand-name">[Unclear]</span>'' html\<close>
      if h: \<open>map_of kvs ''medicines_extracted'' = Some (JArr meds) \<and> JObj obj \<in> set meds
            \<and> map_of obj ''brand_name'' \<in> {None, Some JNull}\<close> for meds obj
    proof -
      from h have v: "(case map_of kvs ''medicines_extracted'' of None \<Rightarrow> JUndefined | Some v \<Rightarrow> v) = JArr meds"
        by simp
      from h have \<open>shows_text ''<span class="brand-name">[Unclear]</span>'' (medicineCard (JObj obj))\<close>
        by (intro medicineCard_shows_missing_brand_name) simp
      with h have \<open>shows_text ''<span class="brand-name">[Unclear]</span>'' (buildMedicinesList rt (JArr meds))\<close>
        by (intro buildMedicinesList_shows_card [of "JObj obj"]) simp_all
      then have \<open>shows_text ''<span class="brand-name">[Unclear]</span>''
          (resultsHtml rt Polypharmacy (JObj kvs))\<close>
        by (intro resultsHtml_shows_medicines_extracted [OF assms]) (simp add: v)
      with r show ?thesis by simp
    qed
    show \<open>sublist ''<span class="generic-name">[Unclear]</span>'' html\<close>
      if h: \<open>map_of kvs ''medicines_extracted'' = Some (JArr meds) \<and> JObj obj \<in> set meds
            \<and> map_of obj ''generic_name'' \<in> {None, Some JNull}\<close> for meds obj
    proof -
      from h have v: "(case map_of kvs ''medicines_extracted'' of None \<Rightarrow> JUndefined | Some v \<Rightarrow> v) = JArr meds"
        by simp
      from h have \<open>shows_text ''<span class="generic-name">[Unclear]</span>'' (medicineCard (JObj obj))\<close>
        by (intro medicineCard_shows_missing_generic_name) simp
      with h have \<open>shows_text ''<span class="generic-name">[Unclear]</span>'' (buildMedicinesList rt (JArr meds))\<close>
        by (intro buildMedicinesList_shows_card [of "JObj obj"]) simp_all
      then have \<open>shows_text ''<span class="generic-name">[Unclear]</span>''
          (resultsHtml rt Polypharmacy (JObj kvs))\<close>
        by (intro resultsHtml_shows_medicines_extracted [OF assms]) (simp add: v)
      with r show ?thesis by simp
    qed
    show \<open>sublist (''<span class="strength">'' @ u_flexed_biceps @ '' [Unclear]</span>'') html\<close>
      if h: \<open>map_of kvs ''medicines_extracted'' = Some (JArr meds) \<and> JObj obj \<in> set meds
            \<and> map_of obj ''strength'' \<in> {None, Some JNull}\<close> for meds obj
    proof -
      from h have v: "(case map_of kvs ''medicines_extracted'' of None \<Rightarrow> JUndefined | Some v \<Rightarrow> v) = JArr meds"
        by simp
      from h have \<open>shows_text (''<span class="strength">'' @ u_flexed_biceps @ '' [Unclear]</span>'') (medicineCard (JObj obj))\<close>
        by (intro medicineCard_shows_missing_strength) simp
      with h have \<open>shows_text (''<span class="strength">'' @ u_flexed_biceps @ '' [Unclear]</span>'') (buildMedicinesList rt (JArr meds))\<close>
        by (intro buildMedicinesList_shows_card [of "JObj obj"]) simp_all
      then have \<open>shows_text (''<span class="strength">'' @ u_flexed_biceps @ '' [Unclear]</span>'')
          (resultsHtml rt Polypharmacy (JObj kvs))\<close>
        by (intro resultsHtml_shows_medicines_extracted [OF assms]) (simp add: v)
      with r show ?thesis by simp
    qed
    show \<open>sublist (''<span class="form">'' @ u_pill @ '' [Unclear]</span>'') html\<close>
      if h: \<open>map_of kvs ''medicines_extracted'' = Some (JArr meds) \<and> JObj obj \<in> set meds
            \<and> map_of obj ''form'' \<in> {None, Some JNull}\<close> for meds obj
    proof -
      from h have v: "(case map_of kvs ''medicines_extracted'' of None \<Rightarrow> JUndefined | Some v \<Rightarrow> v) = JArr meds"
        by simp
      from h have \<open>shows_text (''<span class="form">'' @ u_pill @ '' [Unclear]</span>'') (medicineCard (JObj obj))\<close>
        by (intro medicineCard_shows_missing_form) simp
      with h have \<open>shows_text (''<span class="form">'' @ u_pill @ '' [Unclear]</span>'') (buildMedicinesList rt (JArr meds))\<close>
        by (intro buildMedicinesList_shows_card [of "JObj obj"]) simp_all
      then have \<open>shows_text (''<span class="form">'' @ u_pill @ '' [Unclear]</span>'')
          (resultsHtml rt Polypharmacy (JObj kvs))\<close>
        by (intro resultsHtml_shows_medicines_extracted [OF assms]) (simp add: v)
      with r show ?thesis by simp
    qed
    show \<open>sublist ''<span class="urgency-text">Unknown Urgency</span>'' html\<close>
      if h: \<open>map_of kvs ''safety_analysis'' = Some (JObj obj)
            \<and> map_of obj ''urgency'' \<in> {None, Some JNull}\<close> for obj
    proof -
      from h have v: "(case map_of kvs ''safety_analysis'' of None \<Rightarrow> JUndefined | Some v \<Rightarrow> v) = JObj obj"
        by simp
      have \<open>shows_text ''<span class="urgency-text">Unknown Urgency</span>''
          (resultsHtml rt Polypharmacy (JObj kvs))\<close>
        apply (rule resultsHtml_shows_safety_analysis [OF assms])
        unfolding v
        using h apply (intro buildSafetyAnalysis_shows_unknown_urgency)
        apply simp_all
        done
      with r show ?thesis by simp
    qed
  qed

  have c_returns: "conforms t kvs \<longrightarrow> (\<exists>h. resultsHtml rt t (JObj kvs) = Inr h)"
    using resultsHtml_conforms [OF assms, of t rt] by (simp add: returns_iff)
  show ?thesis
    by (rule conjI [OF c_triage conjI [OF c_reports conjI [OF c_scribe conjI [OF c_poly c_returns]]]])
qed

theorem absent_fields_render_placeholders_witness:
  \<open>sublist ''<p class="no-data">No physical assessment available</p>'' triageScenarioHtml
   \<and> sublist (''<span class="vital-label">'' @ (u_stethoscope @ '' Blood Pressure'') @ ''</span>
                <span class="vital-value missing">Not recorded</span>'') triageScenarioHtml
   \<and> sublist ''<p class="no-data">No explanations available</p>'' markupReportHtml
   \<and> sublist ''<span class="test-result">N/A '' markupReportHtml
   \<and> sublist ''<p class="no-allergies">No allergies noted</p>'' markupNotesHtml
   \<and> sublist ''<span class="generic-name">[Unclear]</span>'' markupMedicineHtml
   \<and> (\<exists>h. resultsHtml exampleRuntime Polypharmacy markupMedicine = Inr h)
   \<and> (\<exists>h. resultsHtml exampleRuntime Scribe (JObj [(''status'', JStr ''success'')]) = Inr h)
   \<and> (\<exists>h. resultsHtml exampleRuntime Reports markupReport = Inr h)
   \<and> (\<exists>h. resultsHtml exampleRuntime Triage triageScenario = Inr h)\<close>
proof -
  note t1 = absent_fields_render_placeholders [OF status_triageScenario,
      of exampleRuntime triageScenarioHtml]
  note a1 = mp [OF conjunct1 [OF t1] resultsHtml_triageScenario [unfolded triageScenario_def]]
  have 1: \<open>sublist ''<p class="no-data">No physical assessment available</p>'' triageScenarioHtml\<close>
    by (rule mp [OF conjunct1 [OF conjunct2 [OF a1]]]) simp
  have 2: \<open>sublist (''<span class="vital-label">'' @ (u_stethoscope @ '' Blood Pressure'') @ ''</span>
                <span class="vital-value missing">Not recorded</span>'') triageScenarioHtml\<close>
    by (rule conjunct1 [OF conjunct2 [OF conjunct2 [OF conjunct2 [OF conjunct2 [OF a1]]]], rule_format,
          of "[(''pulse'', JNum Positive ''110''), (''bp'', JNull),
                (''spo2'', JNum Positive ''94''), (''temperature'', JNum Positive ''38.2'')]"
            "''bp''" _ "''mmHg''"])
      (simp add: vitalsMap_def)
  note t2 = absent_fields_render_placeholders [OF status_markupReport,
      of exampleRuntime markupReportHtml]
  note a2 = mp [OF conjunct1 [OF conjunct2 [OF t2]] resultsHtml_markupReport [unfolded markupReport_def]]
  have 3: \<open>sublist ''<p class="no-data">No explanations available</p>'' markupReportHtml\<close>
    by (rule mp [OF conjunct1 [OF conjunct2 [OF a2]]]) simp
  have 4: \<open>sublist ''<span class="test-result">N/A '' markupReportHtml\<close>
    by (rule conjunct1 [OF conjunct2 [OF conjunct2 [OF conjunct2 [OF conjunct2 [OF a2]]]], rule_format,
          of "[JObj [(''test_name'', JStr ''<u>Hb</u>'')]]" "[(''test_name'', JStr ''<u>Hb</u>'')]"])
      simp
  note t3 = absent_fields_render_placeholders [OF status_markupNotes,
      of exampleRuntime markupNotesHtml]
  note a3 = mp [OF conjunct1 [OF conjunct2 [OF conjunct2 [OF t3]]] resultsHtml_markupNotes [unfolded markupNotes_def]]
  have 5: \<open>sublist ''<p class="no-allergies">No allergies noted</p>'' markupNotesHtml\<close>
    by (rule conjunct2 [OF conjunct2 [OF a3], rule_format,
          of "[(''chief_complaints'', JArr [JStr ''<i>fever</i>''])]"])
      simp
  note t4 = absent_fields_render_placeholders [OF status_markupMedicine,
      of exampleRuntime markupMedicineHtml]
  note a4 = mp [OF conjunct1 [OF conjunct2 [OF conjunct2 [OF conjunct2 [OF t4]]]] resultsHtml_markupMedicine [unfolded markupMedicine_def]]
  have 6: \<open>sublist ''<span class="generic-name">[Unclear]</span>'' markupMedicineHtml\<close>
    by (rule conjunct1 [OF conjunct2 [OF conjunct2 [OF conjunct2 [OF a4]]], rule_format,
          of "[JObj [(''brand_name'', JStr ''<b>Dolo</b>'')]]" "[(''brand_name'', JStr ''<b>Dolo</b>'')]"])
      simp
  note t7 = absent_fields_render_placeholders [OF status_markupMedicine,
      of exampleRuntime "[]" Polypharmacy]
  have 7: "\<exists>h. resultsHtml exampleRuntime Polypharmacy markupMedicine = Inr h"
    unfolding markupMedicine_def
    by (rule mp [OF conjunct2 [OF conjunct2 [OF conjunct2 [OF conjunct2 [OF t7]]]]]) (simp add: conforms_def optional_def isRecordList_def isRecord_def isExplanations_def own_def)
  have s: "map_of [(''status'', JStr ''success'')] ''status'' = Some (JStr ''success'')"
    by simp
  note t8 = absent_fields_render_placeholders [OF s, of exampleRuntime "[]" Scribe]
  have 8: "\<exists>h. resultsHtml exampleRuntime Scribe (JObj [(''status'', JStr ''success'')]) = Inr h"
    by (rule mp [OF conjunct2 [OF conjunct2 [OF conjunct2 [OF conjunct2 [OF t8]]]]]) (simp add: conforms_def optional_def isRecordList_def isRecord_def isExplanations_def own_def)
  note t9 = absent_fields_render_placeholders [OF status_markupReport,
      of exampleRuntime "[]" Reports]
  have 9: "\<exists>h. resultsHtml exampleRuntime Reports markupReport = Inr h"
    unfolding markupReport_def
    by (rule mp [OF conjunct2 [OF conjunct2 [OF conjunct2 [OF conjunct2 [OF t9]]]]]) (simp add: conforms_def optional_def isRecordList_def isRecord_def isExplanations_def own_def)
  note t10 = absent_fields_render_placeholders [OF status_triageScenario,
      of exampleRuntime "[]" Triage]
  have 10: "\<exists>h. resultsHtml exampleRuntime Triage triageScenario = Inr h"
    unfolding triageScenario_def
    by (rule mp [OF conjunct2 [OF conjunct2 [OF conjunct2 [OF conjunct2 [OF t10]]]]]) (simp add: conforms_def optional_def isRecordList_def isRecord_def isExplanations_def own_def)
  from 1 2 3 4 5 6 7 8 9 10 show ?thesis
    by (intro conjI)
qed

text \<open>
  C1 as stated fails. In the payload \<open>sparseTriage\<close> the physical assessment has none of
  its five fields and the analysis has no justification, no recommended action, no
  flags and no basis. Rendering returns, and the text it returns has no section for
  any of them and none of the placeholder texts of the script: the sections of the
  absent fields are left out. And rendering throws on a list of tests whose one entry
  is \<open>null\<close>.
\<close>

theorem absent_fields_left_out:
  "resultsHtml exampleRuntime Triage sparseTriage = Inr sparseTriageHtml
   \<and> \<not> sublist ''justification'' sparseTriageHtml
   \<and> \<not> sublist ''No '' sparseTriageHtml
   \<and> \<not> sublist ''Not recorded'' sparseTriageHtml
   \<and> \<not> sublist ''N/A'' sparseTriageHtml
   \<and> \<not> sublist ''Unknown'' sparseTriageHtml
   \<and> \<not> sublist ''[Unclear]'' sparseTriageHtml
   \<and> resultsHtml exampleRuntime Reports
        (JObj [(''status'', JStr ''success''), (''extracted_tests'', JArr [JNull])])
      = Inl (TypeError (''Cannot read properties of null (reading '' @ [CHR 0x27] @ ''status'' @ [CHR 0x27] @ '')''))"
proof -
  have r: "resultsHtml exampleRuntime Triage sparseTriage = Inr sparseTriageHtml"
    by (simp add: resultsHtml_def sparseTriage_def sparseTriageHtml_def buildTriageResults_def
      buildVitalsTable_def buildPhysicalAssessment_def buildTriageAnalysis_def template_def
      whenE_def truthyE_def hasItems_def vitalItem_def vitalsMap_def orElse_def
      priorityClass_def priorityIcon_def)
  have c: "CHR ''j'' \<notin> set sparseTriageHtml" "CHR ''N'' \<notin> set sparseTriageHtml"
    "CHR ''U'' \<notin> set sparseTriageHtml" "CHR ''['' \<notin> set sparseTriageHtml"
    by (simp_all add: sparseTriageHtml_def u_ambulance_def u_bar_chart_def u_beating_heart_def u_degree_sign_def u_eye_def u_large_red_circle_def u_lungs_def u_stethoscope_def u_thermometer_def u_vs16_def)
  have no: "\<not> sublist x sparseTriageHtml" if "ch \<in> set x" "ch \<notin> set sparseTriageHtml" for x ch
    using that set_mono_sublist by fastforce
  have "\<not> sublist ''justification'' sparseTriageHtml"
    by (rule no [OF _ c(1)]) simp
  moreover have "\<not> sublist ''No '' sparseTriageHtml"
    by (rule no [OF _ c(2)]) simp
  moreover have "\<not> sublist ''Not recorded'' sparseTriageHtml"
    by (rule no [OF _ c(2)]) simp
  moreover have "\<not> sublist ''N/A'' sparseTriageHtml"
    by (rule no [OF _ c(2)]) simp
  moreover have "\<not> sublist ''Unknown'' sparseTriageHtml"
    by (rule no [OF _ c(3)]) simp
  moreover have "\<not> sublist ''[Unclear]'' sparseTriageHtml"
    by (rule no [OF _ c(4)]) simp
  moreover have "resultsHtml exampleRuntime Reports
        (JObj [(''status'', JStr ''success''), (''extracted_tests'', JArr [JNull])])
      = Inl (TypeError (''Cannot read properties of null (reading '' @ [CHR 0x27] @ ''status'' @ [CHR 0x27] @ '')''))"
    by (simp add: resultsHtml_def buildReportsResults_def buildTestsTable_def testRow_def
        template_def)
  ultimately show ?thesis
    using r by blast
qed

end
